theory Spec2Isabelle
  imports Complex_Main
begin

text \<open>
  A model of the ZooKeeper part of the Cloudera Manager exporter: the scraper module
  \<^verbatim>\<open>collector/zookeeper.go\<close> (two revisions of it) and the standalone collector with
  \<^verbatim>\<open>Describe\<close>, \<^verbatim>\<open>Collect\<close> and \<^verbatim>\<open>fetchMetric\<close>. Functions of the source are
  functions here, under their names. What a function does beyond returning a value is
  explicit: the samples sent on a channel, the lines logged and the queries asked are
  lists in a state that is passed along; a panic and an error are values; what the network
  and the helpers outside the sources return is a parameter.
\<close>

section \<open>The Prometheus client library, as far as the exporter calls it\<close>

text \<open>
  The library is not part of the sources. The model is of \<^verbatim>\<open>client_golang\<close> 1.x with the
  names checked the way the library checked them before it accepted every UTF-8 name:
  what passes these checks passes the later ones.

  \<^verbatim>\<open>utf8.ValidString\<close> of Go's standard library, on the bytes of the string.
\<close>

definition continuation_byte :: "nat \<Rightarrow> bool" where
  "continuation_byte b = (0x80 \<le> b \<and> b \<le> 0xBF)"

fun ValidBytes :: "nat list \<Rightarrow> bool" where
  "ValidBytes [] = True"
| "ValidBytes (b # bs) =
     (if b < 0x80 then ValidBytes bs
      else if 0xC2 \<le> b \<and> b \<le> 0xDF then
        (case bs of
           c1 # r \<Rightarrow> continuation_byte c1 \<and> ValidBytes r
         | _ \<Rightarrow> False)
      else if b = 0xE0 then
        (case bs of
           c1 # c2 # r \<Rightarrow> 0xA0 \<le> c1 \<and> c1 \<le> 0xBF \<and> continuation_byte c2 \<and> ValidBytes r
         | _ \<Rightarrow> False)
      else if (0xE1 \<le> b \<and> b \<le> 0xEC) \<or> b = 0xEE \<or> b = 0xEF then
        (case bs of
           c1 # c2 # r \<Rightarrow> continuation_byte c1 \<and> continuation_byte c2 \<and> ValidBytes r
         | _ \<Rightarrow> False)
      else if b = 0xED then
        (case bs of
           c1 # c2 # r \<Rightarrow> 0x80 \<le> c1 \<and> c1 \<le> 0x9F \<and> continuation_byte c2 \<and> ValidBytes r
         | _ \<Rightarrow> False)
      else if b = 0xF0 then
        (case bs of
           c1 # c2 # c3 # r \<Rightarrow>
             0x90 \<le> c1 \<and> c1 \<le> 0xBF \<and> continuation_byte c2 \<and> continuation_byte c3
             \<and> ValidBytes r
         | _ \<Rightarrow> False)
      else if 0xF1 \<le> b \<and> b \<le> 0xF3 then
        (case bs of
           c1 # c2 # c3 # r \<Rightarrow>
             continuation_byte c1 \<and> continuation_byte c2 \<and> continuation_byte c3
             \<and> ValidBytes r
         | _ \<Rightarrow> False)
      else if b = 0xF4 then
        (case bs of
           c1 # c2 # c3 # r \<Rightarrow>
             0x80 \<le> c1 \<and> c1 \<le> 0x8F \<and> continuation_byte c2 \<and> continuation_byte c3
             \<and> ValidBytes r
         | _ \<Rightarrow> False)
      else False)"

definition ValidString :: "string \<Rightarrow> bool" where
  "ValidString s = ValidBytes (map of_char s)"

text \<open>
  \<^verbatim>\<open>model.IsValidMetricName\<close> and \<^verbatim>\<open>model.LabelName.IsValid\<close>: a name is not empty, is
  made of ASCII letters, digits and underscores (a metric name of colons too), and does not
  begin with a digit. \<^verbatim>\<open>checkLabelName\<close> also refuses a label name that begins with two
  underscores.
\<close>

definition ascii_letter :: "char \<Rightarrow> bool" where
  "ascii_letter c =
     (let n = (of_char c :: nat) in (97 \<le> n \<and> n \<le> 122) \<or> (65 \<le> n \<and> n \<le> 90))"

definition ascii_digit :: "char \<Rightarrow> bool" where
  "ascii_digit c = (let n = (of_char c :: nat) in 48 \<le> n \<and> n \<le> 57)"

definition metric_name_char :: "char \<Rightarrow> bool" where
  "metric_name_char c = (ascii_letter c \<or> c = CHR ''_'' \<or> c = CHR '':'' \<or> ascii_digit c)"

definition IsValidMetricName :: "string \<Rightarrow> bool" where
  "IsValidMetricName n =
     (n \<noteq> [] \<and> \<not> ascii_digit (hd n) \<and> list_all metric_name_char n)"

definition label_name_char :: "char \<Rightarrow> bool" where
  "label_name_char c = (ascii_letter c \<or> c = CHR ''_'' \<or> ascii_digit c)"

definition LabelName_IsValid :: "string \<Rightarrow> bool" where
  "LabelName_IsValid l =
     (l \<noteq> [] \<and> \<not> ascii_digit (hd l) \<and> list_all label_name_char l)"

definition checkLabelName :: "string \<Rightarrow> bool" where
  "checkLabelName l = (LabelName_IsValid l \<and> take 2 l \<noteq> ''__'')"

text \<open>
  A descriptor (\<^verbatim>\<open>prometheus.Desc\<close>) is built by \<^verbatim>\<open>prometheus.NewDesc(fqName, help,
  variableLabels, constLabels)\<close>. Every call of the repository passes \<^verbatim>\<open>nil\<close> constant
  labels, so the record keeps the three other arguments, and the error \<^verbatim>\<open>NewDesc\<close>
  stores in the descriptor when it refuses the metric name, a label name, or a label name
  given twice (\<open>None\<close> is \<^verbatim>\<open>nil\<close>).
\<close>

datatype desc_error =
  NotAValidMetricName string | NotAValidLabelName string | DuplicateLabelNames

record Desc =
  fqName :: string
  helpText :: string
  variableLabels :: "string list"
  descErr :: "desc_error option"

definition NewDesc :: "string \<Rightarrow> string \<Rightarrow> string list \<Rightarrow> Desc" where
  "NewDesc name helpText' labels =
     \<lparr>fqName = name, helpText = helpText', variableLabels = labels,
      descErr =
        (if \<not> IsValidMetricName name then Some (NotAValidMetricName name)
         else (case find (\<lambda>l. \<not> checkLabelName l) labels of
                 Some l \<Rightarrow> Some (NotAValidLabelName l)
               | None \<Rightarrow> if \<not> distinct labels then Some DuplicateLabelNames else None))\<rparr>"

text \<open>
  \<^verbatim>\<open>prometheus.BuildFQName\<close> joins the non-empty parts with an underscore; an empty
  name gives the empty string.
\<close>

definition BuildFQName :: "string \<Rightarrow> string \<Rightarrow> string \<Rightarrow> string" where
  "BuildFQName ns subsystem name =
     (if name = [] then []
      else if ns \<noteq> [] \<and> subsystem \<noteq> [] then ns @ ''_'' @ subsystem @ ''_'' @ name
      else if ns \<noteq> [] then ns @ ''_'' @ name
      else if subsystem \<noteq> [] then subsystem @ ''_'' @ name
      else name)"

datatype ValueType = CounterValue | GaugeValue | UntypedValue

text \<open>
  A sample (\<^verbatim>\<open>prometheus.Metric\<close> built by \<^verbatim>\<open>MustNewConstMetric\<close>): its descriptor, its
  value type, its value and the label values in the order they were supplied. The value is
  a \<^verbatim>\<open>float64\<close> in the source; the model leaves its type \<open>'v\<close> open, so nothing proved here
  depends on how floating point numbers round.
\<close>

record 'v Metric =
  desc :: Desc
  valueType :: ValueType
  val :: 'v
  labelValues :: "string list"

text \<open>
  \<^verbatim>\<open>MustNewConstMetric\<close> panics with the error of \<^verbatim>\<open>NewConstMetric\<close>: the error stored
  in the descriptor, if there is one; else a number of label values that differs from the
  number of variable labels the descriptor declares; else the first label value that is
  not valid UTF-8. The panic is a value of the model.
\<close>

datatype panic =
  DescriptorError desc_error | InconsistentLabelCardinality | LabelValueNotUTF8 string

definition MustNewConstMetric ::
  "Desc \<Rightarrow> ValueType \<Rightarrow> 'v \<Rightarrow> string list \<Rightarrow> panic + 'v Metric" where
  "MustNewConstMetric d vt v lvs =
     (case descErr d of
        Some e \<Rightarrow> Inl (DescriptorError e)
      | None \<Rightarrow>
          if length lvs \<noteq> length (variableLabels d) then Inl InconsistentLabelCardinality
          else (case find (\<lambda>x. \<not> ValidString x) lvs of
                  Some x \<Rightarrow> Inl (LabelValueNotUTF8 x)
                | None \<Rightarrow> Inr \<lparr>desc = d, valueType = vt, val = v, labelValues = lvs\<rparr>))"

text \<open>
  Modelled from the spec: the kinds of failure of the query client (section 7 of the
  specification), the client itself not being part of the sources.
  \<open>UpstreamError\<close> carries the status code.
\<close>

datatype failure = TransportError | UpstreamError int | MalformedResponse

text \<open>
  A Go \<^verbatim>\<open>error\<close> value. The only error the repository builds itself is
  \<^verbatim>\<open>fmt.Errorf("non-200 response: %d", resp.StatusCode)\<close>; every other error comes out of
  a library or a helper and is kept by its message, or is a failure of the query client.
\<close>

datatype error = Non200Response int | OtherError string | Failure failure

section \<open>collector/zookeeper.go: the ZooKeeper scraper module\<close>

subsection \<open>Queries, descriptors and the binding table\<close>

definition ZK_SCRAPER_NAME :: string where
  "ZK_SCRAPER_NAME = ''zookeeper''"

definition ZK_ALERTS_RATE :: string where
  \<open>ZK_ALERTS_RATE =
     ''SELECT LAST(alerts_rate) WHERE category="SERVICE" AND serviceName="ZOOKEEPER"''\<close>

definition ZK_CANARY_DURATION :: string where
  \<open>ZK_CANARY_DURATION =
     ''SELECT LAST(canary_duration) WHERE category="SERVICE" AND serviceName="ZOOKEEPER"''\<close>

definition ZK_CURRENT_EPOCH_RATE :: string where
  \<open>ZK_CURRENT_EPOCH_RATE =
     ''SELECT LAST(current_epoch_rate) WHERE category="SERVICE" AND serviceName="ZOOKEEPER"''\<close>

definition ZK_CURRENT_XID :: string where
  \<open>ZK_CURRENT_XID =
     ''SELECT LAST(current_xid) WHERE category="SERVICE" AND serviceName="ZOOKEEPER"''\<close>

definition ZK_EVENTS_CRITICAL_RATE :: string where
  \<open>ZK_EVENTS_CRITICAL_RATE =
     ''SELECT LAST(events_critical_rate) WHERE category="SERVICE" AND serviceName="ZOOKEEPER"''\<close>

definition ZK_EVENTS_IMPORTANT_RATE :: string where
  \<open>ZK_EVENTS_IMPORTANT_RATE =
     ''SELECT LAST(events_important_rate) WHERE category="SERVICE" AND serviceName="ZOOKEEPER"''\<close>

definition ZK_EVENTS_INFORMATIONAL_RATE :: string where
  \<open>ZK_EVENTS_INFORMATIONAL_RATE =
     ''SELECT LAST(events_informational_rate) WHERE category="SERVICE" AND serviceName="ZOOKEEPER"''\<close>

definition ZK_HEALTH_BAD_RATE :: string where
  \<open>ZK_HEALTH_BAD_RATE =
     ''SELECT LAST(health_bad_rate) WHERE category="SERVICE" AND serviceName="ZOOKEEPER"''\<close>

definition ZK_HEALTH_CONCERNING_RATE :: string where
  \<open>ZK_HEALTH_CONCERNING_RATE =
     ''SELECT LAST(health_concerning_rate) WHERE category="SERVICE" AND serviceName="ZOOKEEPER"''\<close>

definition ZK_HEALTH_DISABLED_RATE :: string where
  \<open>ZK_HEALTH_DISABLED_RATE =
     ''SELECT LAST(health_disabled_rate) WHERE category="SERVICE" AND serviceName="ZOOKEEPER"''\<close>

definition ZK_HEALTH_GOOD_RATE :: string where
  \<open>ZK_HEALTH_GOOD_RATE =
     ''SELECT LAST(health_good_rate) WHERE category="SERVICE" AND serviceName="ZOOKEEPER"''\<close>

definition ZK_HEALTH_UNKNOWN_RATE :: string where
  \<open>ZK_HEALTH_UNKNOWN_RATE =
     ''SELECT LAST(health_unknown_rate) WHERE category="SERVICE" AND serviceName="ZOOKEEPER"''\<close>

definition ZK_ALERTS_RATE_ACROSS_CLUSTERS :: string where
  "ZK_ALERTS_RATE_ACROSS_CLUSTERS = ''SELECT LAST(alerts_rate_across_clusters)''"

definition ZK_TOTAL_ALERTS_RATE_ACROSS_CLUSTERS :: string where
  "ZK_TOTAL_ALERTS_RATE_ACROSS_CLUSTERS = ''SELECT LAST(total_alerts_rate_across_clusters)''"

text \<open>
  \<^verbatim>\<open>strings.ToUpper\<close> and \<^verbatim>\<open>strings.ReplaceAll(s, "_", " ")\<close>, on the ASCII letters
  that metric names are made of.
\<close>

definition ToUpper_char :: "char \<Rightarrow> char" where
  "ToUpper_char c =
     (let n = (of_char c :: nat) in if 97 \<le> n \<and> n \<le> 122 then char_of (n - 32) else c)"

definition ToUpper :: "string \<Rightarrow> string" where
  "ToUpper s = map ToUpper_char s"

definition ReplaceAll_underscore :: "string \<Rightarrow> string" where
  "ReplaceAll_underscore s = map (\<lambda>c. if c = CHR ''_'' then CHR '' '' else c) s"

text \<open>
  \<^verbatim>\<open>createZKMetricStruct\<close>. The package constant \<^verbatim>\<open>namespace\<close> is declared in a file
  that is not part of the sources, so it is the parameter \<open>ns\<close>.
\<close>

definition createZKMetricStruct :: "string \<Rightarrow> string \<Rightarrow> string \<Rightarrow> Desc" where
  "createZKMetricStruct ns metricName description =
     (let description' =
        (if length description = 0 then ReplaceAll_underscore (ToUpper metricName)
         else description)
      in NewDesc (BuildFQName ns ZK_SCRAPER_NAME metricName) description'
           [''cluster'', ''entityName''])"

definition zkAlertsRate :: "string \<Rightarrow> Desc" where
  "zkAlertsRate ns = createZKMetricStruct ns ''alerts_rate''
     ''Number of ZooKeeper alerts (events per second)''"

definition zkCanaryDuration :: "string \<Rightarrow> Desc" where
  "zkCanaryDuration ns = createZKMetricStruct ns ''canary_duration_ms''
     ''Duration of the last or currently running canary job (ms)''"

definition zkCurrentEpochRate :: "string \<Rightarrow> Desc" where
  "zkCurrentEpochRate ns = createZKMetricStruct ns ''current_epoch_rate''
     ''The current epoch (epoch per second)''"

definition zkCurrentXID :: "string \<Rightarrow> Desc" where
  "zkCurrentXID ns = createZKMetricStruct ns ''current_xid''
     ''The current ZooKeeper XID''"

definition zkEventsCriticalRate :: "string \<Rightarrow> Desc" where
  "zkEventsCriticalRate ns = createZKMetricStruct ns ''events_critical_rate''
     ''The number of critical events (events per second)''"

definition zkEventsImportantRate :: "string \<Rightarrow> Desc" where
  "zkEventsImportantRate ns = createZKMetricStruct ns ''events_important_rate''
     ''The number of important events (events per second)''"

definition zkEventsInformationalRate :: "string \<Rightarrow> Desc" where
  "zkEventsInformationalRate ns = createZKMetricStruct ns ''events_informational_rate''
     ''The number of informational events (events per second)''"

definition zkHealthBadRate :: "string \<Rightarrow> Desc" where
  "zkHealthBadRate ns = createZKMetricStruct ns ''health_bad_rate''
     ''Percentage of Time with Bad Health (s/s)''"

definition zkHealthConcerningRate :: "string \<Rightarrow> Desc" where
  "zkHealthConcerningRate ns = createZKMetricStruct ns ''health_concerning_rate''
     ''Percentage of Time with Concerning Health (s/s)''"

definition zkHealthDisabledRate :: "string \<Rightarrow> Desc" where
  "zkHealthDisabledRate ns = createZKMetricStruct ns ''health_disabled_rate''
     ''Percentage of Time with Disabled Health (s/s)''"

definition zkHealthGoodRate :: "string \<Rightarrow> Desc" where
  "zkHealthGoodRate ns = createZKMetricStruct ns ''health_good_rate''
     ''Percentage of Time with Good Health (s/s)''"

definition zkHealthUnknownRate :: "string \<Rightarrow> Desc" where
  "zkHealthUnknownRate ns = createZKMetricStruct ns ''health_unknown_rate''
     ''Percentage of Time with Unknown Health (s/s)''"

definition zkAlertsRateAcrossClusters :: "string \<Rightarrow> Desc" where
  "zkAlertsRateAcrossClusters ns = createZKMetricStruct ns ''alerts_rate_across_servers''
     ''Alerts rate aggregated across all clusters''"

definition zkTotalAlertsRateAcrossClusters :: "string \<Rightarrow> Desc" where
  "zkTotalAlertsRateAcrossClusters ns =
     createZKMetricStruct ns ''total_alerts_rate_across_servers''
       ''Total alerts rate aggregated across all clusters''"

text \<open>
  The struct \<^verbatim>\<open>relation\<close> pairs a query with a descriptor; its fields are the ones the
  module reads, \<^verbatim>\<open>rel.Query\<close> and \<^verbatim>\<open>rel.Metric_struct\<close>.
\<close>

record relation =
  Query :: string
  Metric_struct :: Desc

definition zkQueryVariableRelationship :: "string \<Rightarrow> relation list" where
  "zkQueryVariableRelationship ns =
     [\<lparr>Query = ZK_ALERTS_RATE, Metric_struct = zkAlertsRate ns\<rparr>,
      \<lparr>Query = ZK_CANARY_DURATION, Metric_struct = zkCanaryDuration ns\<rparr>,
      \<lparr>Query = ZK_CURRENT_EPOCH_RATE, Metric_struct = zkCurrentEpochRate ns\<rparr>,
      \<lparr>Query = ZK_CURRENT_XID, Metric_struct = zkCurrentXID ns\<rparr>,
      \<lparr>Query = ZK_EVENTS_CRITICAL_RATE, Metric_struct = zkEventsCriticalRate ns\<rparr>,
      \<lparr>Query = ZK_EVENTS_IMPORTANT_RATE, Metric_struct = zkEventsImportantRate ns\<rparr>,
      \<lparr>Query = ZK_EVENTS_INFORMATIONAL_RATE, Metric_struct = zkEventsInformationalRate ns\<rparr>,
      \<lparr>Query = ZK_HEALTH_BAD_RATE, Metric_struct = zkHealthBadRate ns\<rparr>,
      \<lparr>Query = ZK_HEALTH_CONCERNING_RATE, Metric_struct = zkHealthConcerningRate ns\<rparr>,
      \<lparr>Query = ZK_HEALTH_DISABLED_RATE, Metric_struct = zkHealthDisabledRate ns\<rparr>,
      \<lparr>Query = ZK_HEALTH_GOOD_RATE, Metric_struct = zkHealthGoodRate ns\<rparr>,
      \<lparr>Query = ZK_HEALTH_UNKNOWN_RATE, Metric_struct = zkHealthUnknownRate ns\<rparr>,
      \<lparr>Query = ZK_ALERTS_RATE_ACROSS_CLUSTERS, Metric_struct = zkAlertsRateAcrossClusters ns\<rparr>,
      \<lparr>Query = ZK_TOTAL_ALERTS_RATE_ACROSS_CLUSTERS,
       Metric_struct = zkTotalAlertsRateAcrossClusters ns\<rparr>]"

subsection \<open>The helpers the module calls\<close>

text \<open>
  \<^verbatim>\<open>make_and_parse_timeseries_query\<close> and the \<^verbatim>\<open>json_parser\<close> functions are called by
  the module and defined in files that are not part of the sources. They are parameters:
  a record of functions over a type \<open>'j\<close> of parsed responses, a type \<open>'cfg\<close> of
  connection data and a type \<open>'ctx\<close> of what a callee can observe of the context.
\<close>

record ('ctx, 'cfg, 'j, 'v) helpers =
  make_and_parse_timeseries_query :: "'ctx \<Rightarrow> 'cfg \<Rightarrow> string \<Rightarrow> error + 'j"
  Get_timeseries_num :: "'j \<Rightarrow> error + int"
  Get_timeseries_query_cluster :: "'j \<Rightarrow> int \<Rightarrow> string"
  Get_timeseries_query_entity_name :: "'j \<Rightarrow> int \<Rightarrow> string"
  Get_timeseries_query_value :: "'j \<Rightarrow> int \<Rightarrow> error + 'v"

subsection \<open>The state a scrape changes\<close>

text \<open>
  The module writes samples to the channel \<^verbatim>\<open>ch\<close> and lines to the debug log, and each
  call of \<^verbatim>\<open>make_and_parse_timeseries_query\<close> is a request to the upstream manager. The
  state keeps the three as lists, in the order of the writes. (A send on a channel nobody
  reads blocks; the model is of a channel that is read.)
\<close>

datatype log_entry = Debug_msg string "int list"

record 'v scrape_state =
  ch :: "'v Metric list"
  debug_log :: "log_entry list"
  queries :: "string list"

subsection \<open>createZKMetric\<close>

text \<open>
  One round of the loop over the series of a response: read the cluster and the entity
  name, read the value, \<^verbatim>\<open>continue\<close> when the value is an error, send the sample
  otherwise.
\<close>

definition series_body ::
  "('ctx, 'cfg, 'j, 'v) helpers \<Rightarrow> 'j \<Rightarrow> Desc \<Rightarrow> int \<Rightarrow> 'v scrape_state
     \<Rightarrow> panic + 'v scrape_state" where
  "series_body jp jsonParsed metricStruct tsIndex st =
     (let clusterName = Get_timeseries_query_cluster jp jsonParsed tsIndex;
          entityName = Get_timeseries_query_entity_name jp jsonParsed tsIndex
      in case Get_timeseries_query_value jp jsonParsed tsIndex of
           Inl err \<Rightarrow> Inr st
         | Inr v \<Rightarrow>
             (case MustNewConstMetric metricStruct GaugeValue v [clusterName, entityName] of
                Inl p \<Rightarrow> Inl p
              | Inr m \<Rightarrow> Inr (st\<lparr>ch := ch st @ [m]\<rparr>)))"

text \<open>\<^verbatim>\<open>for tsIndex := 0; tsIndex < numTsSeries; tsIndex++\<close>, from any start index.\<close>

function series_loop ::
  "('ctx, 'cfg, 'j, 'v) helpers \<Rightarrow> 'j \<Rightarrow> Desc \<Rightarrow> int \<Rightarrow> int \<Rightarrow> 'v scrape_state
     \<Rightarrow> panic + 'v scrape_state" where
  "series_loop jp jsonParsed metricStruct numTsSeries tsIndex st =
     (if tsIndex < numTsSeries then
        (case series_body jp jsonParsed metricStruct tsIndex st of
           Inl p \<Rightarrow> Inl p
         | Inr st' \<Rightarrow> series_loop jp jsonParsed metricStruct numTsSeries (tsIndex + 1) st')
      else Inr st)"
  by pat_completeness auto
termination
  by (relation "measure (\<lambda>(jp, j, d, n, i, st). nat (n - i))") auto

declare series_loop.simps [simp del]

definition createZKMetric ::
  "('ctx, 'cfg, 'j, 'v) helpers \<Rightarrow> 'ctx \<Rightarrow> 'cfg \<Rightarrow> string \<Rightarrow> Desc \<Rightarrow> 'v scrape_state
     \<Rightarrow> panic + bool \<times> 'v scrape_state" where
  "createZKMetric jp ctx config query metricStruct st =
     (let st1 = st\<lparr>queries := queries st @ [query]\<rparr>
      in case make_and_parse_timeseries_query jp ctx config query of
           Inl err \<Rightarrow> Inr (False, st1)
         | Inr jsonParsed \<Rightarrow>
             (case Get_timeseries_num jp jsonParsed of
                Inl err \<Rightarrow> Inr (False, st1)
              | Inr numTsSeries \<Rightarrow>
                  (case series_loop jp jsonParsed metricStruct numTsSeries 0 st1 of
                     Inl p \<Rightarrow> Inl p
                   | Inr st2 \<Rightarrow> Inr (True, st2))))"

subsection \<open>Scrape\<close>

text \<open>
  The context is one object for the whole scrape, and it can be cancelled while the scrape
  runs. \<open>ctx i\<close> is what a callee observes of it during the round of the loop for
  binding \<open>i\<close>. \<^verbatim>\<open>Scrape\<close> itself never reads the context: it hands it to
  \<^verbatim>\<open>createZKMetric\<close>.

  \<^verbatim>\<open>for i := range zkQueryVariableRelationship\<close>, from index \<open>i\<close> over the rest of the
  table, with the two counters.
\<close>

fun Scrape_loop ::
  "('ctx, 'cfg, 'j, 'v) helpers \<Rightarrow> (nat \<Rightarrow> 'ctx) \<Rightarrow> 'cfg \<Rightarrow> nat \<Rightarrow> relation list
     \<Rightarrow> int \<times> int \<Rightarrow> 'v scrape_state \<Rightarrow> panic + (int \<times> int) \<times> 'v scrape_state" where
  "Scrape_loop jp ctx config i [] (successQueries, errorQueries) st =
     Inr ((successQueries, errorQueries), st)"
| "Scrape_loop jp ctx config i (rel # rels) (successQueries, errorQueries) st =
     (case createZKMetric jp (ctx i) config (Query rel) (Metric_struct rel) st of
        Inl p \<Rightarrow> Inl p
      | Inr (ok, st') \<Rightarrow>
          Scrape_loop jp ctx config (Suc i) rels
            (if ok then (successQueries + 1, errorQueries)
             else (successQueries, errorQueries + 1)) st')"

text \<open>
  \<^verbatim>\<open>Scrape\<close> of the module. The package variable \<^verbatim>\<open>zkQueryVariableRelationship\<close> it
  reads is the argument \<open>table\<close>. The result is the returned \<^verbatim>\<open>error\<close> (\<open>None\<close> is
  \<^verbatim>\<open>nil\<close>) and the state.
\<close>

definition Scrape ::
  "('ctx, 'cfg, 'j, 'v) helpers \<Rightarrow> relation list \<Rightarrow> (nat \<Rightarrow> 'ctx) \<Rightarrow> 'cfg
     \<Rightarrow> 'v scrape_state \<Rightarrow> panic + error option \<times> 'v scrape_state" where
  "Scrape jp table ctx config st =
     (let st0 = st\<lparr>debug_log := debug_log st @
                  [Debug_msg ''Executing ZooKeeper Metrics Scraper'' []]\<rparr>
      in case Scrape_loop jp ctx config 0 table (0, 0) st0 of
           Inl p \<Rightarrow> Inl p
         | Inr ((successQueries, errorQueries), st1) \<Rightarrow>
             Inr (None, st1\<lparr>debug_log := debug_log st1 @
                    [Debug_msg ''ZK Scraper: %d queries run, %d successful, %d errors''
                       [successQueries + errorQueries, successQueries, errorQueries]]\<rparr>))"

subsection \<open>The earlier revision of the module\<close>

text \<open>
  The source file holds two revisions of the module. The earlier one has four bindings,
  other query texts and other log lines, and its loop over the table counts an index.
  Constants of the earlier revision whose names the later one uses again carry the
  suffix \<open>_rev1\<close>.
\<close>

definition ZK_ALERTS_RATE_rev1 :: string where
  "ZK_ALERTS_RATE_rev1 =
     ''SELECT LAST(alerts_rate) WHERE category=SERVICE and serviceType=ZOOKEEPER''"

definition ZK_CANARY_DURATION_rev1 :: string where
  "ZK_CANARY_DURATION_rev1 =
     ''SELECT LAST(canary_duration) WHERE category=SERVICE and serviceType=ZOOKEEPER''"

definition ZK_CURRENT_EPOCH_RATE_rev1 :: string where
  "ZK_CURRENT_EPOCH_RATE_rev1 =
     ''SELECT LAST(current_epoch_rate) WHERE category=SERVICE and serviceType=ZOOKEEPER''"

definition ZK_CURRENT_XID_rev1 :: string where
  "ZK_CURRENT_XID_rev1 =
     ''SELECT LAST(current_xid) WHERE category=SERVICE and serviceType=ZOOKEEPER''"

definition create_zk_metric_struct :: "string \<Rightarrow> string \<Rightarrow> string \<Rightarrow> Desc" where
  "create_zk_metric_struct ns metric_name description =
     (let description' =
        (if length description = 0 then ReplaceAll_underscore (ToUpper metric_name)
         else description)
      in NewDesc (BuildFQName ns ZK_SCRAPER_NAME metric_name) description'
           [''cluster'', ''entityName''])"

definition zk_alerts_rate :: "string \<Rightarrow> Desc" where
  "zk_alerts_rate ns = create_zk_metric_struct ns ''alerts_rate''
     ''Number of ZooKeeper alerts (events per second)''"

definition zk_canary_duration :: "string \<Rightarrow> Desc" where
  "zk_canary_duration ns = create_zk_metric_struct ns ''canary_duration_ms''
     ''Duration of the last or currently running canary job in milliseconds''"

definition zk_current_epoch_rate :: "string \<Rightarrow> Desc" where
  "zk_current_epoch_rate ns = create_zk_metric_struct ns ''current_epoch_rate''
     ''The current ZooKeeper epoch (epochs per second)''"

definition zk_current_xid :: "string \<Rightarrow> Desc" where
  "zk_current_xid ns = create_zk_metric_struct ns ''current_xid''
     ''The current ZooKeeper XID''"

definition zk_query_variable_relationship :: "string \<Rightarrow> relation list" where
  "zk_query_variable_relationship ns =
     [\<lparr>Query = ZK_ALERTS_RATE_rev1, Metric_struct = zk_alerts_rate ns\<rparr>,
      \<lparr>Query = ZK_CANARY_DURATION_rev1, Metric_struct = zk_canary_duration ns\<rparr>,
      \<lparr>Query = ZK_CURRENT_EPOCH_RATE_rev1, Metric_struct = zk_current_epoch_rate ns\<rparr>,
      \<lparr>Query = ZK_CURRENT_XID_rev1, Metric_struct = zk_current_xid ns\<rparr>]"

definition create_zk_metric ::
  "('ctx, 'cfg, 'j, 'v) helpers \<Rightarrow> 'ctx \<Rightarrow> 'cfg \<Rightarrow> string \<Rightarrow> Desc \<Rightarrow> 'v scrape_state
     \<Rightarrow> panic + bool \<times> 'v scrape_state" where
  "create_zk_metric jp ctx config query metric_struct st =
     (let st1 = st\<lparr>queries := queries st @ [query]\<rparr>
      in case make_and_parse_timeseries_query jp ctx config query of
           Inl err \<Rightarrow> Inr (False, st1)
         | Inr json_parsed \<Rightarrow>
             (case Get_timeseries_num jp json_parsed of
                Inl err \<Rightarrow> Inr (False, st1)
              | Inr num_ts_series \<Rightarrow>
                  (case series_loop jp json_parsed metric_struct num_ts_series 0 st1 of
                     Inl p \<Rightarrow> Inl p
                   | Inr st2 \<Rightarrow> Inr (True, st2))))"

text \<open>\<^verbatim>\<open>for i := 0; i < len(zk_query_variable_relationship); i++\<close>, from any index.\<close>

function Scrape_loop_rev1 ::
  "('ctx, 'cfg, 'j, 'v) helpers \<Rightarrow> (nat \<Rightarrow> 'ctx) \<Rightarrow> 'cfg \<Rightarrow> relation list \<Rightarrow> nat
     \<Rightarrow> int \<times> int \<Rightarrow> 'v scrape_state \<Rightarrow> panic + (int \<times> int) \<times> 'v scrape_state" where
  "Scrape_loop_rev1 jp ctx config table i counters st =
     (if i < length table then
        (let relationElem = table ! i
         in case create_zk_metric jp (ctx i) config (Query relationElem)
                   (Metric_struct relationElem) st of
              Inl p \<Rightarrow> Inl p
            | Inr (ok, st') \<Rightarrow>
                Scrape_loop_rev1 jp ctx config table (Suc i)
                  (case counters of (success_queries, error_queries) \<Rightarrow>
                     if ok then (success_queries + 1, error_queries)
                     else (success_queries, error_queries + 1)) st')
      else Inr (counters, st))"
  by pat_completeness auto
termination
  by (relation "measure (\<lambda>(jp, ctx, config, table, i, counters, st). length table - i)") auto

declare Scrape_loop_rev1.simps [simp del]

definition Scrape_rev1 ::
  "('ctx, 'cfg, 'j, 'v) helpers \<Rightarrow> relation list \<Rightarrow> (nat \<Rightarrow> 'ctx) \<Rightarrow> 'cfg
     \<Rightarrow> 'v scrape_state \<Rightarrow> panic + error option \<times> 'v scrape_state" where
  "Scrape_rev1 jp table ctx config st =
     (let st0 = st\<lparr>debug_log := debug_log st @
                  [Debug_msg ''Executing ZooKeeper Metrics Scraper'' []]\<rparr>
      in case Scrape_loop_rev1 jp ctx config table 0 (0, 0) st0 of
           Inl p \<Rightarrow> Inl p
         | Inr ((success_queries, error_queries), st1) \<Rightarrow>
             Inr (None, st1\<lparr>debug_log := debug_log st1 @
                    [Debug_msg ''ZK Module executed %d queries. %d success and %d errors''
                       [success_queries + error_queries, success_queries, error_queries]]\<rparr>))"

section \<open>The standalone collector (the second source file)\<close>

subsection \<open>The collector and its descriptors\<close>

record ZookeeperCollector =
  alertsRate :: Desc
  canaryDuration :: Desc
  currentEpochRate :: Desc
  currentXid :: Desc
  eventsCriticalRate :: Desc
  eventsImportantRate :: Desc
  eventsInformationalRate :: Desc
  healthBadRate :: Desc
  healthConcerningRate :: Desc
  healthDisabledRate :: Desc
  healthGoodRate :: Desc
  healthUnknownRate :: Desc
  alertsRateAcrossClusters :: Desc
  totalAlertsRateAcrossClusters :: Desc
  cmHost :: string
  cmPort :: string
  apiVersion :: string
  username :: string
  password :: string

definition NewZookeeperCollector ::
  "string \<Rightarrow> string \<Rightarrow> string \<Rightarrow> string \<Rightarrow> string \<Rightarrow> ZookeeperCollector" where
  "NewZookeeperCollector cmHost' cmPort' apiVersion' username' password' =
     \<lparr>alertsRate = NewDesc ''zookeeper_alerts_rate''
        ''Number of ZooKeeper alerts (events per second)'' [''cluster''],
      canaryDuration = NewDesc ''zookeeper_canary_duration_ms''
        ''Duration of the last or currently running ZooKeeper canary job (milliseconds)''
        [''cluster''],
      currentEpochRate = NewDesc ''zookeeper_current_epoch_rate''
        ''The current epoch (epoch per second)'' [''cluster''],
      currentXid = NewDesc ''zookeeper_current_xid''
        ''The current ZooKeeper XID'' [''cluster''],
      eventsCriticalRate = NewDesc ''zookeeper_events_critical_rate''
        ''Number of critical events (events per second)'' [''cluster''],
      eventsImportantRate = NewDesc ''zookeeper_events_important_rate''
        ''Number of important events (events per second)'' [''cluster''],
      eventsInformationalRate = NewDesc ''zookeeper_events_informational_rate''
        ''Number of informational events (events per second)'' [''cluster''],
      healthBadRate = NewDesc ''zookeeper_health_bad_rate''
        ''Percentage of time with Bad Health (seconds per second)'' [''cluster''],
      healthConcerningRate = NewDesc ''zookeeper_health_concerning_rate''
        ''Percentage of time with Concerning Health (seconds per second)'' [''cluster''],
      healthDisabledRate = NewDesc ''zookeeper_health_disabled_rate''
        ''Percentage of time with Disabled Health (seconds per second)'' [''cluster''],
      healthGoodRate = NewDesc ''zookeeper_health_good_rate''
        ''Percentage of time with Good Health (seconds per second)'' [''cluster''],
      healthUnknownRate = NewDesc ''zookeeper_health_unknown_rate''
        ''Percentage of time with Unknown Health (seconds per second)'' [''cluster''],
      alertsRateAcrossClusters = NewDesc ''zookeeper_alerts_rate_across_clusters''
        ''Alerts rate aggregated across all clusters'' [],
      totalAlertsRateAcrossClusters = NewDesc ''zookeeper_total_alerts_rate_across_clusters''
        ''Total alerts rate aggregated across all clusters'' [],
      cmHost = cmHost',
      cmPort = cmPort',
      apiVersion = apiVersion',
      username = username',
      password = password'\<rparr>"

text \<open>\<^verbatim>\<open>Describe\<close> sends the fourteen descriptors on the channel \<open>dch\<close>, in this order.\<close>

definition Describe :: "ZookeeperCollector \<Rightarrow> Desc list \<Rightarrow> Desc list" where
  "Describe zc dch =
     dch @ [alertsRate zc, canaryDuration zc, currentEpochRate zc, currentXid zc,
            eventsCriticalRate zc, eventsImportantRate zc, eventsInformationalRate zc,
            healthBadRate zc, healthConcerningRate zc, healthDisabledRate zc,
            healthGoodRate zc, healthUnknownRate zc,
            alertsRateAcrossClusters zc, totalAlertsRateAcrossClusters zc]"

subsection \<open>The response of the timeseries API\<close>

record 'v DataPoint =
  Timestamp :: string
  Value :: 'v

record 'v Series =
  MetricName :: string
  Data :: "'v DataPoint list"

record 'v Item =
  TimeSeries :: "'v Series list"

record 'v timeSeriesAPIResponse =
  Items :: "'v Item list"

subsection \<open>The HTTP client and the JSON decoder\<close>

text \<open>
  \<^verbatim>\<open>http.NewRequest\<close>, \<^verbatim>\<open>client.Do\<close> (with its timeout of ten seconds) and
  \<^verbatim>\<open>json.NewDecoder(resp.Body).Decode\<close> are library calls whose results depend on the
  network; they are parameters. \<open>NewRequest_error\<close> is the error \<^verbatim>\<open>http.NewRequest\<close>
  returns for a method and a URL, \<open>None\<close> for \<^verbatim>\<open>nil\<close>.
\<close>

record Request =
  httpMethod :: string
  url :: string
  basicAuth :: "(string \<times> string) option"

record Response =
  StatusCode :: int
  Body :: string

record 'v http_client =
  NewRequest_error :: "string \<Rightarrow> string \<Rightarrow> error option"
  Do :: "Request \<Rightarrow> error + Response"
  Decode :: "string \<Rightarrow> error + 'v timeSeriesAPIResponse"

subsection \<open>fetchMetric\<close>

text \<open>The two \<^verbatim>\<open>fmt.Sprintf\<close> calls that build the URL; \<^verbatim>\<open>%%\<close> prints a percent sign.\<close>

definition fetchMetric_url :: "ZookeeperCollector \<Rightarrow> string \<Rightarrow> string \<Rightarrow> string" where
  "fetchMetric_url zc metricName clusterName =
     (if clusterName \<noteq> [] then
        ''http://'' @ cmHost zc @ '':'' @ cmPort zc @ ''/api/'' @ apiVersion zc
          @ ''/timeseries?query='' @ metricName @ ''%5BclusterName='' @ clusterName @ ''%5D''
      else
        ''http://'' @ cmHost zc @ '':'' @ cmPort zc @ ''/api/'' @ apiVersion zc
          @ ''/timeseries?query='' @ metricName)"

text \<open>The body of the inner loop, on the pair of \<^verbatim>\<open>sum\<close> (here \<open>acc_sum\<close>) and \<^verbatim>\<open>count\<close>.\<close>

definition sum_body :: "'v::plus \<times> int \<Rightarrow> 'v Series \<Rightarrow> 'v \<times> int" where
  "sum_body acc ts =
     (case acc of (acc_sum, count) \<Rightarrow>
        (let dataLen = length (Data ts)
         in if dataLen = 0 then (acc_sum, count)
            else (let lastPoint = Data ts ! (dataLen - 1)
                  in (acc_sum + Value lastPoint, count + 1))))"

text \<open>
  \<^verbatim>\<open>for _, item := range tsResp.Items { for _, ts := range item.TimeSeries { ... } }\<close>,
  from \<^verbatim>\<open>sum\<close> and \<^verbatim>\<open>count\<close> zero.
\<close>

definition sum_loop :: "'v::{zero,plus} timeSeriesAPIResponse \<Rightarrow> 'v \<times> int" where
  "sum_loop tsResp =
     foldl (\<lambda>acc item. foldl sum_body acc (TimeSeries item)) (0, 0) (Items tsResp)"

definition fetchMetric ::
  "'v::{zero,plus} http_client \<Rightarrow> ZookeeperCollector \<Rightarrow> string \<Rightarrow> string \<Rightarrow> error + 'v" where
  "fetchMetric http zc metricName clusterName =
     (let u = fetchMetric_url zc metricName clusterName
      in case NewRequest_error http ''GET'' u of
           Some err \<Rightarrow> Inl err
         | None \<Rightarrow>
             (let req = \<lparr>httpMethod = ''GET'', url = u,
                         basicAuth = Some (username zc, password zc)\<rparr>
              in case Do http req of
                   Inl err \<Rightarrow> Inl err
                 | Inr resp \<Rightarrow>
                     if StatusCode resp \<noteq> 200 then Inl (Non200Response (StatusCode resp))
                     else (case Decode http (Body resp) of
                             Inl err \<Rightarrow> Inl err
                           | Inr tsResp \<Rightarrow>
                               (case sum_loop tsResp of (acc_sum, count) \<Rightarrow>
                                  if count = 0 then Inr 0 else Inr acc_sum))))"

subsection \<open>Collect\<close>

text \<open>
  \<^verbatim>\<open>Collect\<close> writes samples to its channel and lines to the standard logger
  (\<^verbatim>\<open>log.Printf\<close> with a format and the error).
\<close>

datatype printf_entry = Printf string error

record 'v collect_state =
  out_ch :: "'v Metric list"
  std_log :: "printf_entry list"

text \<open>\<^verbatim>\<open>ch <- prometheus.MustNewConstMetric(d, prometheus.GaugeValue, v, labels...)\<close>\<close>

definition send_metric ::
  "Desc \<Rightarrow> 'v \<Rightarrow> string list \<Rightarrow> 'v collect_state \<Rightarrow> panic + 'v collect_state" where
  "send_metric d v lvs st =
     (case MustNewConstMetric d GaugeValue v lvs of
        Inl p \<Rightarrow> Inl p
      | Inr m \<Rightarrow> Inr (st\<lparr>out_ch := out_ch st @ [m]\<rparr>))"

definition Collect ::
  "'v::{zero,plus} http_client \<Rightarrow> ZookeeperCollector \<Rightarrow> 'v collect_state
     \<Rightarrow> panic + 'v collect_state" where
  "Collect http zc st =
     (let clusterName = ''DemoCluster'' in
      (case (case fetchMetric http zc ''alerts_rate'' clusterName of
               Inl err \<Rightarrow>
                 Inr (st\<lparr>std_log := std_log st @
                        [Printf (''Error fetching alerts_rate: %v'' @ [CHR 0x0A]) err]\<rparr>)
             | Inr alertsRateValue \<Rightarrow>
                 send_metric (alertsRate zc) alertsRateValue [clusterName] st) of
         Inl p \<Rightarrow> Inl p
       | Inr st1 \<Rightarrow>
      (case (case fetchMetric http zc ''alerts_rate_across_clusters'' [] of
               Inl err \<Rightarrow>
                 Inr (st1\<lparr>std_log := std_log st1 @
                        [Printf (''Error fetching alerts_rate_across_clusters: %v''
                                   @ [CHR 0x0A]) err]\<rparr>)
             | Inr aggregatorValue \<Rightarrow>
                 send_metric (alertsRateAcrossClusters zc) aggregatorValue [] st1) of
         Inl p \<Rightarrow> Inl p
       | Inr st2 \<Rightarrow>
      (case (case fetchMetric http zc ''total_alerts_rate_across_clusters'' [] of
               Inl err \<Rightarrow>
                 Inr (st2\<lparr>std_log := std_log st2 @
                        [Printf (''Error fetching total_alerts_rate_across_clusters: %v''
                                   @ [CHR 0x0A]) err]\<rparr>)
             | Inr totalAggregatorValue \<Rightarrow>
                 send_metric (totalAlertsRateAcrossClusters zc) totalAggregatorValue [] st2) of
         Inl p \<Rightarrow> Inl p
       | Inr st3 \<Rightarrow>
           (case fetchMetric http zc ''canary_duration'' clusterName of
              Inl err \<Rightarrow> Inr st3
            | Inr canaryValue \<Rightarrow>
                send_metric (canaryDuration zc) canaryValue [clusterName] st3)))))"

section \<open>What a scrape emits, stated without the loops\<close>

text \<open>
  The samples of one series, of one response and of one binding, and whether a binding
  succeeds, as functions of what the helpers return. The lemmas below prove that the loops
  of the module compute them.
\<close>

definition series_sample ::
  "('ctx, 'cfg, 'j, 'v) helpers \<Rightarrow> 'j \<Rightarrow> Desc \<Rightarrow> int \<Rightarrow> 'v Metric list" where
  "series_sample jp j d i =
     (case Get_timeseries_query_value jp j i of
        Inl err \<Rightarrow> []
      | Inr v \<Rightarrow> [\<lparr>desc = d, valueType = GaugeValue, val = v,
                  labelValues = [Get_timeseries_query_cluster jp j i,
                                 Get_timeseries_query_entity_name jp j i]\<rparr>])"

definition series_samples ::
  "('ctx, 'cfg, 'j, 'v) helpers \<Rightarrow> 'j \<Rightarrow> Desc \<Rightarrow> int \<Rightarrow> 'v Metric list" where
  "series_samples jp j d n = concat (map (series_sample jp j d) [0..n - 1])"

definition binding_ok ::
  "('ctx, 'cfg, 'j, 'v) helpers \<Rightarrow> 'ctx \<Rightarrow> 'cfg \<Rightarrow> string \<Rightarrow> bool" where
  "binding_ok jp c cfg q =
     (case make_and_parse_timeseries_query jp c cfg q of
        Inl err \<Rightarrow> False
      | Inr j \<Rightarrow> (case Get_timeseries_num jp j of Inl err \<Rightarrow> False | Inr n \<Rightarrow> True))"

definition binding_samples ::
  "('ctx, 'cfg, 'j, 'v) helpers \<Rightarrow> 'ctx \<Rightarrow> 'cfg \<Rightarrow> string \<Rightarrow> Desc \<Rightarrow> 'v Metric list" where
  "binding_samples jp c cfg q d =
     (case make_and_parse_timeseries_query jp c cfg q of
        Inl err \<Rightarrow> []
      | Inr j \<Rightarrow> (case Get_timeseries_num jp j of
                   Inl err \<Rightarrow> []
                 | Inr n \<Rightarrow> series_samples jp j d n))"

text \<open>
  What a send of the module needs in order not to panic. The descriptor is one that
  \<^verbatim>\<open>NewDesc\<close> accepted and that declares two labels, as \<^verbatim>\<open>createZKMetricStruct\<close> builds
  it from a well-formed name.
\<close>

definition two_label_desc :: "Desc \<Rightarrow> bool" where
  "two_label_desc d = (descErr d = None \<and> length (variableLabels d) = 2)"

definition descs_accepted :: "relation list \<Rightarrow> bool" where
  "descs_accepted table = list_all (\<lambda>rel. two_label_desc (Metric_struct rel)) table"

text \<open>
  And the cluster name and the entity name of every series whose value can be read are
  valid UTF-8: for the series \<open>i\<close> to \<open>n - 1\<close> of a response, for the response to a
  query (if there is one), and for every binding of a table.
\<close>

definition names_valid_from ::
  "('ctx, 'cfg, 'j, 'v) helpers \<Rightarrow> 'j \<Rightarrow> int \<Rightarrow> int \<Rightarrow> bool" where
  "names_valid_from jp j n i =
     list_all (\<lambda>k. isl (Get_timeseries_query_value jp j k)
                    \<or> (ValidString (Get_timeseries_query_cluster jp j k)
                        \<and> ValidString (Get_timeseries_query_entity_name jp j k)))
       [i..n - 1]"

definition binding_names_valid ::
  "('ctx, 'cfg, 'j, 'v) helpers \<Rightarrow> 'ctx \<Rightarrow> 'cfg \<Rightarrow> string \<Rightarrow> bool" where
  "binding_names_valid jp c cfg q =
     (case make_and_parse_timeseries_query jp c cfg q of
        Inl err \<Rightarrow> True
      | Inr j \<Rightarrow> (case Get_timeseries_num jp j of
                   Inl err \<Rightarrow> True
                 | Inr n \<Rightarrow> names_valid_from jp j n 0))"

definition table_names_valid ::
  "('ctx, 'cfg, 'j, 'v) helpers \<Rightarrow> (nat \<Rightarrow> 'ctx) \<Rightarrow> 'cfg \<Rightarrow> nat \<Rightarrow> relation list \<Rightarrow> bool" where
  "table_names_valid jp ctx cfg i table =
     list_all (\<lambda>(k, rel). binding_names_valid jp (ctx k) cfg (Query rel)) (enumerate i table)"

text \<open>
  The samples of the bindings of a table, binding \<open>k\<close> under the context state \<open>ctx k\<close>,
  the first binding having the index \<open>i\<close>; and the bindings of the table that fail.
\<close>

definition scrape_samples ::
  "('ctx, 'cfg, 'j, 'v) helpers \<Rightarrow> (nat \<Rightarrow> 'ctx) \<Rightarrow> 'cfg \<Rightarrow> nat \<Rightarrow> relation list
     \<Rightarrow> 'v Metric list" where
  "scrape_samples jp ctx cfg i table =
     concat (map (\<lambda>(k, rel). binding_samples jp (ctx k) cfg (Query rel) (Metric_struct rel))
               (enumerate i table))"

definition failed_bindings ::
  "('ctx, 'cfg, 'j, 'v) helpers \<Rightarrow> (nat \<Rightarrow> 'ctx) \<Rightarrow> 'cfg \<Rightarrow> nat \<Rightarrow> relation list
     \<Rightarrow> (nat \<times> relation) list" where
  "failed_bindings jp ctx cfg i table =
     filter (\<lambda>(k, rel). \<not> binding_ok jp (ctx k) cfg (Query rel)) (enumerate i table)"

definition succeeded_bindings ::
  "('ctx, 'cfg, 'j, 'v) helpers \<Rightarrow> (nat \<Rightarrow> 'ctx) \<Rightarrow> 'cfg \<Rightarrow> nat \<Rightarrow> relation list
     \<Rightarrow> (nat \<times> relation) list" where
  "succeeded_bindings jp ctx cfg i table =
     filter (\<lambda>(k, rel). binding_ok jp (ctx k) cfg (Query rel)) (enumerate i table)"

section \<open>What the collector fetches and sends, stated without the loops\<close>

text \<open>
  The series of a response in the order the loops visit them, and the values of the last
  data points of those that have data points.
\<close>

definition all_series :: "'v timeSeriesAPIResponse \<Rightarrow> 'v Series list" where
  "all_series tsResp = concat (map TimeSeries (Items tsResp))"

definition last_values :: "'v timeSeriesAPIResponse \<Rightarrow> 'v list" where
  "last_values tsResp =
     map (\<lambda>ts. Value (last (Data ts))) (filter (\<lambda>ts. Data ts \<noteq> []) (all_series tsResp))"

text \<open>The values of the data points of a response, by position, without the timestamps.\<close>

definition point_values :: "'v timeSeriesAPIResponse \<Rightarrow> 'v list list" where
  "point_values tsResp = map (\<lambda>ts. map Value (Data ts)) (all_series tsResp)"

text \<open>
  The sample one block of \<^verbatim>\<open>Collect\<close> sends for a descriptor and a fetch (none when the
  fetch fails), and the line it logs (none when the fetch succeeds).
\<close>

definition fetched_sample ::
  "'v::{zero,plus} http_client \<Rightarrow> ZookeeperCollector \<Rightarrow> Desc \<Rightarrow> string \<Rightarrow> string
     \<Rightarrow> string list \<Rightarrow> 'v Metric list" where
  "fetched_sample http zc d metricName clusterName lvs =
     (case fetchMetric http zc metricName clusterName of
        Inl err \<Rightarrow> []
      | Inr v \<Rightarrow> [\<lparr>desc = d, valueType = GaugeValue, val = v, labelValues = lvs\<rparr>])"

definition fetch_logged ::
  "'v::{zero,plus} http_client \<Rightarrow> ZookeeperCollector \<Rightarrow> string \<Rightarrow> string
     \<Rightarrow> printf_entry list" where
  "fetch_logged http zc metricName clusterName =
     (case fetchMetric http zc metricName clusterName of
        Inl err \<Rightarrow> [Printf (''Error fetching '' @ metricName @ '': %v'' @ [CHR 0x0A]) err]
      | Inr v \<Rightarrow> [])"

definition collect_samples ::
  "'v::{zero,plus} http_client \<Rightarrow> ZookeeperCollector \<Rightarrow> 'v Metric list" where
  "collect_samples http zc =
     fetched_sample http zc (alertsRate zc) ''alerts_rate'' ''DemoCluster'' [''DemoCluster'']
     @ fetched_sample http zc (alertsRateAcrossClusters zc) ''alerts_rate_across_clusters'' [] []
     @ fetched_sample http zc (totalAlertsRateAcrossClusters zc)
         ''total_alerts_rate_across_clusters'' [] []
     @ fetched_sample http zc (canaryDuration zc) ''canary_duration'' ''DemoCluster''
         [''DemoCluster'']"

definition collect_logged ::
  "'v::{zero,plus} http_client \<Rightarrow> ZookeeperCollector \<Rightarrow> printf_entry list" where
  "collect_logged http zc =
     fetch_logged http zc ''alerts_rate'' ''DemoCluster''
     @ fetch_logged http zc ''alerts_rate_across_clusters'' []
     @ fetch_logged http zc ''total_alerts_rate_across_clusters'' []"

text \<open>The request \<^verbatim>\<open>fetchMetric\<close> hands to \<^verbatim>\<open>client.Do\<close>.\<close>

definition fetchMetric_request :: "ZookeeperCollector \<Rightarrow> string \<Rightarrow> string \<Rightarrow> Request" where
  "fetchMetric_request zc metricName clusterName =
     \<lparr>httpMethod = ''GET'', url = fetchMetric_url zc metricName clusterName,
      basicAuth = Some (username zc, password zc)\<rparr>"

section \<open>URL encoding, for comparison\<close>

text \<open>
  The collector never calls an encoder. To compare its URLs with encoded ones, this is
  \<^verbatim>\<open>url.QueryEscape\<close> of Go's standard library: letters, digits and \<^verbatim>\<open>-_.~\<close> stay, a
  space becomes a plus sign, every other byte becomes a percent sign and two upper case
  hexadecimal digits.
\<close>

definition upperhex :: string where
  "upperhex = ''0123456789ABCDEF''"

definition shouldEscape :: "char \<Rightarrow> bool" where
  "shouldEscape c =
     (let n = (of_char c :: nat)
      in \<not> ((97 \<le> n \<and> n \<le> 122) \<or> (65 \<le> n \<and> n \<le> 90) \<or> (48 \<le> n \<and> n \<le> 57)
             \<or> c = CHR ''-'' \<or> c = CHR ''_'' \<or> c = CHR ''.'' \<or> c = CHR ''~''))"

definition QueryEscape_char :: "char \<Rightarrow> string" where
  "QueryEscape_char c =
     (if c = CHR '' '' then ''+''
      else if shouldEscape c then
        [CHR ''%'', upperhex ! ((of_char c :: nat) div 16), upperhex ! ((of_char c :: nat) mod 16)]
      else [c])"

definition QueryEscape :: "string \<Rightarrow> string" where
  "QueryEscape s = concat (map QueryEscape_char s)"

section \<open>The query client of the module\<close>

text \<open>
  Modelled from the spec: the connection data \<^verbatim>\<open>Collector_connection_data\<close>, whose
  declaration is not part of the sources. Section 3 of the specification: host, port, API
  version, user name and password.
\<close>

record ConnectionConfig =
  cfgHost :: string
  cfgPort :: string
  cfgApiVersion :: string
  cfgUsername :: string
  cfgPassword :: string

text \<open>
  Modelled from the spec: which status codes are a success. The specification says
  "non-success HTTP status" and no more; a success is a code from 200 to 299.
\<close>

definition success_status :: "int \<Rightarrow> bool" where
  "success_status code = (200 \<le> code \<and> code < 300)"

text \<open>
  Modelled from the spec: the request of \<^verbatim>\<open>make_and_parse_timeseries_query\<close>, which is
  not part of the sources. Sections 4.1 and 6 of the specification: an HTTP GET to
  \<^verbatim>\<open>http://{host}:{port}/api/{apiVersion}/timeseries?query={urlEncodedExpression}\<close> with
  the basic credentials of the connection data. The module passes no cluster scope.
\<close>

definition query_request :: "ConnectionConfig \<Rightarrow> string \<Rightarrow> Request" where
  "query_request cfg q =
     \<lparr>httpMethod = ''GET'',
      url = ''http://'' @ cfgHost cfg @ '':'' @ cfgPort cfg @ ''/api/'' @ cfgApiVersion cfg
              @ ''/timeseries?query='' @ QueryEscape q,
      basicAuth = Some (cfgUsername cfg, cfgPassword cfg)\<rparr>"

text \<open>
  Modelled from the spec: \<^verbatim>\<open>make_and_parse_timeseries_query\<close>, which is not part of the
  sources. Section 4.1 of the specification: a timeout or a transport error is a failure
  of kind \<open>TransportError\<close>; a non-success status is a failure of kind \<open>UpstreamError\<close>
  with the status code; on success the body is decoded, and a body that does not decode is
  a failure of kind \<open>MalformedResponse\<close>. Section 5: a call under a cancelled context is
  aborted, which is a transport call that did not complete. The context state is whether
  the context is cancelled.
\<close>

definition query_client ::
  "'v http_client \<Rightarrow> bool \<Rightarrow> ConnectionConfig \<Rightarrow> string
     \<Rightarrow> error + 'v timeSeriesAPIResponse" where
  "query_client http cancelled cfg q =
     (if cancelled then Inl (Failure TransportError)
      else (case Do http (query_request cfg q) of
              Inl err \<Rightarrow> Inl (Failure TransportError)
            | Inr resp \<Rightarrow>
                if \<not> success_status (StatusCode resp)
                then Inl (Failure (UpstreamError (StatusCode resp)))
                else (case Decode http (Body resp) of
                        Inl err \<Rightarrow> Inl (Failure MalformedResponse)
                      | Inr raw \<Rightarrow> Inr raw)))"

section \<open>A small upstream, for concrete runs\<close>

text \<open>
  Helpers over responses that are lists of series, a series being its cluster, its entity
  and its last value, if it has one. The context state is whether the context is
  cancelled; a query under a cancelled context fails. The query \<^verbatim>\<open>down\<close> is answered
  with status 500, the query \<^verbatim>\<open>nodata\<close> with one series that has no value, every other
  query with two series.
\<close>

definition demo_helpers ::
  "(bool, unit, (string \<times> string \<times> real option) list, real) helpers" where
  "demo_helpers =
     \<lparr>make_and_parse_timeseries_query =
        (\<lambda>cancelled cfg q.
           if cancelled then Inl (OtherError ''context canceled'')
           else if q = ''down'' then Inl (Non200Response 500)
           else if q = ''nodata'' then Inr [(''C1'', ''zk1'', None)]
           else Inr [(''C1'', ''zk1'', Some 1), (''C1'', ''zk2'', Some 2.5)]),
      Get_timeseries_num = (\<lambda>j. Inr (int (length j))),
      Get_timeseries_query_cluster = (\<lambda>j i. fst (j ! nat i)),
      Get_timeseries_query_entity_name = (\<lambda>j i. fst (snd (j ! nat i))),
      Get_timeseries_query_value =
        (\<lambda>j i. case snd (snd (j ! nat i)) of
                  None \<Rightarrow> Inl (OtherError ''no data'')
                | Some v \<Rightarrow> Inr v)\<rparr>"

definition demo_desc :: "string \<Rightarrow> Desc" where
  "demo_desc name = createZKMetricStruct ''cm'' name ''h''"

definition demo_table :: "relation list" where
  "demo_table =
     [\<lparr>Query = ''up'', Metric_struct = demo_desc ''a''\<rparr>,
      \<lparr>Query = ''down'', Metric_struct = demo_desc ''b''\<rparr>,
      \<lparr>Query = ''nodata'', Metric_struct = demo_desc ''c''\<rparr>]"

text \<open>A context that is never cancelled, and one cancelled once the first binding is done.\<close>

definition never_cancelled :: "nat \<Rightarrow> bool" where
  "never_cancelled i = False"

definition cancelled_after_first :: "nat \<Rightarrow> bool" where
  "cancelled_after_first i = (0 < i)"

definition empty_scrape_state :: "real scrape_state" where
  "empty_scrape_state = \<lparr>ch = [], debug_log = [], queries = []\<rparr>"

text \<open>
  An HTTP client for the collector at \<^verbatim>\<open>cm:7180\<close>, API version \<^verbatim>\<open>v19\<close>. The URL of
  \<^verbatim>\<open>alerts_rate\<close> is answered with two series, the second with its data points out of
  the order of their timestamps; the URL of \<^verbatim>\<open>alerts_rate_across_clusters\<close> with one
  series without data points; the URL of \<^verbatim>\<open>total_alerts_rate_across_clusters\<close> with
  status 500; a request for any other URL times out.
\<close>

definition demo_response :: "real timeSeriesAPIResponse" where
  "demo_response =
     \<lparr>Items =
        [\<lparr>TimeSeries =
            [\<lparr>MetricName = ''alerts_rate'',
              Data = [\<lparr>Timestamp = ''t1'', Value = 4\<rparr>, \<lparr>Timestamp = ''t2'', Value = 1\<rparr>]\<rparr>,
             \<lparr>MetricName = ''alerts_rate'',
              Data = [\<lparr>Timestamp = ''t9'', Value = 7\<rparr>, \<lparr>Timestamp = ''t3'', Value = 2.5\<rparr>]\<rparr>]\<rparr>]\<rparr>"

definition demo_empty_response :: "real timeSeriesAPIResponse" where
  "demo_empty_response =
     \<lparr>Items = [\<lparr>TimeSeries = [\<lparr>MetricName = ''alerts_rate_across_clusters'', Data = []\<rparr>]\<rparr>]\<rparr>"

definition demo_http :: "real http_client" where
  "demo_http =
     \<lparr>NewRequest_error = (\<lambda>m u. None),
      Do = (\<lambda>req.
        if url req = ''http://cm:7180/api/v19/timeseries?query=alerts_rate%5BclusterName=DemoCluster%5D''
        then Inr \<lparr>StatusCode = 200, Body = ''two''\<rparr>
        else if url req = ''http://cm:7180/api/v19/timeseries?query=alerts_rate_across_clusters''
        then Inr \<lparr>StatusCode = 200, Body = ''empty''\<rparr>
        else if url req =
          ''http://cm:7180/api/v19/timeseries?query=total_alerts_rate_across_clusters''
        then Inr \<lparr>StatusCode = 500, Body = []\<rparr>
        else Inl (OtherError ''context deadline exceeded'')),
      Decode = (\<lambda>b.
        if b = ''two'' then Inr demo_response
        else if b = ''empty'' then Inr demo_empty_response
        else Inl (OtherError ''unexpected end of JSON input''))\<rparr>"

definition demo_collector :: ZookeeperCollector where
  "demo_collector = NewZookeeperCollector ''cm'' ''7180'' ''v19'' ''admin'' ''admin''"

definition empty_collect_state :: "real collect_state" where
  "empty_collect_state = \<lparr>out_ch = [], std_log = []\<rparr>"

text \<open>
  An upstream for the module with the query client above, at \<^verbatim>\<open>cm:7180\<close>: it answers
  the URLs of the collector as the client above does and, besides, the URL of the module's
  query \<^verbatim>\<open>alerts_rate\<close> with the two series. The module's query
  \<^verbatim>\<open>total_alerts_rate_across_clusters\<close> has the URL of the collector's fetch of that
  name, so it is answered with status 500. The parser functions read a decoded response:
  the number of its series, a fixed cluster name, the metric name of a series as its entity
  name, and the value of the last data point of a series.
\<close>

definition demo_upstream :: "real http_client" where
  "demo_upstream =
     demo_http\<lparr>Do := (\<lambda>req.
        if url req = ''http://cm:7180/api/v19/timeseries?query=alerts_rate''
        then Inr \<lparr>StatusCode = 200, Body = ''two''\<rparr>
        else Do demo_http req)\<rparr>"

definition demo_config :: ConnectionConfig where
  "demo_config =
     \<lparr>cfgHost = ''cm'', cfgPort = ''7180'', cfgApiVersion = ''v19'',
      cfgUsername = ''admin'', cfgPassword = ''admin''\<rparr>"

definition demo_json_parser ::
  "(bool, ConnectionConfig, real timeSeriesAPIResponse, real) helpers" where
  "demo_json_parser =
     \<lparr>make_and_parse_timeseries_query = query_client demo_upstream,
      Get_timeseries_num = (\<lambda>r. Inr (int (length (all_series r)))),
      Get_timeseries_query_cluster = (\<lambda>r i. ''C1''),
      Get_timeseries_query_entity_name = (\<lambda>r i. MetricName (all_series r ! nat i)),
      Get_timeseries_query_value =
        (\<lambda>r i. case Data (all_series r ! nat i) of
                  [] \<Rightarrow> Inl (OtherError ''no data'')
                | p # ps \<Rightarrow> Inr (Value (last (p # ps))))\<rparr>"

definition demo_query_table :: "relation list" where
  "demo_query_table =
     [\<lparr>Query = ''alerts_rate'', Metric_struct = demo_desc ''a''\<rparr>,
      \<lparr>Query = ''total_alerts_rate_across_clusters'', Metric_struct = demo_desc ''b''\<rparr>]"

section \<open>The library's checks on the names the exporter uses\<close>

lemma ValidBytes_ascii: "list_all (\<lambda>b. b < 0x80) bs \<Longrightarrow> ValidBytes bs"
  by (induction bs) simp_all

lemma ValidString_ascii: "list_all (\<lambda>c. (of_char c :: nat) < 0x80) s \<Longrightarrow> ValidString s"
  unfolding ValidString_def by (rule ValidBytes_ascii) (simp add: list_all_iff)

lemma IsValidMetricName_append:
  "IsValidMetricName a \<Longrightarrow> list_all metric_name_char b \<Longrightarrow> IsValidMetricName (a @ b)"
  by (cases a) (simp_all add: IsValidMetricName_def)

lemma BuildFQName_valid:
  assumes ns: "ns = [] \<or> IsValidMetricName ns"
    and sub: "IsValidMetricName subsystem"
    and name: "name \<noteq> []" "list_all metric_name_char name"
  shows "IsValidMetricName (BuildFQName ns subsystem name)"
proof -
  have u: "list_all metric_name_char ''_''"
    by (simp add: metric_name_char_def)
  have s: "subsystem \<noteq> []" "list_all metric_name_char subsystem"
    using sub by (simp_all add: IsValidMetricName_def)
  have tail: "list_all metric_name_char (''_'' @ name)"
    using u name by simp
  show ?thesis
  proof (cases "ns = []")
    case True
    then show ?thesis
      using name s IsValidMetricName_append[OF sub tail] by (simp add: BuildFQName_def)
  next
    case False
    then have v: "IsValidMetricName ns" using ns by simp
    have "list_all metric_name_char (''_'' @ subsystem @ ''_'' @ name)"
      using u s name by simp
    then have "IsValidMetricName (ns @ ''_'' @ subsystem @ ''_'' @ name)"
      by (rule IsValidMetricName_append[OF v])
    then show ?thesis
      using False name s by (simp add: BuildFQName_def)
  qed
qed

lemma checkLabelName_module:
  "checkLabelName ''cluster''" "checkLabelName ''entityName''"
  by (simp_all add: checkLabelName_def LabelName_IsValid_def label_name_char_def
        ascii_letter_def ascii_digit_def)

lemma ZK_SCRAPER_NAME_valid: "IsValidMetricName ZK_SCRAPER_NAME"
  by (simp add: ZK_SCRAPER_NAME_def IsValidMetricName_def metric_name_char_def
        ascii_letter_def ascii_digit_def)

lemma createZKMetricStruct_accepted:
  assumes "ns = [] \<or> IsValidMetricName ns"
    and "name \<noteq> []" and "list_all metric_name_char name"
  shows "two_label_desc (createZKMetricStruct ns name h)"
  using BuildFQName_valid[OF assms(1) ZK_SCRAPER_NAME_valid assms(2,3)]
  by (simp add: two_label_desc_def createZKMetricStruct_def NewDesc_def Let_def
        checkLabelName_module)

lemma create_zk_metric_struct_accepted:
  assumes "ns = [] \<or> IsValidMetricName ns"
    and "name \<noteq> []" and "list_all metric_name_char name"
  shows "two_label_desc (create_zk_metric_struct ns name h)"
  using BuildFQName_valid[OF assms(1) ZK_SCRAPER_NAME_valid assms(2,3)]
  by (simp add: two_label_desc_def create_zk_metric_struct_def NewDesc_def Let_def
        checkLabelName_module)

lemma zkQueryVariableRelationship_accepted:
  assumes "ns = [] \<or> IsValidMetricName ns"
  shows "descs_accepted (zkQueryVariableRelationship ns)"
proof -
  have n: "name \<noteq> [] \<Longrightarrow> list_all metric_name_char name \<Longrightarrow>
           two_label_desc (createZKMetricStruct ns name h)" for name h
    by (rule createZKMetricStruct_accepted[OF assms])
  show ?thesis
    by (simp add: descs_accepted_def zkQueryVariableRelationship_def
          zkAlertsRate_def zkCanaryDuration_def zkCurrentEpochRate_def zkCurrentXID_def
          zkEventsCriticalRate_def zkEventsImportantRate_def zkEventsInformationalRate_def
          zkHealthBadRate_def zkHealthConcerningRate_def zkHealthDisabledRate_def
          zkHealthGoodRate_def zkHealthUnknownRate_def zkAlertsRateAcrossClusters_def
          zkTotalAlertsRateAcrossClusters_def)
       (simp add: n metric_name_char_def ascii_letter_def ascii_digit_def)
qed

lemma zk_query_variable_relationship_accepted:
  assumes "ns = [] \<or> IsValidMetricName ns"
  shows "descs_accepted (zk_query_variable_relationship ns)"
proof -
  have n: "name \<noteq> [] \<Longrightarrow> list_all metric_name_char name \<Longrightarrow>
           two_label_desc (create_zk_metric_struct ns name h)" for name h
    by (rule create_zk_metric_struct_accepted[OF assms])
  show ?thesis
    by (simp add: descs_accepted_def zk_query_variable_relationship_def
          zk_alerts_rate_def zk_canary_duration_def zk_current_epoch_rate_def
          zk_current_xid_def)
       (simp add: n metric_name_char_def ascii_letter_def ascii_digit_def)
qed

lemma demo_desc_accepted: "two_label_desc (demo_desc ''a'')" "two_label_desc (demo_desc ''b'')"
  "two_label_desc (demo_desc ''c'')"
  unfolding demo_desc_def
  by (rule createZKMetricStruct_accepted;
      simp add: IsValidMetricName_def metric_name_char_def ascii_letter_def ascii_digit_def)+

lemma demo_table_accepted: "descs_accepted demo_table"
  by (simp add: descs_accepted_def demo_table_def demo_desc_accepted)

section \<open>The loops of the module compute these functions\<close>

lemma series_body_sends:
  assumes d: "two_label_desc d"
    and v: "Get_timeseries_query_value jp j i = Inr v"
    and names: "ValidString (Get_timeseries_query_cluster jp j i)"
      "ValidString (Get_timeseries_query_entity_name jp j i)"
  shows "series_body jp j d i st =
           Inr (st\<lparr>ch := ch st @
                  [\<lparr>desc = d, valueType = GaugeValue, val = v,
                    labelValues = [Get_timeseries_query_cluster jp j i,
                                   Get_timeseries_query_entity_name jp j i]\<rparr>]\<rparr>)"
  using assms
  by (simp add: series_body_def MustNewConstMetric_def two_label_desc_def Let_def)

lemma series_loop_eq:
  assumes "two_label_desc d" and "names_valid_from jp j n i"
  shows "series_loop jp j d n i st =
           Inr (st\<lparr>ch := ch st @ concat (map (series_sample jp j d) [i..n - 1])\<rparr>)"
  using assms
proof (induction jp j d n i st rule: series_loop.induct)
  case (1 jp j d n i st)
  show ?case
  proof (cases "i < n")
    case False
    then show ?thesis by (simp add: series_loop.simps)
  next
    case True
    then have up: "[i..n - 1] = i # [i + 1..n - 1]" by (simp add: upto_rec1)
    have here: "isl (Get_timeseries_query_value jp j i)
                \<or> (ValidString (Get_timeseries_query_cluster jp j i)
                    \<and> ValidString (Get_timeseries_query_entity_name jp j i))"
      and rest: "names_valid_from jp j n (i + 1)"
      using "1.prems"(2) up by (simp_all add: names_valid_from_def)
    show ?thesis
    proof (cases "Get_timeseries_query_value jp j i")
      case (Inl e)
      then have b: "series_body jp j d i st = Inr st" by (simp add: series_body_def)
      have s: "series_sample jp j d i = []" using Inl by (simp add: series_sample_def)
      show ?thesis
        using "1.IH"[OF True b "1.prems"(1) rest] True b s up
        by (simp add: series_loop.simps[of jp j d n i st])
    next
      case (Inr v)
      let ?m = "\<lparr>desc = d, valueType = GaugeValue, val = v,
                  labelValues = [Get_timeseries_query_cluster jp j i,
                                 Get_timeseries_query_entity_name jp j i]\<rparr>"
      have valid: "ValidString (Get_timeseries_query_cluster jp j i)"
        "ValidString (Get_timeseries_query_entity_name jp j i)"
        using here Inr by simp_all
      have b: "series_body jp j d i st = Inr (st\<lparr>ch := ch st @ [?m]\<rparr>)"
        by (rule series_body_sends[OF "1.prems"(1) Inr valid])
      have s: "series_sample jp j d i = [?m]" using Inr by (simp add: series_sample_def)
      show ?thesis
        using "1.IH"[OF True b "1.prems"(1) rest] True b s up
        by (simp add: series_loop.simps[of jp j d n i st])
    qed
  qed
qed

text \<open>When no value can be read, the loop sends nothing, whatever the descriptor.\<close>

lemma series_loop_no_values:
  assumes "\<And>k. i \<le> k \<Longrightarrow> k < n \<Longrightarrow> isl (Get_timeseries_query_value jp j k)"
  shows "series_loop jp j d n i st = Inr st"
  using assms
proof (induction jp j d n i st rule: series_loop.induct)
  case (1 jp j d n i st)
  show ?case
  proof (cases "i < n")
    case False
    then show ?thesis by (simp add: series_loop.simps)
  next
    case True
    then have "isl (Get_timeseries_query_value jp j i)" using "1.prems" by simp
    then have b: "series_body jp j d i st = Inr st"
      by (cases "Get_timeseries_query_value jp j i") (simp_all add: series_body_def)
    have "series_loop jp j d n (i + 1) st = Inr st"
      using "1.IH"[OF True b] "1.prems" by simp
    then show ?thesis using True b by (simp add: series_loop.simps[of jp j d n i st])
  qed
qed

lemma createZKMetric_eq:
  assumes "two_label_desc d" and "binding_names_valid jp c cfg q"
  shows "createZKMetric jp c cfg q d st =
           Inr (binding_ok jp c cfg q,
                st\<lparr>queries := queries st @ [q],
                   ch := ch st @ binding_samples jp c cfg q d\<rparr>)"
proof (cases "make_and_parse_timeseries_query jp c cfg q")
  case (Inl e)
  then show ?thesis
    by (simp add: createZKMetric_def binding_ok_def binding_samples_def Let_def)
next
  case j: (Inr j)
  show ?thesis
  proof (cases "Get_timeseries_num jp j")
    case (Inl e)
    then show ?thesis
      using j by (simp add: createZKMetric_def binding_ok_def binding_samples_def Let_def)
  next
    case (Inr n)
    have nv: "names_valid_from jp j n 0"
      using assms(2) j Inr by (simp add: binding_names_valid_def)
    show ?thesis
      using j Inr
      by (simp add: createZKMetric_def binding_ok_def binding_samples_def series_samples_def
            series_loop_eq[OF assms(1) nv] Let_def)
  qed
qed

lemma Scrape_loop_eq:
  assumes "descs_accepted table" and "table_names_valid jp ctx cfg i table"
  shows "Scrape_loop jp ctx cfg i table (s, e) st =
           Inr ((s + int (length table) - int (length (failed_bindings jp ctx cfg i table)),
                 e + int (length (failed_bindings jp ctx cfg i table))),
                st\<lparr>queries := queries st @ map Query table,
                   ch := ch st @ scrape_samples jp ctx cfg i table\<rparr>)"
  using assms
proof (induction table arbitrary: i s e st)
  case Nil
  then show ?case by (simp add: failed_bindings_def scrape_samples_def)
next
  case (Cons rel rels)
  have d: "two_label_desc (Metric_struct rel)" and ds: "descs_accepted rels"
    using Cons.prems(1) by (simp_all add: descs_accepted_def)
  have v: "binding_names_valid jp (ctx i) cfg (Query rel)"
    and vs: "table_names_valid jp ctx cfg (Suc i) rels"
    using Cons.prems(2) by (simp_all add: table_names_valid_def)
  show ?case
    by (simp add: createZKMetric_eq[OF d v] Cons.IH[OF ds vs] failed_bindings_def
          scrape_samples_def)
qed

lemma Scrape_eq:
  assumes "descs_accepted table" and "table_names_valid jp ctx cfg 0 table"
  shows "Scrape jp table ctx cfg st =
           Inr (None,
                st\<lparr>debug_log := debug_log st @
                     [Debug_msg ''Executing ZooKeeper Metrics Scraper'' [],
                      Debug_msg ''ZK Scraper: %d queries run, %d successful, %d errors''
                        [int (length table),
                         int (length table) - int (length (failed_bindings jp ctx cfg 0 table)),
                         int (length (failed_bindings jp ctx cfg 0 table))]],
                   queries := queries st @ map Query table,
                   ch := ch st @ scrape_samples jp ctx cfg 0 table\<rparr>)"
  by (simp add: Scrape_def Scrape_loop_eq[OF assms] Let_def)

lemma create_zk_metric_eq:
  "create_zk_metric jp c cfg q d st = createZKMetric jp c cfg q d st"
  by (simp add: create_zk_metric_def createZKMetric_def)

lemma Scrape_loop_rev1_eq:
  "Scrape_loop_rev1 jp ctx cfg table i counters st
     = Scrape_loop jp ctx cfg i (drop i table) counters st"
proof (induction jp ctx cfg table i counters st rule: Scrape_loop_rev1.induct)
  case (1 jp ctx cfg table i counters st)
  obtain s e where c: "counters = (s, e)" by (cases counters)
  show ?case
  proof (cases "i < length table")
    case False
    then show ?thesis by (simp add: c Scrape_loop_rev1.simps)
  next
    case True
    then have d: "drop i table = table ! i # drop (Suc i) table"
      by (simp add: Cons_nth_drop_Suc)
    show ?thesis
    proof (cases "createZKMetric jp (ctx i) cfg (Query (table ! i))
                    (Metric_struct (table ! i)) st")
      case (Inl pn)
      then show ?thesis
        using True
        by (simp add: c d Scrape_loop_rev1.simps[of jp ctx cfg table i] create_zk_metric_eq)
    next
      case (Inr r)
      obtain ok st' where r: "r = (ok, st')" by (cases r)
      have cz: "create_zk_metric jp (ctx i) cfg (Query (table ! i))
                  (Metric_struct (table ! i)) st = Inr (ok, st')"
        using Inr r by (simp add: create_zk_metric_eq)
      show ?thesis
        using "1.IH"[OF True refl cz refl] True Inr r
        by (simp add: c d Scrape_loop_rev1.simps[of jp ctx cfg table i] create_zk_metric_eq
              split: if_splits)
    qed
  qed
qed

lemma Scrape_rev1_eq:
  assumes "descs_accepted table" and "table_names_valid jp ctx cfg 0 table"
  shows "Scrape_rev1 jp table ctx cfg st =
           Inr (None,
                st\<lparr>debug_log := debug_log st @
                     [Debug_msg ''Executing ZooKeeper Metrics Scraper'' [],
                      Debug_msg ''ZK Module executed %d queries. %d success and %d errors''
                        [int (length table),
                         int (length table) - int (length (failed_bindings jp ctx cfg 0 table)),
                         int (length (failed_bindings jp ctx cfg 0 table))]],
                   queries := queries st @ map Query table,
                   ch := ch st @ scrape_samples jp ctx cfg 0 table\<rparr>)"
  by (simp add: Scrape_rev1_def Scrape_loop_rev1_eq Scrape_loop_eq[OF assms] Let_def)

lemma binding_samples_failed:
  "\<not> binding_ok jp c cfg q \<Longrightarrow> binding_samples jp c cfg q d = []"
  by (simp add: binding_ok_def binding_samples_def split: sum.splits)

lemma scrape_samples_succeeded:
  "scrape_samples jp ctx cfg i table =
     concat (map (\<lambda>(k, rel). binding_samples jp (ctx k) cfg (Query rel) (Metric_struct rel))
               (succeeded_bindings jp ctx cfg i table))"
  unfolding scrape_samples_def succeeded_bindings_def
  by (induction table arbitrary: i) (simp_all add: binding_samples_failed)

lemma failed_plus_succeeded:
  "length (failed_bindings jp ctx cfg i table) + length (succeeded_bindings jp ctx cfg i table)
     = length table"
  unfolding failed_bindings_def succeeded_bindings_def
  by (induction table arbitrary: i) simp_all

lemma scrape_samples_append:
  "scrape_samples jp ctx cfg i (xs @ ys) =
     scrape_samples jp ctx cfg i xs @ scrape_samples jp ctx cfg (i + length xs) ys"
  by (simp add: scrape_samples_def enumerate_append_eq)

lemma failed_bindings_append:
  "failed_bindings jp ctx cfg i (xs @ ys) =
     failed_bindings jp ctx cfg i xs @ failed_bindings jp ctx cfg (i + length xs) ys"
  by (simp add: failed_bindings_def enumerate_append_eq)

lemma succeeded_bindings_append:
  "succeeded_bindings jp ctx cfg i (xs @ ys) =
     succeeded_bindings jp ctx cfg i xs @ succeeded_bindings jp ctx cfg (i + length xs) ys"
  by (simp add: succeeded_bindings_def enumerate_append_eq)

lemma query_error_not_ok:
  "make_and_parse_timeseries_query jp c cfg q = Inl err \<Longrightarrow> \<not> binding_ok jp c cfg q"
  by (simp add: binding_ok_def)

lemma all_fail_from:
  assumes "\<And>k q. i \<le> k \<Longrightarrow> isl (make_and_parse_timeseries_query jp (ctx k) cfg q)"
  shows "scrape_samples jp ctx cfg i table = []
         \<and> failed_bindings jp ctx cfg i table = enumerate i table"
  using assms
proof (induction table arbitrary: i)
  case Nil
  then show ?case by (simp add: scrape_samples_def failed_bindings_def)
next
  case (Cons rel rels)
  have "isl (make_and_parse_timeseries_query jp (ctx i) cfg (Query rel))"
    using Cons.prems by simp
  then obtain err where e: "make_and_parse_timeseries_query jp (ctx i) cfg (Query rel) = Inl err"
    by (cases "make_and_parse_timeseries_query jp (ctx i) cfg (Query rel)") simp_all
  have ih: "scrape_samples jp ctx cfg (Suc i) rels = []
            \<and> failed_bindings jp ctx cfg (Suc i) rels = enumerate (Suc i) rels"
    using Cons.IH[of "Suc i"] Cons.prems by simp
  show ?case
    using e ih
    by (simp add: scrape_samples_def failed_bindings_def binding_samples_def binding_ok_def)
qed

lemma table_names_valid_append:
  "table_names_valid jp ctx cfg i (xs @ ys) =
     (table_names_valid jp ctx cfg i xs \<and> table_names_valid jp ctx cfg (i + length xs) ys)"
  by (simp add: table_names_valid_def enumerate_append_eq)

lemma descs_accepted_append:
  "descs_accepted (xs @ ys) = (descs_accepted xs \<and> descs_accepted ys)"
  by (simp add: descs_accepted_def)

section \<open>The loops of the collector compute these functions\<close>

lemma foldl_sum_body:
  "foldl sum_body (s, c) xs =
     (foldl (+) s (map (\<lambda>ts. Value (last (Data ts))) (filter (\<lambda>ts. Data ts \<noteq> []) xs)),
      c + int (length (filter (\<lambda>ts. Data ts \<noteq> []) xs)))"
proof (induction xs arbitrary: s c)
  case Nil
  then show ?case by simp
next
  case (Cons ts xs)
  show ?case
  proof (cases "Data ts = []")
    case True
    then have "sum_body (s, c) ts = (s, c)" by (simp add: sum_body_def)
    then show ?thesis using True Cons.IH[of s c] by simp
  next
    case False
    then have "Data ts ! (length (Data ts) - 1) = last (Data ts)"
      by (simp add: last_conv_nth)
    then have "sum_body (s, c) ts = (s + Value (last (Data ts)), c + 1)"
      using False by (simp add: sum_body_def Let_def)
    then show ?thesis using False Cons.IH[of "s + Value (last (Data ts))" "c + 1"] by simp
  qed
qed

lemma foldl_nested:
  "foldl (\<lambda>acc item. foldl f acc (g item)) a items = foldl f a (concat (map g items))"
  by (induction items arbitrary: a) simp_all

lemma sum_loop_eq:
  "sum_loop tsResp =
     (foldl (+) 0 (last_values tsResp),
      int (length (filter (\<lambda>ts. Data ts \<noteq> []) (all_series tsResp))))"
  by (simp add: sum_loop_def foldl_nested foldl_sum_body last_values_def all_series_def)

lemma fetchMetric_ok:
  assumes "NewRequest_error http ''GET'' (fetchMetric_url zc m c) = None"
    and "Do http (fetchMetric_request zc m c) = Inr resp"
    and "StatusCode resp = 200"
    and "Decode http (Body resp) = Inr tsResp"
  shows "fetchMetric http zc m c = Inr (foldl (+) 0 (last_values tsResp))"
proof -
  have "filter (\<lambda>ts. Data ts \<noteq> []) (all_series tsResp) = [] \<Longrightarrow> last_values tsResp = []"
    by (simp add: last_values_def)
  then show ?thesis
    using assms
    by (auto simp add: fetchMetric_def fetchMetric_request_def sum_loop_eq Let_def)
qed

lemma find_invalid_None:
  "list_all ValidString lvs \<Longrightarrow> find (\<lambda>x. \<not> ValidString x) lvs = None"
  by (induction lvs) simp_all

lemma send_metric_eq:
  assumes "descErr d = None" and "length lvs = length (variableLabels d)"
    and "list_all ValidString lvs"
  shows "send_metric d v lvs st =
           Inr (st\<lparr>out_ch := out_ch st @
                  [\<lparr>desc = d, valueType = GaugeValue, val = v, labelValues = lvs\<rparr>]\<rparr>)"
  using assms(1,2)
  by (simp add: send_metric_def MustNewConstMetric_def find_invalid_None[OF assms(3)])

lemma DemoCluster_valid: "list_all ValidString [''DemoCluster'']"
  by (simp add: ValidString_ascii)

lemma Collect_eq:
  assumes "length (variableLabels (alertsRate zc)) = 1"
    and "length (variableLabels (canaryDuration zc)) = 1"
    and "variableLabels (alertsRateAcrossClusters zc) = []"
    and "variableLabels (totalAlertsRateAcrossClusters zc) = []"
    and "descErr (alertsRate zc) = None"
    and "descErr (canaryDuration zc) = None"
    and "descErr (alertsRateAcrossClusters zc) = None"
    and "descErr (totalAlertsRateAcrossClusters zc) = None"
  shows "Collect http zc st =
           Inr (st\<lparr>out_ch := out_ch st @ collect_samples http zc,
                   std_log := std_log st @ collect_logged http zc\<rparr>)"
  using assms
  by (simp add: Collect_def collect_samples_def collect_logged_def fetched_sample_def
        fetch_logged_def send_metric_eq[OF _ _ DemoCluster_valid] send_metric_eq[of _ "[]"]
        Let_def split: sum.splits)

lemma NewZookeeperCollector_labels:
  "variableLabels (alertsRate (NewZookeeperCollector h p v u pw)) = [''cluster'']"
  "variableLabels (canaryDuration (NewZookeeperCollector h p v u pw)) = [''cluster'']"
  "variableLabels (alertsRateAcrossClusters (NewZookeeperCollector h p v u pw)) = []"
  "variableLabels (totalAlertsRateAcrossClusters (NewZookeeperCollector h p v u pw)) = []"
  by (simp_all add: NewZookeeperCollector_def NewDesc_def)

lemma NewZookeeperCollector_accepted:
  "descErr (alertsRate (NewZookeeperCollector h p v u pw)) = None"
  "descErr (canaryDuration (NewZookeeperCollector h p v u pw)) = None"
  "descErr (alertsRateAcrossClusters (NewZookeeperCollector h p v u pw)) = None"
  "descErr (totalAlertsRateAcrossClusters (NewZookeeperCollector h p v u pw)) = None"
  by (simp_all add: NewZookeeperCollector_def NewDesc_def IsValidMetricName_def
        metric_name_char_def checkLabelName_def LabelName_IsValid_def label_name_char_def
        ascii_letter_def ascii_digit_def)

lemma Collect_New_eq:
  "Collect http (NewZookeeperCollector h p v u pw) st =
     Inr (st\<lparr>out_ch := out_ch st @ collect_samples http (NewZookeeperCollector h p v u pw),
             std_log := std_log st @ collect_logged http (NewZookeeperCollector h p v u pw)\<rparr>)"
  by (rule Collect_eq) (simp_all add: NewZookeeperCollector_labels NewZookeeperCollector_accepted)

section \<open>Concrete runs of the small upstream\<close>

lemma demo_names_valid:
  "ValidString ''C1''" "ValidString ''zk1''" "ValidString ''zk2''"
  by (simp_all add: ValidString_ascii)

lemma demo_binding_names_valid: "binding_names_valid demo_helpers c () q"
  by (simp add: binding_names_valid_def demo_helpers_def names_valid_from_def upto_rec1
        demo_names_valid)

lemma demo_table_names_valid:
  "table_names_valid demo_helpers never_cancelled () 0 demo_table"
  "table_names_valid demo_helpers cancelled_after_first () 0 demo_table"
  by (simp_all add: table_names_valid_def list_all_iff demo_binding_names_valid
        split: prod.splits)

lemma demo_succeeded:
  "succeeded_bindings demo_helpers never_cancelled () 0 demo_table =
     [(0, \<lparr>Query = ''up'', Metric_struct = demo_desc ''a''\<rparr>),
      (2, \<lparr>Query = ''nodata'', Metric_struct = demo_desc ''c''\<rparr>)]"
  by (simp add: succeeded_bindings_def demo_table_def binding_ok_def demo_helpers_def
        never_cancelled_def)

lemma demo_failed:
  "failed_bindings demo_helpers never_cancelled () 0 demo_table =
     [(1, \<lparr>Query = ''down'', Metric_struct = demo_desc ''b''\<rparr>)]"
  by (simp add: failed_bindings_def demo_table_def binding_ok_def demo_helpers_def
        never_cancelled_def)

lemma demo_samples_up:
  "binding_samples demo_helpers False () ''up'' d =
     [\<lparr>desc = d, valueType = GaugeValue, val = 1, labelValues = [''C1'', ''zk1'']\<rparr>,
      \<lparr>desc = d, valueType = GaugeValue, val = 2.5, labelValues = [''C1'', ''zk2'']\<rparr>]"
  by (simp add: binding_samples_def demo_helpers_def series_samples_def series_sample_def
        upto_rec1)

lemma demo_samples_nodata:
  "binding_samples demo_helpers False () ''nodata'' d = []"
  by (simp add: binding_samples_def demo_helpers_def series_samples_def series_sample_def
        upto_rec1)

lemma demo_table_queries:
  "map Query demo_table = [''up'', ''down'', ''nodata'']" "length demo_table = 3"
  by (simp_all add: demo_table_def)

lemma demo_table_split:
  "demo_table = [\<lparr>Query = ''up'', Metric_struct = demo_desc ''a''\<rparr>]
                 @ \<lparr>Query = ''down'', Metric_struct = demo_desc ''b''\<rparr>
                 # [\<lparr>Query = ''nodata'', Metric_struct = demo_desc ''c''\<rparr>]"
  by (simp add: demo_table_def)

lemma demo_http_total:
  "NewRequest_error demo_http ''GET''
     (fetchMetric_url demo_collector ''total_alerts_rate_across_clusters'' []) = None"
  "Do demo_http (fetchMetric_request demo_collector ''total_alerts_rate_across_clusters'' [])
     = Inr \<lparr>StatusCode = 500, Body = []\<rparr>"
  by (simp_all add: demo_http_def fetchMetric_request_def fetchMetric_url_def demo_collector_def
        NewZookeeperCollector_def)

lemma demo_cancelled_samples:
  "scrape_samples demo_helpers cancelled_after_first () 0 demo_table =
     [\<lparr>desc = demo_desc ''a'', valueType = GaugeValue, val = 1,
        labelValues = [''C1'', ''zk1'']\<rparr>,
      \<lparr>desc = demo_desc ''a'', valueType = GaugeValue, val = 2.5,
        labelValues = [''C1'', ''zk2'']\<rparr>]"
  "failed_bindings demo_helpers cancelled_after_first () 0 demo_table =
     [(1, \<lparr>Query = ''down'', Metric_struct = demo_desc ''b''\<rparr>),
      (2, \<lparr>Query = ''nodata'', Metric_struct = demo_desc ''c''\<rparr>)]"
proof -
  have c: "binding_samples demo_helpers True () q d = []" for q d
    by (simp add: binding_samples_def demo_helpers_def)
  show "scrape_samples demo_helpers cancelled_after_first () 0 demo_table =
     [\<lparr>desc = demo_desc ''a'', valueType = GaugeValue, val = 1,
        labelValues = [''C1'', ''zk1'']\<rparr>,
      \<lparr>desc = demo_desc ''a'', valueType = GaugeValue, val = 2.5,
        labelValues = [''C1'', ''zk2'']\<rparr>]"
    by (simp add: scrape_samples_def demo_table_def cancelled_after_first_def c demo_samples_up)
  show "failed_bindings demo_helpers cancelled_after_first () 0 demo_table =
     [(1, \<lparr>Query = ''down'', Metric_struct = demo_desc ''b''\<rparr>),
      (2, \<lparr>Query = ''nodata'', Metric_struct = demo_desc ''c''\<rparr>)]"
    by (simp add: failed_bindings_def demo_table_def cancelled_after_first_def binding_ok_def
          demo_helpers_def)
qed

lemma last_values_point_values:
  "last_values tsResp = map last (filter (\<lambda>vs. vs \<noteq> []) (point_values tsResp))"
  unfolding last_values_def point_values_def
  by (induction "all_series tsResp" arbitrary: tsResp) (simp_all add: filter_map comp_def last_map)

lemma nonempty_count_point_values:
  "length (filter (\<lambda>ts. Data ts \<noteq> []) (all_series tsResp))
     = length (filter (\<lambda>vs. vs \<noteq> []) (point_values tsResp))"
  unfolding point_values_def by (simp add: filter_map comp_def)

lemma sum_loop_point_values:
  "point_values tsResp' = point_values tsResp \<Longrightarrow> sum_loop tsResp' = sum_loop tsResp"
  by (simp add: sum_loop_eq last_values_point_values nonempty_count_point_values)

lemma sum_body_nonempty:
  "Data ts \<noteq> [] \<Longrightarrow> sum_body (s, n) ts = (s + Value (last (Data ts)), n + 1)"
  by (simp add: sum_body_def Let_def last_conv_nth)

lemma sum_body_empty: "Data ts = [] \<Longrightarrow> sum_body acc ts = acc"
  by (cases acc) (simp add: sum_body_def)

lemma demo_http_alerts_rate:
  "NewRequest_error demo_http ''GET''
     (fetchMetric_url demo_collector ''alerts_rate'' ''DemoCluster'') = None"
  "Do demo_http (fetchMetric_request demo_collector ''alerts_rate'' ''DemoCluster'')
     = Inr \<lparr>StatusCode = 200, Body = ''two''\<rparr>"
  "Decode demo_http ''two'' = Inr demo_response"
  by (simp_all add: demo_http_def fetchMetric_request_def fetchMetric_url_def demo_collector_def
        NewZookeeperCollector_def)

lemma demo_last_values: "last_values demo_response = [1, 2.5]"
  by (simp add: last_values_def all_series_def demo_response_def)

lemma foldl_sum_body_skip:
  "Data ts = [] \<Longrightarrow> foldl sum_body acc (xs @ ts # ys) = foldl sum_body acc (xs @ ys)"
  by (simp add: sum_body_empty)

lemma last_values_all_empty:
  "list_all (\<lambda>ts. Data ts = []) (all_series tsResp) \<Longrightarrow> last_values tsResp = []"
  by (simp add: last_values_def list_all_iff filter_empty_conv)

lemma demo_http_across:
  "NewRequest_error demo_http ''GET''
     (fetchMetric_url demo_collector ''alerts_rate_across_clusters'' []) = None"
  "Do demo_http (fetchMetric_request demo_collector ''alerts_rate_across_clusters'' [])
     = Inr \<lparr>StatusCode = 200, Body = ''empty''\<rparr>"
  "Decode demo_http ''empty'' = Inr demo_empty_response"
  by (simp_all add: demo_http_def fetchMetric_request_def fetchMetric_url_def demo_collector_def
        NewZookeeperCollector_def)

lemma demo_http_canary:
  "NewRequest_error demo_http ''GET''
     (fetchMetric_url demo_collector ''canary_duration'' ''DemoCluster'') = None"
  "Do demo_http (fetchMetric_request demo_collector ''canary_duration'' ''DemoCluster'')
     = Inl (OtherError ''context deadline exceeded'')"
  by (simp_all add: demo_http_def fetchMetric_request_def fetchMetric_url_def demo_collector_def
        NewZookeeperCollector_def)

lemma demo_fetches:
  "fetchMetric demo_http demo_collector ''alerts_rate'' ''DemoCluster'' = Inr 3.5"
  "fetchMetric demo_http demo_collector ''alerts_rate_across_clusters'' [] = Inr 0"
  "fetchMetric demo_http demo_collector ''total_alerts_rate_across_clusters'' []
     = Inl (Non200Response 500)"
  "fetchMetric demo_http demo_collector ''canary_duration'' ''DemoCluster''
     = Inl (OtherError ''context deadline exceeded'')"
proof -
  show "fetchMetric demo_http demo_collector ''alerts_rate'' ''DemoCluster'' = Inr 3.5"
    using fetchMetric_ok[OF demo_http_alerts_rate(1) demo_http_alerts_rate(2)]
    by (simp add: demo_http_alerts_rate demo_last_values)
  have "last_values demo_empty_response = ([] :: real list)"
    by (simp add: last_values_def all_series_def demo_empty_response_def)
  then show "fetchMetric demo_http demo_collector ''alerts_rate_across_clusters'' [] = Inr 0"
    using fetchMetric_ok[OF demo_http_across(1) demo_http_across(2)]
    by (simp add: demo_http_across)
  show "fetchMetric demo_http demo_collector ''total_alerts_rate_across_clusters'' []
          = Inl (Non200Response 500)"
    using demo_http_total
    by (simp add: fetchMetric_def fetchMetric_request_def Let_def)
  show "fetchMetric demo_http demo_collector ''canary_duration'' ''DemoCluster''
          = Inl (OtherError ''context deadline exceeded'')"
    using demo_http_canary
    by (simp add: fetchMetric_def fetchMetric_request_def Let_def)
qed

lemma demo_Collect:
  "Collect demo_http demo_collector empty_collect_state =
     Inr \<lparr>out_ch =
            [\<lparr>desc = alertsRate demo_collector, valueType = GaugeValue, val = 3.5,
               labelValues = [''DemoCluster'']\<rparr>,
             \<lparr>desc = alertsRateAcrossClusters demo_collector, valueType = GaugeValue, val = 0,
               labelValues = []\<rparr>],
          std_log =
            [Printf (''Error fetching total_alerts_rate_across_clusters: %v'' @ [CHR 0x0A])
               (Non200Response 500)]\<rparr>"
  unfolding demo_collector_def Collect_New_eq
  by (simp add: collect_samples_def collect_logged_def fetched_sample_def fetch_logged_def
        demo_fetches[unfolded demo_collector_def] empty_collect_state_def)

lemma concat_map_singletons:
  "(\<And>x. x \<in> set xs \<Longrightarrow> f x = [g x]) \<Longrightarrow> concat (map f xs) = map g xs"
  by (induction xs) simp_all

lemma series_samples_all_values:
  assumes "\<And>k. 0 \<le> k \<Longrightarrow> k < n \<Longrightarrow> Get_timeseries_query_value jp j k = Inr (v k)"
  shows "series_samples jp j d n =
           map (\<lambda>k. \<lparr>desc = d, valueType = GaugeValue, val = v k,
                       labelValues = [Get_timeseries_query_cluster jp j k,
                                      Get_timeseries_query_entity_name jp j k]\<rparr>) [0..n - 1]"
  unfolding series_samples_def
proof (rule concat_map_singletons)
  fix k assume "k \<in> set [0..n - 1]"
  then have "0 \<le> k" "k < n" by simp_all
  then show "series_sample jp j d k =
          [\<lparr>desc = d, valueType = GaugeValue, val = v k,
             labelValues = [Get_timeseries_query_cluster jp j k,
                            Get_timeseries_query_entity_name jp j k]\<rparr>]"
    using assms[of k] by (simp add: series_sample_def)
qed

lemma length_upto_from_zero: "length [0..n - 1] = nat n"
  by simp

lemma series_sample_labels:
  "m \<in> set (series_sample jp j d k) \<Longrightarrow> desc m = d \<and> length (labelValues m) = 2"
  by (auto simp add: series_sample_def split: sum.splits)

lemma binding_samples_labels:
  "m \<in> set (binding_samples jp c cfg q d) \<Longrightarrow> desc m = d \<and> length (labelValues m) = 2"
  by (auto simp add: binding_samples_def series_samples_def split: sum.splits
        dest: series_sample_labels)

lemma scrape_samples_labels:
  assumes "list_all (\<lambda>r. Q (Metric_struct r)) table"
  shows "list_all (\<lambda>m. Q (desc m) \<and> length (labelValues m) = 2)
           (scrape_samples jp ctx cfg i table)"
  using assms
proof (induction table arbitrary: i)
  case Nil
  then show ?case by (simp add: scrape_samples_def)
next
  case (Cons r rs)
  have here: "list_all (\<lambda>m. Q (desc m) \<and> length (labelValues m) = 2)
                (binding_samples jp (ctx i) cfg (Query r) (Metric_struct r))"
    using Cons.prems by (auto simp add: list_all_iff dest: binding_samples_labels)
  have rest: "list_all (\<lambda>m. Q (desc m) \<and> length (labelValues m) = 2)
                (scrape_samples jp ctx cfg (Suc i) rs)"
    using Cons.IH Cons.prems by simp
  show ?case
    using here rest by (simp add: scrape_samples_def)
qed

lemma zkQueryVariableRelationship_labels:
  "list_all (\<lambda>r. variableLabels (Metric_struct r) = [''cluster'', ''entityName''])
     (zkQueryVariableRelationship ns)"
  by (simp add: zkQueryVariableRelationship_def createZKMetricStruct_def NewDesc_def Let_def
        zkAlertsRate_def zkCanaryDuration_def zkCurrentEpochRate_def zkCurrentXID_def
        zkEventsCriticalRate_def zkEventsImportantRate_def zkEventsInformationalRate_def
        zkHealthBadRate_def zkHealthConcerningRate_def zkHealthDisabledRate_def
        zkHealthGoodRate_def zkHealthUnknownRate_def zkAlertsRateAcrossClusters_def
        zkTotalAlertsRateAcrossClusters_def)

lemma fetched_sample_labels:
  "length lvs = length (variableLabels d) \<Longrightarrow>
   list_all (\<lambda>m. length (labelValues m) = length (variableLabels (desc m)))
     (fetched_sample http zc d m c lvs)"
  by (simp add: fetched_sample_def split: sum.splits)

lemma collect_samples_labels:
  "list_all (\<lambda>m. length (labelValues m) = length (variableLabels (desc m)))
     (collect_samples http (NewZookeeperCollector h p v u pw))"
  by (simp add: collect_samples_def fetched_sample_labels NewZookeeperCollector_labels)

lemma demo_samples_other:
  "q \<noteq> ''down'' \<Longrightarrow> q \<noteq> ''nodata'' \<Longrightarrow>
   binding_samples demo_helpers False () q d =
     [\<lparr>desc = d, valueType = GaugeValue, val = 1, labelValues = [''C1'', ''zk1'']\<rparr>,
      \<lparr>desc = d, valueType = GaugeValue, val = 2.5, labelValues = [''C1'', ''zk2'']\<rparr>]"
  by (simp add: binding_samples_def demo_helpers_def series_samples_def series_sample_def
        upto_rec1)

lemma QueryEscape_brackets: "QueryEscape ''['' = ''%5B''" "QueryEscape '']'' = ''%5D''"
  by (simp_all add: QueryEscape_def QueryEscape_char_def shouldEscape_def upperhex_def)

lemma QueryEscape_char_unreserved: "\<not> shouldEscape x \<Longrightarrow> QueryEscape_char x = [x]"
proof -
  assume a: "\<not> shouldEscape x"
  have "shouldEscape (CHR '' '')" by (simp add: shouldEscape_def)
  with a have "x \<noteq> CHR '' ''" by auto
  with a show ?thesis by (simp add: QueryEscape_char_def)
qed

lemma QueryEscape_unreserved:
  "list_all (\<lambda>x. \<not> shouldEscape x) s \<Longrightarrow> QueryEscape s = s"
  by (induction s) (simp_all add: QueryEscape_def QueryEscape_char_unreserved)

section \<open>Concrete runs of the module over the query client\<close>

lemma demo_query_urls:
  "query_request demo_config ''alerts_rate'' =
     \<lparr>httpMethod = ''GET'', url = ''http://cm:7180/api/v19/timeseries?query=alerts_rate'',
      basicAuth = Some (''admin'', ''admin'')\<rparr>"
  "query_request demo_config ''total_alerts_rate_across_clusters'' =
     \<lparr>httpMethod = ''GET'',
      url = ''http://cm:7180/api/v19/timeseries?query=total_alerts_rate_across_clusters'',
      basicAuth = Some (''admin'', ''admin'')\<rparr>"
proof -
  have "QueryEscape ''alerts_rate'' = ''alerts_rate''"
    by (rule QueryEscape_unreserved) (simp add: shouldEscape_def)
  then show "query_request demo_config ''alerts_rate'' =
     \<lparr>httpMethod = ''GET'', url = ''http://cm:7180/api/v19/timeseries?query=alerts_rate'',
      basicAuth = Some (''admin'', ''admin'')\<rparr>"
    by (simp add: query_request_def demo_config_def)
  have "QueryEscape ''total_alerts_rate_across_clusters'' = ''total_alerts_rate_across_clusters''"
    by (rule QueryEscape_unreserved) (simp add: shouldEscape_def)
  then show "query_request demo_config ''total_alerts_rate_across_clusters'' =
     \<lparr>httpMethod = ''GET'',
      url = ''http://cm:7180/api/v19/timeseries?query=total_alerts_rate_across_clusters'',
      basicAuth = Some (''admin'', ''admin'')\<rparr>"
    by (simp add: query_request_def demo_config_def)
qed

lemma demo_upstream_Do:
  "Do demo_upstream (query_request demo_config ''alerts_rate'')
     = Inr \<lparr>StatusCode = 200, Body = ''two''\<rparr>"
  "Do demo_upstream (query_request demo_config ''total_alerts_rate_across_clusters'')
     = Inr \<lparr>StatusCode = 500, Body = []\<rparr>"
  by (simp_all add: demo_query_urls demo_upstream_def demo_http_def)

lemma demo_query_client:
  "query_client demo_upstream False demo_config ''alerts_rate'' = Inr demo_response"
  "query_client demo_upstream False demo_config ''total_alerts_rate_across_clusters''
     = Inl (Failure (UpstreamError 500))"
proof -
  have "Decode demo_upstream ''two'' = Inr demo_response"
    by (simp add: demo_upstream_def demo_http_def)
  then show "query_client demo_upstream False demo_config ''alerts_rate'' = Inr demo_response"
    by (simp add: query_client_def demo_upstream_Do success_status_def)
  show "query_client demo_upstream False demo_config ''total_alerts_rate_across_clusters''
          = Inl (Failure (UpstreamError 500))"
    by (simp add: query_client_def demo_upstream_Do success_status_def)
qed

lemma demo_all_series:
  "all_series demo_response =
     [\<lparr>MetricName = ''alerts_rate'',
       Data = [\<lparr>Timestamp = ''t1'', Value = 4\<rparr>, \<lparr>Timestamp = ''t2'', Value = 1\<rparr>]\<rparr>,
      \<lparr>MetricName = ''alerts_rate'',
       Data = [\<lparr>Timestamp = ''t9'', Value = 7\<rparr>, \<lparr>Timestamp = ''t3'', Value = 2.5\<rparr>]\<rparr>]"
  by (simp add: all_series_def demo_response_def)

lemma demo_query_table_accepted: "descs_accepted demo_query_table"
  by (simp add: descs_accepted_def demo_query_table_def demo_desc_accepted)

lemma demo_query_names_valid:
  "binding_names_valid demo_json_parser False demo_config ''alerts_rate''"
  "binding_names_valid demo_json_parser False demo_config ''total_alerts_rate_across_clusters''"
  by (simp_all add: binding_names_valid_def demo_json_parser_def demo_query_client
        names_valid_from_def demo_all_series upto_rec1 ValidString_ascii)

lemma demo_query_table_names_valid:
  "table_names_valid demo_json_parser never_cancelled demo_config 0 demo_query_table"
  by (simp add: table_names_valid_def demo_query_table_def never_cancelled_def
        demo_query_names_valid)

lemma demo_query_ok:
  "binding_ok demo_json_parser False demo_config ''alerts_rate''"
  by (simp add: binding_ok_def demo_json_parser_def demo_query_client)

lemma demo_query_samples:
  "binding_samples demo_json_parser False demo_config ''alerts_rate'' d =
     [\<lparr>desc = d, valueType = GaugeValue, val = 1, labelValues = [''C1'', ''alerts_rate'']\<rparr>,
      \<lparr>desc = d, valueType = GaugeValue, val = 2.5, labelValues = [''C1'', ''alerts_rate'']\<rparr>]"
  by (simp add: binding_samples_def demo_json_parser_def demo_query_client series_samples_def
        series_sample_def demo_all_series upto_rec1)

lemma demo_upstream_sel:
  "NewRequest_error demo_upstream = NewRequest_error demo_http"
  "Decode demo_upstream = Decode demo_http"
  "url req \<noteq> ''http://cm:7180/api/v19/timeseries?query=alerts_rate''
   \<Longrightarrow> Do demo_upstream req = Do demo_http req"
  by (simp_all add: demo_upstream_def)

lemma demo_upstream_fetch:
  assumes "fetchMetric_url zc m c \<noteq> ''http://cm:7180/api/v19/timeseries?query=alerts_rate''"
  shows "fetchMetric demo_upstream zc m c = fetchMetric demo_http zc m c"
proof -
  have d: "Do demo_upstream \<lparr>httpMethod = ''GET'', url = fetchMetric_url zc m c,
                           basicAuth = Some (username zc, password zc)\<rparr>
        = Do demo_http \<lparr>httpMethod = ''GET'', url = fetchMetric_url zc m c,
                          basicAuth = Some (username zc, password zc)\<rparr>"
    using assms by (simp add: demo_upstream_sel(3))
  show ?thesis
    unfolding fetchMetric_def Let_def demo_upstream_sel(1,2) d ..
qed

lemma demo_upstream_fetches:
  "fetchMetric demo_upstream demo_collector ''alerts_rate'' ''DemoCluster'' = Inr 3.5"
  "fetchMetric demo_upstream demo_collector ''alerts_rate_across_clusters'' [] = Inr 0"
  "fetchMetric demo_upstream demo_collector ''total_alerts_rate_across_clusters'' []
     = Inl (Non200Response 500)"
  "fetchMetric demo_upstream demo_collector ''canary_duration'' ''DemoCluster''
     = Inl (OtherError ''context deadline exceeded'')"
proof -
  have u: "fetchMetric_url demo_collector ''alerts_rate'' ''DemoCluster''
             \<noteq> ''http://cm:7180/api/v19/timeseries?query=alerts_rate''"
    "fetchMetric_url demo_collector ''alerts_rate_across_clusters'' []
       \<noteq> ''http://cm:7180/api/v19/timeseries?query=alerts_rate''"
    "fetchMetric_url demo_collector ''total_alerts_rate_across_clusters'' []
       \<noteq> ''http://cm:7180/api/v19/timeseries?query=alerts_rate''"
    "fetchMetric_url demo_collector ''canary_duration'' ''DemoCluster''
       \<noteq> ''http://cm:7180/api/v19/timeseries?query=alerts_rate''"
    by (simp_all add: fetchMetric_url_def demo_collector_def NewZookeeperCollector_def)
  show "fetchMetric demo_upstream demo_collector ''alerts_rate'' ''DemoCluster'' = Inr 3.5"
    using demo_upstream_fetch[OF u(1)] demo_fetches(1) by simp
  show "fetchMetric demo_upstream demo_collector ''alerts_rate_across_clusters'' [] = Inr 0"
    using demo_upstream_fetch[OF u(2)] demo_fetches(2) by simp
  show "fetchMetric demo_upstream demo_collector ''total_alerts_rate_across_clusters'' []
          = Inl (Non200Response 500)"
    using demo_upstream_fetch[OF u(3)] demo_fetches(3) by simp
  show "fetchMetric demo_upstream demo_collector ''canary_duration'' ''DemoCluster''
          = Inl (OtherError ''context deadline exceeded'')"
    using demo_upstream_fetch[OF u(4)] demo_fetches(4) by simp
qed

lemma demo_upstream_total:
  "NewRequest_error demo_upstream ''GET''
     (fetchMetric_url demo_collector ''total_alerts_rate_across_clusters'' []) = None"
  "Do demo_upstream (fetchMetric_request demo_collector ''total_alerts_rate_across_clusters'' [])
     = Inr \<lparr>StatusCode = 500, Body = []\<rparr>"
  by (simp_all add: demo_upstream_def demo_http_def fetchMetric_request_def fetchMetric_url_def
        demo_collector_def NewZookeeperCollector_def)

lemma demo_upstream_Collect:
  "Collect demo_upstream demo_collector empty_collect_state =
     Inr \<lparr>out_ch =
            [\<lparr>desc = alertsRate demo_collector, valueType = GaugeValue, val = 3.5,
               labelValues = [''DemoCluster'']\<rparr>,
             \<lparr>desc = alertsRateAcrossClusters demo_collector, valueType = GaugeValue, val = 0,
               labelValues = []\<rparr>],
          std_log =
            [Printf (''Error fetching total_alerts_rate_across_clusters: %v'' @ [CHR 0x0A])
               (Non200Response 500)]\<rparr>"
  unfolding demo_collector_def Collect_New_eq
  by (simp add: collect_samples_def collect_logged_def fetched_sample_def fetch_logged_def
        demo_upstream_fetches[unfolded demo_collector_def] empty_collect_state_def)

lemma NewZookeeperCollector_descs_distinct:
  "distinct [alertsRate (NewZookeeperCollector h p v u pw),
             alertsRateAcrossClusters (NewZookeeperCollector h p v u pw),
             totalAlertsRateAcrossClusters (NewZookeeperCollector h p v u pw),
             canaryDuration (NewZookeeperCollector h p v u pw)]"
  by (simp add: NewZookeeperCollector_def NewDesc_def)

lemma fetched_sample_desc:
  "list_all (\<lambda>s. desc s = d) (fetched_sample http zc d m c lvs)"
  by (simp add: fetched_sample_def split: sum.splits)

section \<open>The claims\<close>

subsection \<open>C1\<close>

text \<open>
  C1. A scrape over a table of \<open>N\<close> bindings of which \<open>K\<close> fail returns \<^verbatim>\<open>nil\<close>, has
  asked every query of the table, has sent exactly the samples of the \<open>N - K\<close> bindings
  that succeeded, in table order, and logs the tally \<open>N\<close>, \<open>N - K\<close>, \<open>K\<close>. This is for
  sends that the library accepts: the descriptors of the table are accepted two-label
  descriptors, as \<^verbatim>\<open>createZKMetricStruct\<close> builds them from well-formed names, and the
  cluster and entity names the helpers return for the series that are sent are valid
  UTF-8. Both revisions of the module.
\<close>

theorem Scrape_isolates_failures:
  assumes accepted: "descs_accepted table"
    and names: "table_names_valid jp ctx cfg 0 table"
  shows "Scrape jp table ctx cfg st =
           Inr (None,
                st\<lparr>debug_log := debug_log st @
                     [Debug_msg ''Executing ZooKeeper Metrics Scraper'' [],
                      Debug_msg ''ZK Scraper: %d queries run, %d successful, %d errors''
                        [int (length table),
                         int (length (succeeded_bindings jp ctx cfg 0 table)),
                         int (length (failed_bindings jp ctx cfg 0 table))]],
                   queries := queries st @ map Query table,
                   ch := ch st @
                     concat (map (\<lambda>(k, rel). binding_samples jp (ctx k) cfg (Query rel)
                                                (Metric_struct rel))
                               (succeeded_bindings jp ctx cfg 0 table))\<rparr>)
         \<and> Scrape_rev1 jp table ctx cfg st =
           Inr (None,
                st\<lparr>debug_log := debug_log st @
                     [Debug_msg ''Executing ZooKeeper Metrics Scraper'' [],
                      Debug_msg ''ZK Module executed %d queries. %d success and %d errors''
                        [int (length table),
                         int (length (succeeded_bindings jp ctx cfg 0 table)),
                         int (length (failed_bindings jp ctx cfg 0 table))]],
                   queries := queries st @ map Query table,
                   ch := ch st @
                     concat (map (\<lambda>(k, rel). binding_samples jp (ctx k) cfg (Query rel)
                                                (Metric_struct rel))
                               (succeeded_bindings jp ctx cfg 0 table))\<rparr>)
         \<and> length (succeeded_bindings jp ctx cfg 0 table)
             = length table - length (failed_bindings jp ctx cfg 0 table)
         \<and> length (failed_bindings jp ctx cfg 0 table) \<le> length table"
proof -
  have n: "length (failed_bindings jp ctx cfg 0 table)
             + length (succeeded_bindings jp ctx cfg 0 table) = length table"
    by (rule failed_plus_succeeded)
  then have i: "int (length table) - int (length (failed_bindings jp ctx cfg 0 table))
                  = int (length (succeeded_bindings jp ctx cfg 0 table))"
    by linarith
  have s: "scrape_samples jp ctx cfg 0 table =
             concat (map (\<lambda>(k, rel). binding_samples jp (ctx k) cfg (Query rel)
                                        (Metric_struct rel))
                       (succeeded_bindings jp ctx cfg 0 table))"
    by (rule scrape_samples_succeeded)
  show ?thesis
    using n by (simp add: Scrape_eq[OF assms] Scrape_rev1_eq[OF assms] i s)
qed

theorem Scrape_isolates_failures_witness:
  "descs_accepted demo_table
   \<and> table_names_valid demo_helpers never_cancelled () 0 demo_table
   \<and> Scrape demo_helpers demo_table never_cancelled () empty_scrape_state =
       Inr (None,
            \<lparr>ch = [\<lparr>desc = demo_desc ''a'', valueType = GaugeValue, val = 1,
                     labelValues = [''C1'', ''zk1'']\<rparr>,
                   \<lparr>desc = demo_desc ''a'', valueType = GaugeValue, val = 2.5,
                     labelValues = [''C1'', ''zk2'']\<rparr>],
              debug_log =
                [Debug_msg ''Executing ZooKeeper Metrics Scraper'' [],
                 Debug_msg ''ZK Scraper: %d queries run, %d successful, %d errors'' [3, 2, 1]],
              queries = [''up'', ''down'', ''nodata'']\<rparr>)"
  using Scrape_isolates_failures[OF demo_table_accepted demo_table_names_valid(1),
          of empty_scrape_state]
  by (simp add: demo_table_accepted demo_table_names_valid demo_succeeded demo_failed demo_samples_up
        demo_samples_nodata empty_scrape_state_def demo_table_queries never_cancelled_def)

subsection \<open>C2\<close>

text \<open>
  C2. A fetch that is answered with status 200 and a body that decodes returns the sum,
  from zero, of one value per series that has data points: the value of the data point
  that is last in the list. The choice is by position: two responses whose values agree
  position by position give the same sum and the same count, whatever their timestamps.
\<close>

theorem fetchMetric_takes_last_point_by_position:
  assumes nr: "NewRequest_error http ''GET'' (fetchMetric_url zc m c) = None"
    and do: "Do http (fetchMetric_request zc m c) = Inr resp"
    and status: "StatusCode resp = 200"
    and decode: "Decode http (Body resp) = Inr tsResp"
  shows "fetchMetric http zc m c =
           Inr (foldl (+) 0 (map (\<lambda>ts. Value (last (Data ts)))
                               (filter (\<lambda>ts. Data ts \<noteq> []) (all_series tsResp))))
         \<and> (Data ts \<noteq> [] \<longrightarrow> sum_body (s, n) ts = (s + Value (last (Data ts)), n + 1))
         \<and> (point_values tsResp' = point_values tsResp \<longrightarrow> sum_loop tsResp' = sum_loop tsResp)"
proof (intro conjI impI)
  show "fetchMetric http zc m c =
          Inr (foldl (+) 0 (map (\<lambda>ts. Value (last (Data ts)))
                              (filter (\<lambda>ts. Data ts \<noteq> []) (all_series tsResp))))"
    using fetchMetric_ok[OF nr do status decode] by (simp add: last_values_def)
next
  assume "Data ts \<noteq> []"
  then show "sum_body (s, n) ts = (s + Value (last (Data ts)), n + 1)"
    by (rule sum_body_nonempty)
next
  assume "point_values tsResp' = point_values tsResp"
  then show "sum_loop tsResp' = sum_loop tsResp"
    by (rule sum_loop_point_values)
qed

theorem fetchMetric_takes_last_point_by_position_witness:
  "NewRequest_error demo_http ''GET''
     (fetchMetric_url demo_collector ''alerts_rate'' ''DemoCluster'') = None
   \<and> Do demo_http (fetchMetric_request demo_collector ''alerts_rate'' ''DemoCluster'')
       = Inr \<lparr>StatusCode = 200, Body = ''two''\<rparr>
   \<and> Decode demo_http ''two'' = Inr demo_response
   \<and> fetchMetric demo_http demo_collector ''alerts_rate'' ''DemoCluster'' = Inr 3.5
   \<and> sum_body (1, 1)
        \<lparr>MetricName = ''alerts_rate'',
          Data = [\<lparr>Timestamp = ''t9'', Value = 7\<rparr>, \<lparr>Timestamp = ''t3'', Value = 2.5\<rparr>]\<rparr>
       = (3.5 :: real, 2)
   \<and> sum_loop
        \<lparr>Items =
          [\<lparr>TimeSeries =
              [\<lparr>MetricName = ''alerts_rate'',
                Data = [\<lparr>Timestamp = ''t2'', Value = 4\<rparr>, \<lparr>Timestamp = ''t1'', Value = 1\<rparr>]\<rparr>,
               \<lparr>MetricName = ''alerts_rate'',
                Data = [\<lparr>Timestamp = ''t3'', Value = 7\<rparr>,
                        \<lparr>Timestamp = ''t9'', Value = 2.5\<rparr>]\<rparr>]\<rparr>]\<rparr>
       = sum_loop demo_response"
proof -
  have st: "StatusCode \<lparr>StatusCode = 200, Body = ''two''\<rparr> = 200" by simp
  have dec: "Decode demo_http (Body \<lparr>StatusCode = 200, Body = ''two''\<rparr>) = Inr demo_response"
    by (simp add: demo_http_alerts_rate)
  have pv: "point_values
        \<lparr>Items =
          [\<lparr>TimeSeries =
              [\<lparr>MetricName = ''alerts_rate'',
                Data = [\<lparr>Timestamp = ''t2'', Value = 4\<rparr>, \<lparr>Timestamp = ''t1'', Value = 1\<rparr>]\<rparr>,
               \<lparr>MetricName = ''alerts_rate'',
                Data = [\<lparr>Timestamp = ''t3'', Value = 7\<rparr>,
                        \<lparr>Timestamp = ''t9'', Value = 2.5\<rparr>]\<rparr>]\<rparr>]\<rparr>
       = point_values demo_response"
    by (simp add: point_values_def all_series_def demo_response_def)
  note inst = fetchMetric_takes_last_point_by_position[
      OF demo_http_alerts_rate(1) demo_http_alerts_rate(2) st dec,
      where ts = "\<lparr>MetricName = ''alerts_rate'',
          Data = [\<lparr>Timestamp = ''t9'', Value = 7 :: real\<rparr>,
                  \<lparr>Timestamp = ''t3'', Value = 2.5\<rparr>]\<rparr>"
        and s = 1 and n = 1
        and tsResp' = "\<lparr>Items =
          [\<lparr>TimeSeries =
              [\<lparr>MetricName = ''alerts_rate'',
                Data = [\<lparr>Timestamp = ''t2'', Value = 4\<rparr>, \<lparr>Timestamp = ''t1'', Value = 1\<rparr>]\<rparr>,
               \<lparr>MetricName = ''alerts_rate'',
                Data = [\<lparr>Timestamp = ''t3'', Value = 7\<rparr>,
                        \<lparr>Timestamp = ''t9'', Value = 2.5\<rparr>]\<rparr>]\<rparr>]\<rparr>"]
  have "fetchMetric demo_http demo_collector ''alerts_rate'' ''DemoCluster'' =
          Inr (foldl (+) 0 (map (\<lambda>ts. Value (last (Data ts)))
                              (filter (\<lambda>ts. Data ts \<noteq> []) (all_series demo_response))))"
    using inst by blast
  then have f: "fetchMetric demo_http demo_collector ''alerts_rate'' ''DemoCluster'' = Inr 3.5"
    by (simp add: all_series_def demo_response_def)
  have b: "sum_body (1, 1)
        \<lparr>MetricName = ''alerts_rate'',
          Data = [\<lparr>Timestamp = ''t9'', Value = 7\<rparr>, \<lparr>Timestamp = ''t3'', Value = 2.5\<rparr>]\<rparr>
       = (3.5 :: real, 2)"
    using inst by simp
  have l: "sum_loop
        \<lparr>Items =
          [\<lparr>TimeSeries =
              [\<lparr>MetricName = ''alerts_rate'',
                Data = [\<lparr>Timestamp = ''t2'', Value = 4\<rparr>, \<lparr>Timestamp = ''t1'', Value = 1\<rparr>]\<rparr>,
               \<lparr>MetricName = ''alerts_rate'',
                Data = [\<lparr>Timestamp = ''t3'', Value = 7\<rparr>,
                        \<lparr>Timestamp = ''t9'', Value = 2.5\<rparr>]\<rparr>]\<rparr>]\<rparr>
       = sum_loop demo_response"
    using inst pv by blast
  show ?thesis
    using f b l by (simp add: demo_http_alerts_rate)
qed

subsection \<open>C3\<close>

text \<open>
  C3, as the code has it. A series without data points is skipped: it changes neither the
  sum nor the count, and nothing fails. When no series of the response has a data point,
  \<^verbatim>\<open>fetchMetric\<close> returns the value zero and no error, and \<^verbatim>\<open>Collect\<close>, which sends
  one sample for each fetch that returns no error, sends a sample with the value zero.
\<close>

theorem empty_series_skipped_but_zero_sent:
  assumes nr: "NewRequest_error http ''GET'' (fetchMetric_url zc m c) = None"
    and do: "Do http (fetchMetric_request zc m c) = Inr resp"
    and status: "StatusCode resp = 200"
    and decode: "Decode http (Body resp) = Inr tsResp"
    and empty: "list_all (\<lambda>ts. Data ts = []) (all_series tsResp)"
  shows "(Data ts = [] \<longrightarrow>
            sum_body acc ts = acc
            \<and> foldl sum_body acc (xs @ ts # ys) = foldl sum_body acc (xs @ ys))
         \<and> fetchMetric http zc m c = Inr 0
         \<and> fetched_sample http zc d m c lvs =
             [\<lparr>desc = d, valueType = GaugeValue, val = 0, labelValues = lvs\<rparr>]
         \<and> Collect http (NewZookeeperCollector h p v u pw) st =
             Inr (st\<lparr>out_ch := out_ch st @
                      fetched_sample http (NewZookeeperCollector h p v u pw)
                        (alertsRate (NewZookeeperCollector h p v u pw))
                        ''alerts_rate'' ''DemoCluster'' [''DemoCluster'']
                      @ fetched_sample http (NewZookeeperCollector h p v u pw)
                          (alertsRateAcrossClusters (NewZookeeperCollector h p v u pw))
                          ''alerts_rate_across_clusters'' [] []
                      @ fetched_sample http (NewZookeeperCollector h p v u pw)
                          (totalAlertsRateAcrossClusters (NewZookeeperCollector h p v u pw))
                          ''total_alerts_rate_across_clusters'' [] []
                      @ fetched_sample http (NewZookeeperCollector h p v u pw)
                          (canaryDuration (NewZookeeperCollector h p v u pw))
                          ''canary_duration'' ''DemoCluster'' [''DemoCluster''],
                    std_log := std_log st @
                      collect_logged http (NewZookeeperCollector h p v u pw)\<rparr>)"
proof -
  have f: "fetchMetric http zc m c = Inr 0"
    using fetchMetric_ok[OF nr do status decode] last_values_all_empty[OF empty] by simp
  have s: "Data ts = [] \<longrightarrow>
            sum_body acc ts = acc
            \<and> foldl sum_body acc (xs @ ts # ys) = foldl sum_body acc (xs @ ys)"
    using sum_body_empty[of ts acc] foldl_sum_body_skip[of ts acc xs ys] by blast
  show ?thesis
    using f s by (simp add: fetched_sample_def Collect_New_eq collect_samples_def)
qed

theorem empty_series_skipped_but_zero_sent_witness:
  "list_all (\<lambda>ts. Data ts = []) (all_series demo_empty_response)
   \<and> sum_body (1 :: real, 1) \<lparr>MetricName = ''alerts_rate_across_clusters'', Data = []\<rparr> = (1, 1)
   \<and> fetchMetric demo_http demo_collector ''alerts_rate_across_clusters'' [] = Inr 0
   \<and> Collect demo_http demo_collector empty_collect_state =
       Inr \<lparr>out_ch =
              [\<lparr>desc = alertsRate demo_collector, valueType = GaugeValue, val = 3.5,
                 labelValues = [''DemoCluster'']\<rparr>,
               \<lparr>desc = alertsRateAcrossClusters demo_collector, valueType = GaugeValue,
                 val = 0, labelValues = []\<rparr>],
            std_log =
              [Printf (''Error fetching total_alerts_rate_across_clusters: %v'' @ [CHR 0x0A])
                 (Non200Response 500)]\<rparr>"
proof -
  have st: "StatusCode \<lparr>StatusCode = 200, Body = ''empty''\<rparr> = 200" by simp
  have dec: "Decode demo_http (Body \<lparr>StatusCode = 200, Body = ''empty''\<rparr>)
               = Inr demo_empty_response"
    by (simp add: demo_http_across)
  have e: "list_all (\<lambda>ts. Data ts = []) (all_series demo_empty_response)"
    by (simp add: all_series_def demo_empty_response_def)
  note inst = empty_series_skipped_but_zero_sent[
      OF demo_http_across(1) demo_http_across(2) st dec e,
      where ts = "\<lparr>MetricName = ''alerts_rate_across_clusters'', Data = []\<rparr>"
        and acc = "(1 :: real, 1)" and xs = "[]" and ys = "[]"
        and d = "alertsRateAcrossClusters demo_collector" and lvs = "[]"
        and h = "''cm''" and p = "''7180''" and v = "''v19''" and u = "''admin''"
        and pw = "''admin''" and st = empty_collect_state]
  have b: "sum_body (1 :: real, 1) \<lparr>MetricName = ''alerts_rate_across_clusters'', Data = []\<rparr>
             = (1, 1)"
    using inst by simp
  have f: "fetchMetric demo_http demo_collector ''alerts_rate_across_clusters'' [] = Inr 0"
    using inst by blast
  have "Collect demo_http demo_collector empty_collect_state =
          Inr (empty_collect_state\<lparr>out_ch := out_ch empty_collect_state @
                      fetched_sample demo_http demo_collector (alertsRate demo_collector)
                        ''alerts_rate'' ''DemoCluster'' [''DemoCluster'']
                      @ fetched_sample demo_http demo_collector
                          (alertsRateAcrossClusters demo_collector)
                          ''alerts_rate_across_clusters'' [] []
                      @ fetched_sample demo_http demo_collector
                          (totalAlertsRateAcrossClusters demo_collector)
                          ''total_alerts_rate_across_clusters'' [] []
                      @ fetched_sample demo_http demo_collector (canaryDuration demo_collector)
                          ''canary_duration'' ''DemoCluster'' [''DemoCluster''],
                    std_log := std_log empty_collect_state @
                      collect_logged demo_http demo_collector\<rparr>)"
    using inst unfolding demo_collector_def by blast
  then have c: "Collect demo_http demo_collector empty_collect_state =
       Inr \<lparr>out_ch =
              [\<lparr>desc = alertsRate demo_collector, valueType = GaugeValue, val = 3.5,
                 labelValues = [''DemoCluster'']\<rparr>,
               \<lparr>desc = alertsRateAcrossClusters demo_collector, valueType = GaugeValue,
                 val = 0, labelValues = []\<rparr>],
            std_log =
              [Printf (''Error fetching total_alerts_rate_across_clusters: %v'' @ [CHR 0x0A])
                 (Non200Response 500)]\<rparr>"
    by (simp add: fetched_sample_def collect_logged_def fetch_logged_def demo_fetches
          empty_collect_state_def)
  show ?thesis using e b f c by simp
qed

text \<open>
  C3 as the specification states it fails: the response to the query
  \<^verbatim>\<open>alerts_rate_across_clusters\<close> holds one series, which has no data points, and
  \<^verbatim>\<open>Collect\<close> sends a sample with the value zero for it.
\<close>

theorem no_sample_for_empty_series_counterexample:
  "all_series demo_empty_response =
     [\<lparr>MetricName = ''alerts_rate_across_clusters'', Data = []\<rparr>]
   \<and> Decode demo_http ''empty'' = Inr demo_empty_response
   \<and> Do demo_http (fetchMetric_request demo_collector ''alerts_rate_across_clusters'' [])
       = Inr \<lparr>StatusCode = 200, Body = ''empty''\<rparr>
   \<and> Collect demo_http demo_collector empty_collect_state =
       Inr \<lparr>out_ch =
              [\<lparr>desc = alertsRate demo_collector, valueType = GaugeValue, val = 3.5,
                 labelValues = [''DemoCluster'']\<rparr>,
               \<lparr>desc = alertsRateAcrossClusters demo_collector, valueType = GaugeValue,
                 val = 0, labelValues = []\<rparr>],
            std_log =
              [Printf (''Error fetching total_alerts_rate_across_clusters: %v'' @ [CHR 0x0A])
                 (Non200Response 500)]\<rparr>"
  by (simp add: demo_Collect demo_http_across all_series_def demo_empty_response_def)

subsection \<open>C4\<close>

text \<open>
  C4, as the code has it. In the module, a response of \<open>n\<close> series whose values can all be
  read gives \<open>n\<close> samples, one per series in the order of the series, each with the value
  and the cluster and entity names of its series; nothing is added up (the sends being
  ones the library accepts: an accepted two-label descriptor and names that are valid
  UTF-8). In the standalone collector, \<^verbatim>\<open>fetchMetric\<close> adds the last values of all series
  and \<^verbatim>\<open>Collect\<close> sends that sum as one sample for the query, however many series the
  response has: \<^verbatim>\<open>Collect\<close> sends at most four samples, one for each of its four
  queries that is answered, and for its first query the sample with the sum.
\<close>

theorem one_sample_per_series_in_module_one_sum_in_collector:
  assumes q: "make_and_parse_timeseries_query jp cx cfg q = Inr j"
    and n: "Get_timeseries_num jp j = Inr n"
    and d: "two_label_desc d"
    and vals: "\<And>k. 0 \<le> k \<Longrightarrow> k < n \<Longrightarrow> Get_timeseries_query_value jp j k = Inr (v k)"
    and valid: "\<And>k. 0 \<le> k \<Longrightarrow> k < n \<Longrightarrow>
                  ValidString (Get_timeseries_query_cluster jp j k)
                  \<and> ValidString (Get_timeseries_query_entity_name jp j k)"
    and nr: "NewRequest_error http ''GET'' (fetchMetric_url zc m c) = None"
    and do: "Do http (fetchMetric_request zc m c) = Inr resp"
    and status: "StatusCode resp = 200"
    and decode: "Decode http (Body resp) = Inr tsResp"
  shows "createZKMetric jp cx cfg q d st =
           Inr (True,
                st\<lparr>queries := queries st @ [q],
                   ch := ch st @
                     map (\<lambda>k. \<lparr>desc = d, valueType = GaugeValue, val = v k,
                                 labelValues = [Get_timeseries_query_cluster jp j k,
                                                Get_timeseries_query_entity_name jp j k]\<rparr>)
                       [0..n - 1]\<rparr>)
         \<and> length [0..n - 1] = nat n
         \<and> fetchMetric http zc m c = Inr (foldl (+) 0 (last_values tsResp))
         \<and> fetched_sample http zc d' m c lvs =
             [\<lparr>desc = d', valueType = GaugeValue, val = foldl (+) 0 (last_values tsResp),
               labelValues = lvs\<rparr>]
         \<and> Collect http (NewZookeeperCollector h p a u pw) cst =
             Inr (cst\<lparr>out_ch := out_ch cst @
                      fetched_sample http (NewZookeeperCollector h p a u pw)
                        (alertsRate (NewZookeeperCollector h p a u pw))
                        ''alerts_rate'' ''DemoCluster'' [''DemoCluster'']
                      @ fetched_sample http (NewZookeeperCollector h p a u pw)
                          (alertsRateAcrossClusters (NewZookeeperCollector h p a u pw))
                          ''alerts_rate_across_clusters'' [] []
                      @ fetched_sample http (NewZookeeperCollector h p a u pw)
                          (totalAlertsRateAcrossClusters (NewZookeeperCollector h p a u pw))
                          ''total_alerts_rate_across_clusters'' [] []
                      @ fetched_sample http (NewZookeeperCollector h p a u pw)
                          (canaryDuration (NewZookeeperCollector h p a u pw))
                          ''canary_duration'' ''DemoCluster'' [''DemoCluster''],
                    std_log := std_log cst @
                      collect_logged http (NewZookeeperCollector h p a u pw)\<rparr>)
         \<and> (case Collect http (NewZookeeperCollector h p a u pw) cst of
               Inl pn \<Rightarrow> False
             | Inr cst' \<Rightarrow> length (out_ch cst') \<le> length (out_ch cst) + 4)
         \<and> (zc = NewZookeeperCollector h p a u pw \<and> m = ''alerts_rate'' \<and> c = ''DemoCluster''
              \<longrightarrow>
              Collect http zc cst =
                Inr (cst\<lparr>out_ch := out_ch cst @
                         [\<lparr>desc = alertsRate zc, valueType = GaugeValue,
                           val = foldl (+) 0 (last_values tsResp),
                           labelValues = [''DemoCluster'']\<rparr>]
                         @ fetched_sample http zc (alertsRateAcrossClusters zc)
                             ''alerts_rate_across_clusters'' [] []
                         @ fetched_sample http zc (totalAlertsRateAcrossClusters zc)
                             ''total_alerts_rate_across_clusters'' [] []
                         @ fetched_sample http zc (canaryDuration zc)
                             ''canary_duration'' ''DemoCluster'' [''DemoCluster''],
                       std_log := std_log cst @ collect_logged http zc\<rparr>))"
proof -
  have ok: "binding_ok jp cx cfg q"
    using q n by (simp add: binding_ok_def)
  have bs: "binding_samples jp cx cfg q d = series_samples jp j d n"
    using q n by (simp add: binding_samples_def)
  have nv: "binding_names_valid jp cx cfg q"
    using q n valid by (simp add: binding_names_valid_def names_valid_from_def list_all_iff)
  have cm: "createZKMetric jp cx cfg q d st =
           Inr (True,
                st\<lparr>queries := queries st @ [q],
                   ch := ch st @
                     map (\<lambda>k. \<lparr>desc = d, valueType = GaugeValue, val = v k,
                                 labelValues = [Get_timeseries_query_cluster jp j k,
                                                Get_timeseries_query_entity_name jp j k]\<rparr>)
                       [0..n - 1]\<rparr>)"
    using ok
    by (simp add: createZKMetric_eq[OF d nv] bs series_samples_all_values[of n jp j v d, OF vals])
  have f: "fetchMetric http zc m c = Inr (foldl (+) 0 (last_values tsResp))"
    by (rule fetchMetric_ok[OF nr do status decode])
  have fs: "fetched_sample http zc d' m c lvs =
             [\<lparr>desc = d', valueType = GaugeValue, val = foldl (+) 0 (last_values tsResp),
               labelValues = lvs\<rparr>]" for d' lvs
    using f by (simp add: fetched_sample_def)
  have one: "length (fetched_sample http zc' d' m' c' lvs') \<le> 1" for zc' d' m' c' lvs'
    by (simp add: fetched_sample_def split: sum.splits)
  have four: "length (collect_samples http (NewZookeeperCollector h p a u pw)) \<le> 4"
  proof -
    let ?zc = "NewZookeeperCollector h p a u pw"
    have "length (fetched_sample http ?zc (alertsRate ?zc) ''alerts_rate'' ''DemoCluster''
                    [''DemoCluster'']) \<le> 1"
      "length (fetched_sample http ?zc (alertsRateAcrossClusters ?zc)
                 ''alerts_rate_across_clusters'' [] []) \<le> 1"
      "length (fetched_sample http ?zc (totalAlertsRateAcrossClusters ?zc)
                 ''total_alerts_rate_across_clusters'' [] []) \<le> 1"
      "length (fetched_sample http ?zc (canaryDuration ?zc) ''canary_duration''
                 ''DemoCluster'' [''DemoCluster'']) \<le> 1"
      by (rule one)+
    then show ?thesis
      unfolding collect_samples_def length_append by linarith
  qed
  have ce: "Collect http (NewZookeeperCollector h p a u pw) cst =
             Inr (cst\<lparr>out_ch := out_ch cst @
                      collect_samples http (NewZookeeperCollector h p a u pw),
                    std_log := std_log cst @
                      collect_logged http (NewZookeeperCollector h p a u pw)\<rparr>)"
    by (rule Collect_New_eq)
  have bound: "case Collect http (NewZookeeperCollector h p a u pw) cst of
                 Inl pn \<Rightarrow> False
               | Inr cst' \<Rightarrow> length (out_ch cst') \<le> length (out_ch cst) + 4"
    using four by (simp add: ce)
  have first: "zc = NewZookeeperCollector h p a u pw \<and> m = ''alerts_rate''
                 \<and> c = ''DemoCluster'' \<longrightarrow>
              Collect http zc cst =
                Inr (cst\<lparr>out_ch := out_ch cst @
                         [\<lparr>desc = alertsRate zc, valueType = GaugeValue,
                           val = foldl (+) 0 (last_values tsResp),
                           labelValues = [''DemoCluster'']\<rparr>]
                         @ fetched_sample http zc (alertsRateAcrossClusters zc)
                             ''alerts_rate_across_clusters'' [] []
                         @ fetched_sample http zc (totalAlertsRateAcrossClusters zc)
                             ''total_alerts_rate_across_clusters'' [] []
                         @ fetched_sample http zc (canaryDuration zc)
                             ''canary_duration'' ''DemoCluster'' [''DemoCluster''],
                       std_log := std_log cst @ collect_logged http zc\<rparr>)"
    using fs[of "alertsRate zc" "[''DemoCluster'']"]
    by (auto simp add: ce collect_samples_def)
  have len: "length [0..n - 1] = nat n" by simp
  show ?thesis
    using cm len f fs ce[unfolded collect_samples_def] bound first by blast
qed

theorem one_sample_per_series_in_module_one_sum_in_collector_witness:
  "make_and_parse_timeseries_query demo_helpers False () ''up''
     = Inr [(''C1'', ''zk1'', Some 1), (''C1'', ''zk2'', Some 2.5)]
   \<and> two_label_desc (demo_desc ''a'')
   \<and> createZKMetric demo_helpers False () ''up'' (demo_desc ''a'') empty_scrape_state =
       Inr (True,
            \<lparr>ch = [\<lparr>desc = demo_desc ''a'', valueType = GaugeValue, val = 1,
                     labelValues = [''C1'', ''zk1'']\<rparr>,
                   \<lparr>desc = demo_desc ''a'', valueType = GaugeValue, val = 2.5,
                     labelValues = [''C1'', ''zk2'']\<rparr>],
              debug_log = [], queries = [''up'']\<rparr>)
   \<and> last_values demo_response = [1, 2.5]
   \<and> fetchMetric demo_http demo_collector ''alerts_rate'' ''DemoCluster'' = Inr 3.5
   \<and> fetched_sample demo_http demo_collector (alertsRate demo_collector)
         ''alerts_rate'' ''DemoCluster'' [''DemoCluster''] =
       [\<lparr>desc = alertsRate demo_collector, valueType = GaugeValue, val = 3.5,
         labelValues = [''DemoCluster'']\<rparr>]
   \<and> Collect demo_http demo_collector empty_collect_state =
       Inr \<lparr>out_ch =
              [\<lparr>desc = alertsRate demo_collector, valueType = GaugeValue, val = 3.5,
                 labelValues = [''DemoCluster'']\<rparr>,
               \<lparr>desc = alertsRateAcrossClusters demo_collector, valueType = GaugeValue,
                 val = 0, labelValues = []\<rparr>],
            std_log =
              [Printf (''Error fetching total_alerts_rate_across_clusters: %v'' @ [CHR 0x0A])
                 (Non200Response 500)]\<rparr>"
proof -
  let ?j = "[(''C1'', ''zk1'', Some (1 :: real)), (''C1'', ''zk2'', Some 2.5)]"
  let ?v = "\<lambda>k :: int. if k = 0 then (1 :: real) else 2.5"
  have q: "make_and_parse_timeseries_query demo_helpers False () ''up'' = Inr ?j"
    by (simp add: demo_helpers_def)
  have n: "Get_timeseries_num demo_helpers ?j = Inr 2"
    by (simp add: demo_helpers_def)
  have vals: "Get_timeseries_query_value demo_helpers ?j k = Inr (?v k)"
    if "0 \<le> k" "k < 2" for k
  proof -
    from that have "k = 0 \<or> k = 1" by auto
    then show ?thesis by (auto simp add: demo_helpers_def)
  qed
  have valid: "ValidString (Get_timeseries_query_cluster demo_helpers ?j k)
               \<and> ValidString (Get_timeseries_query_entity_name demo_helpers ?j k)"
    if "0 \<le> k" "k < 2" for k
  proof -
    from that have "k = 0 \<or> k = 1" by auto
    then show ?thesis by (auto simp add: demo_helpers_def demo_names_valid)
  qed
  have st: "StatusCode \<lparr>StatusCode = 200, Body = ''two''\<rparr> = 200" by simp
  have dec: "Decode demo_http (Body \<lparr>StatusCode = 200, Body = ''two''\<rparr>) = Inr demo_response"
    by (simp add: demo_http_alerts_rate)
  note inst = one_sample_per_series_in_module_one_sum_in_collector[
      where jp = demo_helpers and v = ?v and st = empty_scrape_state
        and d' = "alertsRate demo_collector" and lvs = "[''DemoCluster'']"
        and h = "''cm''" and p = "''7180''" and a = "''v19''" and u = "''admin''"
        and pw = "''admin''" and cst = empty_collect_state,
      OF q n demo_desc_accepted(1) vals valid
        demo_http_alerts_rate(1) demo_http_alerts_rate(2) st dec]
  have up: "[0..1] = [0, 1 :: int]"
    by (simp add: upto_rec1)
  have cm: "createZKMetric demo_helpers False () ''up'' (demo_desc ''a'') empty_scrape_state =
       Inr (True,
            \<lparr>ch = [\<lparr>desc = demo_desc ''a'', valueType = GaugeValue, val = 1,
                     labelValues = [''C1'', ''zk1'']\<rparr>,
                   \<lparr>desc = demo_desc ''a'', valueType = GaugeValue, val = 2.5,
                     labelValues = [''C1'', ''zk2'']\<rparr>],
              debug_log = [], queries = [''up'']\<rparr>)"
    using inst by (simp add: up empty_scrape_state_def demo_helpers_def)
  have f: "fetchMetric demo_http demo_collector ''alerts_rate'' ''DemoCluster'' = Inr 3.5"
    using inst by (simp add: demo_last_values)
  have fs: "fetched_sample demo_http demo_collector (alertsRate demo_collector)
         ''alerts_rate'' ''DemoCluster'' [''DemoCluster''] =
       [\<lparr>desc = alertsRate demo_collector, valueType = GaugeValue, val = 3.5,
         labelValues = [''DemoCluster'']\<rparr>]"
    using inst by (simp add: demo_last_values)
  have "Collect demo_http demo_collector empty_collect_state =
                Inr (empty_collect_state\<lparr>out_ch := out_ch empty_collect_state @
                         [\<lparr>desc = alertsRate demo_collector, valueType = GaugeValue,
                           val = foldl (+) 0 (last_values demo_response),
                           labelValues = [''DemoCluster'']\<rparr>]
                         @ fetched_sample demo_http demo_collector
                             (alertsRateAcrossClusters demo_collector)
                             ''alerts_rate_across_clusters'' [] []
                         @ fetched_sample demo_http demo_collector
                             (totalAlertsRateAcrossClusters demo_collector)
                             ''total_alerts_rate_across_clusters'' [] []
                         @ fetched_sample demo_http demo_collector
                             (canaryDuration demo_collector)
                             ''canary_duration'' ''DemoCluster'' [''DemoCluster''],
                       std_log := std_log empty_collect_state
                         @ collect_logged demo_http demo_collector\<rparr>)"
    using inst demo_collector_def by blast
  then have c: "Collect demo_http demo_collector empty_collect_state =
       Inr \<lparr>out_ch =
              [\<lparr>desc = alertsRate demo_collector, valueType = GaugeValue, val = 3.5,
                 labelValues = [''DemoCluster'']\<rparr>,
               \<lparr>desc = alertsRateAcrossClusters demo_collector, valueType = GaugeValue,
                 val = 0, labelValues = []\<rparr>],
            std_log =
              [Printf (''Error fetching total_alerts_rate_across_clusters: %v'' @ [CHR 0x0A])
                 (Non200Response 500)]\<rparr>"
    by (simp add: fetched_sample_def collect_logged_def fetch_logged_def demo_fetches
          demo_last_values empty_collect_state_def)
  show ?thesis
    using q demo_desc_accepted(1) cm demo_last_values f fs c by blast
qed

text \<open>
  C4 as the specification states it fails in the collector: the response to the query
  \<^verbatim>\<open>alerts_rate\<close> has two series, each with data points, and \<^verbatim>\<open>Collect\<close> sends one
  sample for it, whose value is the sum of the two last values.
\<close>

theorem one_sample_per_series_counterexample:
  "length (all_series demo_response) = 2
   \<and> list_all (\<lambda>ts. Data ts \<noteq> []) (all_series demo_response)
   \<and> Decode demo_http ''two'' = Inr demo_response
   \<and> Do demo_http (fetchMetric_request demo_collector ''alerts_rate'' ''DemoCluster'')
       = Inr \<lparr>StatusCode = 200, Body = ''two''\<rparr>
   \<and> fetchMetric demo_http demo_collector ''alerts_rate'' ''DemoCluster'' = Inr 3.5
   \<and> filter (\<lambda>m. desc m = alertsRate demo_collector)
        (out_ch (projr (Collect demo_http demo_collector empty_collect_state))) =
       [\<lparr>desc = alertsRate demo_collector, valueType = GaugeValue, val = 3.5,
         labelValues = [''DemoCluster'']\<rparr>]"
proof -
  have ne: "alertsRateAcrossClusters demo_collector \<noteq> alertsRate demo_collector"
    by (simp add: demo_collector_def NewZookeeperCollector_def NewDesc_def)
  show ?thesis
    using ne
    by (simp add: demo_Collect demo_http_alerts_rate demo_fetches all_series_def
          demo_response_def)
qed

subsection \<open>C5\<close>

text \<open>
  C5, as the code has it. Every sample the module sends and every sample the standalone
  collector sends has as many label values as its descriptor declares labels. In the
  standalone collector the two aggregate descriptors declare no label, their samples
  carry no label value and their requests name no cluster. In the module every
  descriptor, the two aggregate ones too, declares the labels \<^verbatim>\<open>cluster\<close> and
  \<^verbatim>\<open>entityName\<close>, and every sample carries the cluster and the entity name of its series.
  That the scrape of the module sends its samples without a panic is for a namespace that
  is empty or a well-formed metric name, and for cluster and entity names that are valid
  UTF-8.
\<close>

theorem label_values_match_declared_labels:
  "((ns = [] \<or> IsValidMetricName ns)
      \<and> table_names_valid jp ctx cfg 0 (zkQueryVariableRelationship ns) \<longrightarrow>
    (case Scrape jp (zkQueryVariableRelationship ns) ctx cfg st of
       Inl pn \<Rightarrow> False
     | Inr (r, st') \<Rightarrow>
         ch st' = ch st @ scrape_samples jp ctx cfg 0 (zkQueryVariableRelationship ns)))
   \<and> list_all (\<lambda>m. variableLabels (desc m) = [''cluster'', ''entityName'']
                    \<and> length (labelValues m) = length (variableLabels (desc m)))
         (scrape_samples jp ctx cfg 0 (zkQueryVariableRelationship ns))
   \<and> variableLabels (zkAlertsRateAcrossClusters ns) = [''cluster'', ''entityName'']
   \<and> variableLabels (zkTotalAlertsRateAcrossClusters ns) = [''cluster'', ''entityName'']
   \<and> (case Collect http (NewZookeeperCollector h p v u pw) cst of
         Inl pn \<Rightarrow> False
       | Inr cst' \<Rightarrow>
           out_ch cst' = out_ch cst @ collect_samples http (NewZookeeperCollector h p v u pw))
   \<and> list_all (\<lambda>m. length (labelValues m) = length (variableLabels (desc m)))
         (collect_samples http (NewZookeeperCollector h p v u pw))
   \<and> variableLabels (alertsRateAcrossClusters (NewZookeeperCollector h p v u pw)) = []
   \<and> variableLabels (totalAlertsRateAcrossClusters (NewZookeeperCollector h p v u pw)) = []
   \<and> list_all (\<lambda>m. labelValues m = [])
         (filter (\<lambda>m. variableLabels (desc m) = [])
            (collect_samples http (NewZookeeperCollector h p v u pw)))
   \<and> fetchMetric_url (NewZookeeperCollector h p v u pw) ''alerts_rate_across_clusters'' [] =
       ''http://'' @ h @ '':'' @ p @ ''/api/'' @ v
         @ ''/timeseries?query=alerts_rate_across_clusters''
   \<and> fetchMetric_url (NewZookeeperCollector h p v u pw)
         ''total_alerts_rate_across_clusters'' [] =
       ''http://'' @ h @ '':'' @ p @ ''/api/'' @ v
         @ ''/timeseries?query=total_alerts_rate_across_clusters''"
proof -
  have s: "(ns = [] \<or> IsValidMetricName ns)
             \<and> table_names_valid jp ctx cfg 0 (zkQueryVariableRelationship ns) \<longrightarrow>
           (case Scrape jp (zkQueryVariableRelationship ns) ctx cfg st of
              Inl pn \<Rightarrow> False
            | Inr (r, st') \<Rightarrow>
                ch st' = ch st @ scrape_samples jp ctx cfg 0 (zkQueryVariableRelationship ns))"
  proof
    assume a: "(ns = [] \<or> IsValidMetricName ns)
                 \<and> table_names_valid jp ctx cfg 0 (zkQueryVariableRelationship ns)"
    then have acc: "descs_accepted (zkQueryVariableRelationship ns)"
      using zkQueryVariableRelationship_accepted by blast
    from a have nv: "table_names_valid jp ctx cfg 0 (zkQueryVariableRelationship ns)"
      by blast
    show "case Scrape jp (zkQueryVariableRelationship ns) ctx cfg st of
            Inl pn \<Rightarrow> False
          | Inr (r, st') \<Rightarrow>
              ch st' = ch st @ scrape_samples jp ctx cfg 0 (zkQueryVariableRelationship ns)"
      by (simp add: Scrape_eq[OF acc nv])
  qed
  have l: "list_all (\<lambda>m. variableLabels (desc m) = [''cluster'', ''entityName'']
                          \<and> length (labelValues m) = length (variableLabels (desc m)))
             (scrape_samples jp ctx cfg 0 (zkQueryVariableRelationship ns))"
    using scrape_samples_labels[OF zkQueryVariableRelationship_labels, of jp ctx cfg 0 ns]
    by (simp add: list_all_iff)
  have a: "variableLabels (zkAlertsRateAcrossClusters ns) = [''cluster'', ''entityName'']"
          "variableLabels (zkTotalAlertsRateAcrossClusters ns) = [''cluster'', ''entityName'']"
    by (simp_all add: zkAlertsRateAcrossClusters_def zkTotalAlertsRateAcrossClusters_def
          createZKMetricStruct_def NewDesc_def Let_def)
  have c: "case Collect http (NewZookeeperCollector h p v u pw) cst of
             Inl pn \<Rightarrow> False
           | Inr cst' \<Rightarrow>
               out_ch cst' = out_ch cst @ collect_samples http (NewZookeeperCollector h p v u pw)"
    by (simp add: Collect_New_eq)
  have cl: "list_all (\<lambda>m. length (labelValues m) = length (variableLabels (desc m)))
              (collect_samples http (NewZookeeperCollector h p v u pw))"
    by (rule collect_samples_labels)
  have agg: "list_all (\<lambda>m. labelValues m = [])
               (filter (\<lambda>m. variableLabels (desc m) = [])
                  (collect_samples http (NewZookeeperCollector h p v u pw)))"
    using cl by (auto simp add: list_all_iff)
  have u: "fetchMetric_url (NewZookeeperCollector h p v u pw) ''alerts_rate_across_clusters'' []
             = ''http://'' @ h @ '':'' @ p @ ''/api/'' @ v
                 @ ''/timeseries?query=alerts_rate_across_clusters''"
          "fetchMetric_url (NewZookeeperCollector h p v u pw)
             ''total_alerts_rate_across_clusters'' []
             = ''http://'' @ h @ '':'' @ p @ ''/api/'' @ v
                 @ ''/timeseries?query=total_alerts_rate_across_clusters''"
    by (simp_all add: fetchMetric_url_def NewZookeeperCollector_def)
  show ?thesis
    using s l a c cl agg u NewZookeeperCollector_labels(3,4)[of h p v u pw] by blast
qed

theorem label_values_match_declared_labels_witness:
  "IsValidMetricName ''cm''
   \<and> table_names_valid demo_helpers never_cancelled () 0 (zkQueryVariableRelationship ''cm'')
   \<and> (case Scrape demo_helpers (zkQueryVariableRelationship ''cm'') never_cancelled ()
              empty_scrape_state of
         Inl pn \<Rightarrow> False
       | Inr (r, st') \<Rightarrow>
           ch st' = scrape_samples demo_helpers never_cancelled () 0
                      (zkQueryVariableRelationship ''cm''))
   \<and> Collect demo_http demo_collector empty_collect_state =
     Inr \<lparr>out_ch = collect_samples demo_http demo_collector,
          std_log =
            [Printf (''Error fetching total_alerts_rate_across_clusters: %v'' @ [CHR 0x0A])
               (Non200Response 500)]\<rparr>
   \<and> collect_samples demo_http demo_collector =
       [\<lparr>desc = alertsRate demo_collector, valueType = GaugeValue, val = 3.5,
          labelValues = [''DemoCluster'']\<rparr>,
        \<lparr>desc = alertsRateAcrossClusters demo_collector, valueType = GaugeValue, val = 0,
          labelValues = []\<rparr>]
   \<and> list_all (\<lambda>m. length (labelValues m) = length (variableLabels (desc m)))
         (collect_samples demo_http demo_collector)
   \<and> variableLabels (alertsRateAcrossClusters demo_collector) = []
   \<and> list_all (\<lambda>m. variableLabels (desc m) = [''cluster'', ''entityName'']
                    \<and> length (labelValues m) = length (variableLabels (desc m)))
         (scrape_samples demo_helpers never_cancelled () 0 (zkQueryVariableRelationship ''cm''))
   \<and> variableLabels (zkAlertsRateAcrossClusters ''cm'') = [''cluster'', ''entityName'']
   \<and> fetchMetric_url demo_collector ''alerts_rate_across_clusters'' [] =
       ''http://cm:7180/api/v19/timeseries?query=alerts_rate_across_clusters''"
proof -
  note inst = label_values_match_declared_labels[
      where jp = demo_helpers and ns = "''cm''" and ctx = never_cancelled and cfg = "()"
        and st = empty_scrape_state and http = demo_http
        and h = "''cm''" and p = "''7180''" and v = "''v19''" and u = "''admin''"
        and pw = "''admin''" and cst = empty_collect_state,
      folded demo_collector_def]
  have cs: "collect_samples demo_http demo_collector =
       [\<lparr>desc = alertsRate demo_collector, valueType = GaugeValue, val = 3.5,
          labelValues = [''DemoCluster'']\<rparr>,
        \<lparr>desc = alertsRateAcrossClusters demo_collector, valueType = GaugeValue, val = 0,
          labelValues = []\<rparr>]"
    by (simp add: collect_samples_def fetched_sample_def demo_fetches)
  have c: "Collect demo_http demo_collector empty_collect_state =
     Inr \<lparr>out_ch = collect_samples demo_http demo_collector,
          std_log =
            [Printf (''Error fetching total_alerts_rate_across_clusters: %v'' @ [CHR 0x0A])
               (Non200Response 500)]\<rparr>"
    by (simp add: demo_Collect cs)
  have u: "fetchMetric_url demo_collector ''alerts_rate_across_clusters'' [] =
       ''http://cm:7180/api/v19/timeseries?query=alerts_rate_across_clusters''"
    using inst by simp
  have v: "IsValidMetricName ''cm''"
    by (simp add: IsValidMetricName_def metric_name_char_def ascii_letter_def ascii_digit_def)
  have nv: "table_names_valid demo_helpers never_cancelled () 0
              (zkQueryVariableRelationship ''cm'')"
    by (simp add: table_names_valid_def list_all_iff demo_binding_names_valid
          split: prod.splits)
  have "case Scrape demo_helpers (zkQueryVariableRelationship ''cm'') never_cancelled ()
               empty_scrape_state of
          Inl pn \<Rightarrow> False
        | Inr (r, st') \<Rightarrow>
            ch st' = ch empty_scrape_state
              @ scrape_samples demo_helpers never_cancelled () 0
                  (zkQueryVariableRelationship ''cm'')"
    using inst v nv by blast
  then have sc: "case Scrape demo_helpers (zkQueryVariableRelationship ''cm'') never_cancelled ()
                        empty_scrape_state of
          Inl pn \<Rightarrow> False
        | Inr (r, st') \<Rightarrow>
            ch st' = scrape_samples demo_helpers never_cancelled () 0
                       (zkQueryVariableRelationship ''cm'')"
    by (simp add: empty_scrape_state_def split: sum.splits prod.splits)
  show ?thesis
    using inst cs c u v nv sc by blast
qed

text \<open>
  C5 as the specification states it fails in the module: the aggregate descriptor
  \<^verbatim>\<open>zkAlertsRateAcrossClusters\<close> declares two labels, and its samples carry the cluster
  and the entity name of the series.
\<close>

theorem aggregate_descriptors_without_labels_counterexample:
  "variableLabels (zkAlertsRateAcrossClusters ''cm'') = [''cluster'', ''entityName'']
   \<and> variableLabels (zkAlertsRateAcrossClusters ''cm'') \<noteq> []
   \<and> createZKMetric demo_helpers False () ZK_ALERTS_RATE_ACROSS_CLUSTERS
         (zkAlertsRateAcrossClusters ''cm'') empty_scrape_state =
       Inr (True,
            \<lparr>ch = [\<lparr>desc = zkAlertsRateAcrossClusters ''cm'', valueType = GaugeValue,
                     val = 1, labelValues = [''C1'', ''zk1'']\<rparr>,
                   \<lparr>desc = zkAlertsRateAcrossClusters ''cm'', valueType = GaugeValue,
                     val = 2.5, labelValues = [''C1'', ''zk2'']\<rparr>],
              debug_log = [],
              queries = [ZK_ALERTS_RATE_ACROSS_CLUSTERS]\<rparr>)"
proof -
  have l: "variableLabels (zkAlertsRateAcrossClusters ''cm'') = [''cluster'', ''entityName'']"
    by (simp add: zkAlertsRateAcrossClusters_def createZKMetricStruct_def NewDesc_def Let_def)
  have q: "ZK_ALERTS_RATE_ACROSS_CLUSTERS \<noteq> ''down''"
          "ZK_ALERTS_RATE_ACROSS_CLUSTERS \<noteq> ''nodata''"
    by (simp_all add: ZK_ALERTS_RATE_ACROSS_CLUSTERS_def)
  have ok: "binding_ok demo_helpers False () ZK_ALERTS_RATE_ACROSS_CLUSTERS"
    using q by (simp add: binding_ok_def demo_helpers_def)
  have d: "two_label_desc (zkAlertsRateAcrossClusters ''cm'')"
    unfolding zkAlertsRateAcrossClusters_def
    by (rule createZKMetricStruct_accepted;
        simp add: IsValidMetricName_def metric_name_char_def ascii_letter_def ascii_digit_def)
  show ?thesis
    using l ok
    by (simp add: createZKMetric_eq[OF d demo_binding_names_valid]
          demo_samples_other[OF q] empty_scrape_state_def)
qed

subsection \<open>C6\<close>

text \<open>
  C6, as the code has it. \<^verbatim>\<open>Scrape\<close> never reads the context: whatever the state of
  the context, it calls \<^verbatim>\<open>createZKMetric\<close> for every binding of the table, in order,
  hands it the context, and returns \<^verbatim>\<open>nil\<close> (the sends being ones the library accepts,
  as in C1). If the context is cancelled from binding \<open>k\<close> on and the query helper fails
  under a cancelled context, each remaining binding is still attempted, fails, sends no
  sample and is counted as an error; the samples of the first \<open>k\<close> bindings stay.
\<close>

theorem Scrape_attempts_every_binding:
  assumes accepted: "descs_accepted table"
    and names: "table_names_valid jp ctx cfg 0 table"
  shows "Scrape jp table ctx cfg st =
           Inr (None,
                st\<lparr>debug_log := debug_log st @
                     [Debug_msg ''Executing ZooKeeper Metrics Scraper'' [],
                      Debug_msg ''ZK Scraper: %d queries run, %d successful, %d errors''
                        [int (length table),
                         int (length (succeeded_bindings jp ctx cfg 0 table)),
                         int (length (failed_bindings jp ctx cfg 0 table))]],
                   queries := queries st @ map Query table,
                   ch := ch st @ scrape_samples jp ctx cfg 0 table\<rparr>)
         \<and> ((\<forall>i q. k \<le> i \<longrightarrow> isl (make_and_parse_timeseries_query jp (ctx i) cfg q)) \<longrightarrow>
               scrape_samples jp ctx cfg 0 table = scrape_samples jp ctx cfg 0 (take k table)
               \<and> length (succeeded_bindings jp ctx cfg 0 table)
                   = length (succeeded_bindings jp ctx cfg 0 (take k table))
               \<and> length (failed_bindings jp ctx cfg 0 table)
                   = length (failed_bindings jp ctx cfg 0 (take k table))
                     + length (drop k table))"
proof (intro conjI impI)
  have n: "length (failed_bindings jp ctx cfg 0 table)
             + length (succeeded_bindings jp ctx cfg 0 table) = length table"
    by (rule failed_plus_succeeded)
  then have tally: "int (length table) - int (length (failed_bindings jp ctx cfg 0 table))
                      = int (length (succeeded_bindings jp ctx cfg 0 table))"
    by linarith
  show "Scrape jp table ctx cfg st =
           Inr (None,
                st\<lparr>debug_log := debug_log st @
                     [Debug_msg ''Executing ZooKeeper Metrics Scraper'' [],
                      Debug_msg ''ZK Scraper: %d queries run, %d successful, %d errors''
                        [int (length table),
                         int (length (succeeded_bindings jp ctx cfg 0 table)),
                         int (length (failed_bindings jp ctx cfg 0 table))]],
                   queries := queries st @ map Query table,
                   ch := ch st @ scrape_samples jp ctx cfg 0 table\<rparr>)"
    using tally by (simp add: Scrape_eq[OF accepted names])
next
  assume cancelled: "\<forall>i q. k \<le> i \<longrightarrow> isl (make_and_parse_timeseries_query jp (ctx i) cfg q)"
  have from_k: "\<And>i q. length (take k table) \<le> i \<Longrightarrow> drop k table \<noteq> [] \<Longrightarrow>
                  isl (make_and_parse_timeseries_query jp (ctx i) cfg q)"
    using cancelled by (simp add: min_def split: if_splits)
  have rest: "scrape_samples jp ctx cfg (length (take k table)) (drop k table) = []
              \<and> failed_bindings jp ctx cfg (length (take k table)) (drop k table)
                  = enumerate (length (take k table)) (drop k table)"
  proof (cases "drop k table = []")
    case True
    then show ?thesis by (simp add: scrape_samples_def failed_bindings_def)
  next
    case False
    show ?thesis by (rule all_fail_from) (use from_k False in blast)
  qed
  show ss: "scrape_samples jp ctx cfg 0 table = scrape_samples jp ctx cfg 0 (take k table)"
    using scrape_samples_append[of jp ctx cfg 0 "take k table" "drop k table"] rest by simp
  show fb: "length (failed_bindings jp ctx cfg 0 table)
              = length (failed_bindings jp ctx cfg 0 (take k table)) + length (drop k table)"
    using failed_bindings_append[of jp ctx cfg 0 "take k table" "drop k table"] rest by simp
  have n: "length (failed_bindings jp ctx cfg 0 table)
             + length (succeeded_bindings jp ctx cfg 0 table) = length table"
    by (rule failed_plus_succeeded)
  have nk: "length (failed_bindings jp ctx cfg 0 (take k table))
             + length (succeeded_bindings jp ctx cfg 0 (take k table)) = length (take k table)"
    by (rule failed_plus_succeeded)
  have len: "length table = length (take k table) + length (drop k table)"
    by simp
  show "length (succeeded_bindings jp ctx cfg 0 table)
          = length (succeeded_bindings jp ctx cfg 0 (take k table))"
    using n nk len fb by linarith
qed

theorem Scrape_attempts_every_binding_witness:
  "descs_accepted demo_table
   \<and> table_names_valid demo_helpers cancelled_after_first () 0 demo_table
   \<and> isl (make_and_parse_timeseries_query demo_helpers (cancelled_after_first 1) () ''down'')
   \<and> isl (make_and_parse_timeseries_query demo_helpers (cancelled_after_first 2) () ''nodata'')
   \<and> Scrape demo_helpers demo_table cancelled_after_first () empty_scrape_state =
       Inr (None,
            \<lparr>ch = [\<lparr>desc = demo_desc ''a'', valueType = GaugeValue, val = 1,
                     labelValues = [''C1'', ''zk1'']\<rparr>,
                   \<lparr>desc = demo_desc ''a'', valueType = GaugeValue, val = 2.5,
                     labelValues = [''C1'', ''zk2'']\<rparr>],
              debug_log =
                [Debug_msg ''Executing ZooKeeper Metrics Scraper'' [],
                 Debug_msg ''ZK Scraper: %d queries run, %d successful, %d errors'' [3, 1, 2]],
              queries = [''up'', ''down'', ''nodata'']\<rparr>)"
proof -
  have c: "\<forall>i q. 1 \<le> i \<longrightarrow>
             isl (make_and_parse_timeseries_query demo_helpers (cancelled_after_first i) () q)"
    by (simp add: cancelled_after_first_def demo_helpers_def)
  have t: "take (Suc 0) demo_table = [\<lparr>Query = ''up'', Metric_struct = demo_desc ''a''\<rparr>]"
    and d: "length (drop (Suc 0) demo_table) = 2"
    by (simp_all add: demo_table_def)
  have s: "succeeded_bindings demo_helpers cancelled_after_first () 0
             [\<lparr>Query = ''up'', Metric_struct = demo_desc ''a''\<rparr>]
           = [(0, \<lparr>Query = ''up'', Metric_struct = demo_desc ''a''\<rparr>)]"
    and f: "failed_bindings demo_helpers cancelled_after_first () 0
             [\<lparr>Query = ''up'', Metric_struct = demo_desc ''a''\<rparr>] = []"
    by (simp_all add: succeeded_bindings_def failed_bindings_def binding_ok_def demo_helpers_def
          cancelled_after_first_def)
  have smp: "scrape_samples demo_helpers cancelled_after_first () 0
               [\<lparr>Query = ''up'', Metric_struct = demo_desc ''a''\<rparr>] =
             [\<lparr>desc = demo_desc ''a'', valueType = GaugeValue, val = 1,
                labelValues = [''C1'', ''zk1'']\<rparr>,
              \<lparr>desc = demo_desc ''a'', valueType = GaugeValue, val = 2.5,
                labelValues = [''C1'', ''zk2'']\<rparr>]"
    by (simp add: scrape_samples_def cancelled_after_first_def demo_samples_up)
  note inst = Scrape_attempts_every_binding[
      OF demo_table_accepted demo_table_names_valid(2),
      where k = 1 and st = empty_scrape_state]
  have parts: "scrape_samples demo_helpers cancelled_after_first () 0 demo_table
                 = scrape_samples demo_helpers cancelled_after_first () 0 (take 1 demo_table)
               \<and> length (succeeded_bindings demo_helpers cancelled_after_first () 0 demo_table)
                   = length (succeeded_bindings demo_helpers cancelled_after_first () 0
                               (take 1 demo_table))
               \<and> length (failed_bindings demo_helpers cancelled_after_first () 0 demo_table)
                   = length (failed_bindings demo_helpers cancelled_after_first () 0
                               (take 1 demo_table))
                     + length (drop 1 demo_table)"
    using inst c by blast
  have run: "Scrape demo_helpers demo_table cancelled_after_first () empty_scrape_state =
       Inr (None,
            \<lparr>ch = [\<lparr>desc = demo_desc ''a'', valueType = GaugeValue, val = 1,
                     labelValues = [''C1'', ''zk1'']\<rparr>,
                   \<lparr>desc = demo_desc ''a'', valueType = GaugeValue, val = 2.5,
                     labelValues = [''C1'', ''zk2'']\<rparr>],
              debug_log =
                [Debug_msg ''Executing ZooKeeper Metrics Scraper'' [],
                 Debug_msg ''ZK Scraper: %d queries run, %d successful, %d errors'' [3, 1, 2]],
              queries = [''up'', ''down'', ''nodata'']\<rparr>)"
    using inst parts
    by (simp add: t d s f smp demo_table_queries empty_scrape_state_def)
  have i1: "isl (make_and_parse_timeseries_query demo_helpers (cancelled_after_first 1) ()
                   ''down'')"
    and i2: "isl (make_and_parse_timeseries_query demo_helpers (cancelled_after_first 2) ()
                   ''nodata'')"
    using c by simp_all
  show ?thesis
    using demo_table_accepted demo_table_names_valid(2) i1 i2 run by blast
qed

text \<open>
  C6 as the specification states it fails: with the context cancelled after the first of
  three bindings, the queries of the second and the third binding are still asked.
\<close>

theorem Scrape_stops_after_cancel_counterexample:
  "Scrape demo_helpers demo_table cancelled_after_first () empty_scrape_state =
     Inr (None,
          \<lparr>ch = [\<lparr>desc = demo_desc ''a'', valueType = GaugeValue, val = 1,
                   labelValues = [''C1'', ''zk1'']\<rparr>,
                 \<lparr>desc = demo_desc ''a'', valueType = GaugeValue, val = 2.5,
                   labelValues = [''C1'', ''zk2'']\<rparr>],
            debug_log =
              [Debug_msg ''Executing ZooKeeper Metrics Scraper'' [],
               Debug_msg ''ZK Scraper: %d queries run, %d successful, %d errors'' [3, 1, 2]],
            queries = [''up'', ''down'', ''nodata'']\<rparr>)
   \<and> queries (snd (projr (Scrape demo_helpers demo_table cancelled_after_first ()
                              empty_scrape_state))) \<noteq> [''up'']"
  by (simp add: Scrape_eq[OF demo_table_accepted demo_table_names_valid(2)]
        demo_cancelled_samples demo_table_queries empty_scrape_state_def)

subsection \<open>C7\<close>

text \<open>
  C7. The module's query helper is the query client of the specification over the HTTP
  client \<open>http\<close>. When the response to the query of a binding carries a non-success
  status, the query returns the failure \<open>UpstreamError\<close> with the status code,
  \<^verbatim>\<open>createZKMetric\<close> returns false and sends no sample, \<^verbatim>\<open>Scrape\<close> counts the binding
  as an error, scrapes the other bindings of the table as it would without it and returns
  \<^verbatim>\<open>nil\<close> (the sends of the other bindings being ones the library accepts). In the
  standalone collector, a response with a non-success status makes \<^verbatim>\<open>fetchMetric\<close>
  return the error that carries the status code, and \<^verbatim>\<open>Collect\<close>, which does not panic,
  sends no sample with the descriptor of that fetch.
\<close>

theorem non200_fails_fetch_and_counts_as_error:
  assumes client: "make_and_parse_timeseries_query jp = query_client http"
    and live: "\<not> ctx (length pre)"
    and do: "Do http (query_request cfg (Query rel)) = Inr resp"
    and status: "\<not> success_status (StatusCode resp)"
    and accepted: "descs_accepted (pre @ rel # post)"
    and names: "table_names_valid jp ctx cfg 0 (pre @ rel # post)"
    and nr: "NewRequest_error http ''GET'' (fetchMetric_url zc m c) = None"
    and do': "Do http (fetchMetric_request zc m c) = Inr resp'"
    and status': "\<not> success_status (StatusCode resp')"
  shows "make_and_parse_timeseries_query jp (ctx (length pre)) cfg (Query rel)
           = Inl (Failure (UpstreamError (StatusCode resp)))
         \<and> createZKMetric jp (ctx (length pre)) cfg (Query rel) (Metric_struct rel) st =
             Inr (False, st\<lparr>queries := queries st @ [Query rel]\<rparr>)
         \<and> Scrape jp (pre @ rel # post) ctx cfg st =
             Inr (None,
                  st\<lparr>debug_log := debug_log st @
                       [Debug_msg ''Executing ZooKeeper Metrics Scraper'' [],
                        Debug_msg ''ZK Scraper: %d queries run, %d successful, %d errors''
                          [int (length pre) + 1 + int (length post),
                           int (length (succeeded_bindings jp ctx cfg 0 pre))
                             + int (length (succeeded_bindings jp ctx cfg (Suc (length pre)) post)),
                           int (length (failed_bindings jp ctx cfg 0 pre)) + 1
                             + int (length (failed_bindings jp ctx cfg (Suc (length pre)) post))]],
                     queries := queries st @ map Query pre @ Query rel # map Query post,
                     ch := ch st @ scrape_samples jp ctx cfg 0 pre
                             @ scrape_samples jp ctx cfg (Suc (length pre)) post\<rparr>)
         \<and> fetchMetric http zc m c = Inl (Non200Response (StatusCode resp'))
         \<and> fetched_sample http zc d m c lvs = []
         \<and> Collect http (NewZookeeperCollector h p a u pw) cst =
             Inr (cst\<lparr>out_ch := out_ch cst @
                      fetched_sample http (NewZookeeperCollector h p a u pw)
                        (alertsRate (NewZookeeperCollector h p a u pw))
                        ''alerts_rate'' ''DemoCluster'' [''DemoCluster'']
                      @ fetched_sample http (NewZookeeperCollector h p a u pw)
                          (alertsRateAcrossClusters (NewZookeeperCollector h p a u pw))
                          ''alerts_rate_across_clusters'' [] []
                      @ fetched_sample http (NewZookeeperCollector h p a u pw)
                          (totalAlertsRateAcrossClusters (NewZookeeperCollector h p a u pw))
                          ''total_alerts_rate_across_clusters'' [] []
                      @ fetched_sample http (NewZookeeperCollector h p a u pw)
                          (canaryDuration (NewZookeeperCollector h p a u pw))
                          ''canary_duration'' ''DemoCluster'' [''DemoCluster''],
                    std_log := std_log cst @
                      collect_logged http (NewZookeeperCollector h p a u pw)\<rparr>)
         \<and> (zc = NewZookeeperCollector h p a u pw
              \<and> (m, c, d) \<in> {(''alerts_rate'', ''DemoCluster'', alertsRate zc),
                              (''alerts_rate_across_clusters'', [], alertsRateAcrossClusters zc),
                              (''total_alerts_rate_across_clusters'', [],
                               totalAlertsRateAcrossClusters zc),
                              (''canary_duration'', ''DemoCluster'', canaryDuration zc)}
              \<longrightarrow>
              (case Collect http zc cst of
                 Inl pn \<Rightarrow> False
               | Inr cst' \<Rightarrow>
                   take (length (out_ch cst)) (out_ch cst') = out_ch cst
                   \<and> list_all (\<lambda>s. desc s \<noteq> d) (drop (length (out_ch cst)) (out_ch cst'))))"
proof -
  have q: "make_and_parse_timeseries_query jp (ctx (length pre)) cfg (Query rel)
             = Inl (Failure (UpstreamError (StatusCode resp)))"
    using live do status by (simp add: client query_client_def)
  have cr: "createZKMetric jp (ctx (length pre)) cfg (Query rel) (Metric_struct rel) st =
             Inr (False, st\<lparr>queries := queries st @ [Query rel]\<rparr>)"
    using q by (simp add: createZKMetric_def Let_def)
  have nok: "\<not> binding_ok jp (ctx (length pre)) cfg (Query rel)"
    using q by (rule query_error_not_ok)
  have fb: "failed_bindings jp ctx cfg 0 (pre @ rel # post) =
              failed_bindings jp ctx cfg 0 pre @ (length pre, rel)
                # failed_bindings jp ctx cfg (Suc (length pre)) post"
    using nok by (simp add: failed_bindings_def enumerate_append_eq)
  have ss: "scrape_samples jp ctx cfg 0 (pre @ rel # post) =
              scrape_samples jp ctx cfg 0 pre @ scrape_samples jp ctx cfg (Suc (length pre)) post"
    using nok by (simp add: scrape_samples_def enumerate_append_eq binding_samples_failed)
  have n1: "length (failed_bindings jp ctx cfg 0 pre)
              + length (succeeded_bindings jp ctx cfg 0 pre) = length pre"
    by (rule failed_plus_succeeded)
  have n2: "length (failed_bindings jp ctx cfg (Suc (length pre)) post)
              + length (succeeded_bindings jp ctx cfg (Suc (length pre)) post) = length post"
    by (rule failed_plus_succeeded)
  have tally: "int (length (pre @ rel # post))
                 - int (length (failed_bindings jp ctx cfg 0 (pre @ rel # post)))
               = int (length (succeeded_bindings jp ctx cfg 0 pre))
                 + int (length (succeeded_bindings jp ctx cfg (Suc (length pre)) post))"
    using n1 n2 by (simp add: fb)
  have s: "Scrape jp (pre @ rel # post) ctx cfg st =
             Inr (None,
                  st\<lparr>debug_log := debug_log st @
                       [Debug_msg ''Executing ZooKeeper Metrics Scraper'' [],
                        Debug_msg ''ZK Scraper: %d queries run, %d successful, %d errors''
                          [int (length pre) + 1 + int (length post),
                           int (length (succeeded_bindings jp ctx cfg 0 pre))
                             + int (length (succeeded_bindings jp ctx cfg (Suc (length pre)) post)),
                           int (length (failed_bindings jp ctx cfg 0 pre)) + 1
                             + int (length (failed_bindings jp ctx cfg (Suc (length pre)) post))]],
                     queries := queries st @ map Query pre @ Query rel # map Query post,
                     ch := ch st @ scrape_samples jp ctx cfg 0 pre
                             @ scrape_samples jp ctx cfg (Suc (length pre)) post\<rparr>)"
    using tally ss by (simp add: Scrape_eq[OF accepted names] fb)
  have ne: "StatusCode resp' \<noteq> 200"
    using status' by (auto simp add: success_status_def)
  have f: "fetchMetric http zc m c = Inl (Non200Response (StatusCode resp'))"
    using nr do' ne by (simp add: fetchMetric_def fetchMetric_request_def Let_def)
  have fs: "fetched_sample http zc d' m c lvs' = []" for d' lvs'
    using f by (simp add: fetched_sample_def)
  have ce: "Collect http (NewZookeeperCollector h p a u pw) cst =
             Inr (cst\<lparr>out_ch := out_ch cst @
                      collect_samples http (NewZookeeperCollector h p a u pw),
                    std_log := std_log cst @
                      collect_logged http (NewZookeeperCollector h p a u pw)\<rparr>)"
    by (rule Collect_New_eq)
  have none: "zc = NewZookeeperCollector h p a u pw
              \<and> (m, c, d) \<in> {(''alerts_rate'', ''DemoCluster'', alertsRate zc),
                              (''alerts_rate_across_clusters'', [], alertsRateAcrossClusters zc),
                              (''total_alerts_rate_across_clusters'', [],
                               totalAlertsRateAcrossClusters zc),
                              (''canary_duration'', ''DemoCluster'', canaryDuration zc)}
              \<longrightarrow>
              (case Collect http zc cst of
                 Inl pn \<Rightarrow> False
               | Inr cst' \<Rightarrow>
                   take (length (out_ch cst)) (out_ch cst') = out_ch cst
                   \<and> list_all (\<lambda>s. desc s \<noteq> d) (drop (length (out_ch cst)) (out_ch cst')))"
  proof (intro impI, elim conjE)
    assume z: "zc = NewZookeeperCollector h p a u pw"
      and mem: "(m, c, d) \<in> {(''alerts_rate'', ''DemoCluster'', alertsRate zc),
                              (''alerts_rate_across_clusters'', [], alertsRateAcrossClusters zc),
                              (''total_alerts_rate_across_clusters'', [],
                               totalAlertsRateAcrossClusters zc),
                              (''canary_duration'', ''DemoCluster'', canaryDuration zc)}"
    have dist: "distinct [alertsRate zc, alertsRateAcrossClusters zc,
                          totalAlertsRateAcrossClusters zc, canaryDuration zc]"
      unfolding z by (rule NewZookeeperCollector_descs_distinct)
    have other: "d' \<noteq> d'' \<Longrightarrow>
                 list_all (\<lambda>s. desc s \<noteq> d'') (fetched_sample http zc d' m' c' lvs')"
      for d' d'' m' c' lvs'
      by (simp add: fetched_sample_def split: sum.splits)
    from mem consider
        (alerts) "m = ''alerts_rate''" "c = ''DemoCluster''" "d = alertsRate zc"
      | (across) "m = ''alerts_rate_across_clusters''" "c = []"
          "d = alertsRateAcrossClusters zc"
      | (total) "m = ''total_alerts_rate_across_clusters''" "c = []"
          "d = totalAlertsRateAcrossClusters zc"
      | (canary) "m = ''canary_duration''" "c = ''DemoCluster''" "d = canaryDuration zc"
      by auto
    then have "list_all (\<lambda>s. desc s \<noteq> d) (collect_samples http zc)"
    proof cases
      case alerts
      show ?thesis
        using dist
        by (auto simp add: collect_samples_def alerts(3) fs[unfolded alerts(1) alerts(2)]
              intro!: other)
    next
      case across
      show ?thesis
        using dist
        by (auto simp add: collect_samples_def across(3) fs[unfolded across(1) across(2)]
              intro!: other)
    next
      case total
      show ?thesis
        using dist
        by (auto simp add: collect_samples_def total(3) fs[unfolded total(1) total(2)]
              intro!: other)
    next
      case canary
      show ?thesis
        using dist
        by (auto simp add: collect_samples_def canary(3) fs[unfolded canary(1) canary(2)]
              intro!: other)
    qed
    then show "case Collect http zc cst of
                 Inl pn \<Rightarrow> False
               | Inr cst' \<Rightarrow>
                   take (length (out_ch cst)) (out_ch cst') = out_ch cst
                   \<and> list_all (\<lambda>s. desc s \<noteq> d) (drop (length (out_ch cst)) (out_ch cst'))"
      unfolding z by (simp add: ce)
  qed
  show ?thesis
    using q cr s f fs ce[unfolded collect_samples_def] none by blast
qed

theorem non200_fails_fetch_and_counts_as_error_witness:
  "make_and_parse_timeseries_query demo_json_parser = query_client demo_upstream
   \<and> Do demo_upstream (query_request demo_config ''total_alerts_rate_across_clusters'')
       = Inr \<lparr>StatusCode = 500, Body = []\<rparr>
   \<and> \<not> success_status 500
   \<and> descs_accepted demo_query_table
   \<and> table_names_valid demo_json_parser never_cancelled demo_config 0 demo_query_table
   \<and> make_and_parse_timeseries_query demo_json_parser (never_cancelled 1) demo_config
         ''total_alerts_rate_across_clusters''
       = Inl (Failure (UpstreamError 500))
   \<and> createZKMetric demo_json_parser (never_cancelled 1) demo_config
         ''total_alerts_rate_across_clusters'' (demo_desc ''b'') empty_scrape_state
       = Inr (False,
              \<lparr>ch = [], debug_log = [], queries = [''total_alerts_rate_across_clusters'']\<rparr>)
   \<and> Scrape demo_json_parser demo_query_table never_cancelled demo_config empty_scrape_state =
       Inr (None,
            \<lparr>ch = [\<lparr>desc = demo_desc ''a'', valueType = GaugeValue, val = 1,
                     labelValues = [''C1'', ''alerts_rate'']\<rparr>,
                   \<lparr>desc = demo_desc ''a'', valueType = GaugeValue, val = 2.5,
                     labelValues = [''C1'', ''alerts_rate'']\<rparr>],
              debug_log =
                [Debug_msg ''Executing ZooKeeper Metrics Scraper'' [],
                 Debug_msg ''ZK Scraper: %d queries run, %d successful, %d errors'' [2, 1, 1]],
              queries = [''alerts_rate'', ''total_alerts_rate_across_clusters'']\<rparr>)
   \<and> fetchMetric demo_upstream demo_collector ''total_alerts_rate_across_clusters'' []
       = Inl (Non200Response 500)
   \<and> Collect demo_upstream demo_collector empty_collect_state =
       Inr \<lparr>out_ch =
              [\<lparr>desc = alertsRate demo_collector, valueType = GaugeValue, val = 3.5,
                 labelValues = [''DemoCluster'']\<rparr>,
               \<lparr>desc = alertsRateAcrossClusters demo_collector, valueType = GaugeValue,
                 val = 0, labelValues = []\<rparr>],
            std_log =
              [Printf (''Error fetching total_alerts_rate_across_clusters: %v'' @ [CHR 0x0A])
                 (Non200Response 500)]\<rparr>
   \<and> list_all (\<lambda>s. desc s \<noteq> totalAlertsRateAcrossClusters demo_collector)
         [\<lparr>desc = alertsRate demo_collector, valueType = GaugeValue, val = 3.5 :: real,
            labelValues = [''DemoCluster'']\<rparr>,
          \<lparr>desc = alertsRateAcrossClusters demo_collector, valueType = GaugeValue,
            val = 0, labelValues = []\<rparr>]"
proof -
  have cl: "make_and_parse_timeseries_query demo_json_parser = query_client demo_upstream"
    by (simp add: demo_json_parser_def)
  have live: "\<not> never_cancelled
                 (length [\<lparr>Query = ''alerts_rate'', Metric_struct = demo_desc ''a''\<rparr>])"
    by (simp add: never_cancelled_def)
  have do: "Do demo_upstream
              (query_request demo_config
                 (Query \<lparr>Query = ''total_alerts_rate_across_clusters'',
                         Metric_struct = demo_desc ''b''\<rparr>))
            = Inr \<lparr>StatusCode = 500, Body = []\<rparr>"
    by (simp add: demo_upstream_Do)
  have st: "\<not> success_status (StatusCode \<lparr>StatusCode = 500, Body = []\<rparr>)"
    by (simp add: success_status_def)
  have split: "demo_query_table =
                 [\<lparr>Query = ''alerts_rate'', Metric_struct = demo_desc ''a''\<rparr>]
                 @ \<lparr>Query = ''total_alerts_rate_across_clusters'',
                     Metric_struct = demo_desc ''b''\<rparr> # []"
    by (simp add: demo_query_table_def)
  have acc: "descs_accepted
               ([\<lparr>Query = ''alerts_rate'', Metric_struct = demo_desc ''a''\<rparr>]
                  @ \<lparr>Query = ''total_alerts_rate_across_clusters'',
                      Metric_struct = demo_desc ''b''\<rparr> # [])"
    using demo_query_table_accepted unfolding split .
  have nv: "table_names_valid demo_json_parser never_cancelled demo_config 0
               ([\<lparr>Query = ''alerts_rate'', Metric_struct = demo_desc ''a''\<rparr>]
                  @ \<lparr>Query = ''total_alerts_rate_across_clusters'',
                      Metric_struct = demo_desc ''b''\<rparr> # [])"
    using demo_query_table_names_valid unfolding split .
  have mem: "demo_collector = NewZookeeperCollector ''cm'' ''7180'' ''v19'' ''admin'' ''admin''
             \<and> (''total_alerts_rate_across_clusters'', [],
                 totalAlertsRateAcrossClusters demo_collector)
               \<in> {(''alerts_rate'', ''DemoCluster'', alertsRate demo_collector),
                   (''alerts_rate_across_clusters'', [], alertsRateAcrossClusters demo_collector),
                   (''total_alerts_rate_across_clusters'', [],
                    totalAlertsRateAcrossClusters demo_collector),
                   (''canary_duration'', ''DemoCluster'', canaryDuration demo_collector)}"
    by (simp add: demo_collector_def)
  have s1: "succeeded_bindings demo_json_parser never_cancelled demo_config 0
              [\<lparr>Query = ''alerts_rate'', Metric_struct = demo_desc ''a''\<rparr>]
            = [(0, \<lparr>Query = ''alerts_rate'', Metric_struct = demo_desc ''a''\<rparr>)]"
    and f1: "failed_bindings demo_json_parser never_cancelled demo_config 0
              [\<lparr>Query = ''alerts_rate'', Metric_struct = demo_desc ''a''\<rparr>] = []"
    by (simp_all add: succeeded_bindings_def failed_bindings_def never_cancelled_def
          demo_query_ok)
  have nc: "never_cancelled k = False" for k by (simp add: never_cancelled_def)
  note inst = non200_fails_fetch_and_counts_as_error[
      where http = demo_upstream and zc = demo_collector
        and m = "''total_alerts_rate_across_clusters''" and c = "[]"
        and resp = "\<lparr>StatusCode = 500, Body = []\<rparr>"
        and resp' = "\<lparr>StatusCode = 500, Body = []\<rparr>"
        and jp = demo_json_parser and ctx = never_cancelled and cfg = demo_config
        and pre = "[\<lparr>Query = ''alerts_rate'', Metric_struct = demo_desc ''a''\<rparr>]"
        and rel = "\<lparr>Query = ''total_alerts_rate_across_clusters'',
                     Metric_struct = demo_desc ''b''\<rparr>"
        and post = "[]"
        and d = "totalAlertsRateAcrossClusters demo_collector" and lvs = "[]"
        and st = empty_scrape_state and cst = empty_collect_state
        and h = "''cm''" and p = "''7180''" and a = "''v19''" and u = "''admin''"
        and pw = "''admin''",
      OF cl live do st acc nv demo_upstream_total st]
  have sc: "Scrape demo_json_parser demo_query_table never_cancelled demo_config
              empty_scrape_state =
       Inr (None,
            \<lparr>ch = [\<lparr>desc = demo_desc ''a'', valueType = GaugeValue, val = 1,
                     labelValues = [''C1'', ''alerts_rate'']\<rparr>,
                   \<lparr>desc = demo_desc ''a'', valueType = GaugeValue, val = 2.5,
                     labelValues = [''C1'', ''alerts_rate'']\<rparr>],
              debug_log =
                [Debug_msg ''Executing ZooKeeper Metrics Scraper'' [],
                 Debug_msg ''ZK Scraper: %d queries run, %d successful, %d errors'' [2, 1, 1]],
              queries = [''alerts_rate'', ''total_alerts_rate_across_clusters'']\<rparr>)"
    using inst
    by (simp add: split s1 f1 scrape_samples_def succeeded_bindings_def failed_bindings_def nc
          demo_query_ok demo_query_samples empty_scrape_state_def)
  have q: "make_and_parse_timeseries_query demo_json_parser (never_cancelled 1) demo_config
             ''total_alerts_rate_across_clusters''
           = Inl (Failure (UpstreamError 500))"
    using inst by (simp add: nc)
  have cr: "createZKMetric demo_json_parser (never_cancelled 1) demo_config
              ''total_alerts_rate_across_clusters'' (demo_desc ''b'') empty_scrape_state
            = Inr (False,
                   \<lparr>ch = [], debug_log = [],
                      queries = [''total_alerts_rate_across_clusters'']\<rparr>)"
    using inst by (simp add: nc empty_scrape_state_def)
  have f: "fetchMetric demo_upstream demo_collector ''total_alerts_rate_across_clusters'' []
             = Inl (Non200Response 500)"
    using inst by simp
  have "case Collect demo_upstream demo_collector empty_collect_state of
          Inl pn \<Rightarrow> False
        | Inr cst' \<Rightarrow>
            take (length (out_ch empty_collect_state)) (out_ch cst')
              = out_ch empty_collect_state
            \<and> list_all (\<lambda>s. desc s \<noteq> totalAlertsRateAcrossClusters demo_collector)
                (drop (length (out_ch empty_collect_state)) (out_ch cst'))"
    using inst mem by blast
  then have la: "list_all (\<lambda>s. desc s \<noteq> totalAlertsRateAcrossClusters demo_collector)
         [\<lparr>desc = alertsRate demo_collector, valueType = GaugeValue, val = 3.5 :: real,
            labelValues = [''DemoCluster'']\<rparr>,
          \<lparr>desc = alertsRateAcrossClusters demo_collector, valueType = GaugeValue,
            val = 0, labelValues = []\<rparr>]"
    unfolding demo_upstream_Collect by (simp add: empty_collect_state_def)
  have ss: "\<not> success_status 500"
    by (simp add: success_status_def)
  show ?thesis
    using cl demo_upstream_Do(2) ss demo_query_table_accepted demo_query_table_names_valid
      q cr sc f demo_upstream_Collect la
    by blast
qed

subsection \<open>C8\<close>

text \<open>
  C8, as the code has it. The URL is the text \<^verbatim>\<open>http://host:port/api/version/timeseries?query=\<close>
  followed by the query expression as it is given, with no encoding. A cluster scope that
  is not empty follows the expression as \<^verbatim>\<open>[clusterName=scope]\<close>, with the two brackets
  written in their encoded form and the scope as it is given; an empty scope adds nothing.
  An expression made of letters, digits and \<^verbatim>\<open>-_.~\<close> only is its own encoding. The URL
  is the one of the request that is sent, with method GET and the basic credentials.
\<close>

theorem fetchMetric_url_verbatim:
  "fetchMetric_url zc m c =
     ''http://'' @ cmHost zc @ '':'' @ cmPort zc @ ''/api/'' @ apiVersion zc
       @ ''/timeseries?query='' @ m
       @ (if c = [] then [] else QueryEscape ''['' @ ''clusterName='' @ c @ QueryEscape '']'')
   \<and> (list_all (\<lambda>x. \<not> shouldEscape x) m \<longrightarrow> QueryEscape m = m)
   \<and> (NewRequest_error http ''GET'' (fetchMetric_url zc m c) = None
        \<and> Do http \<lparr>httpMethod = ''GET'', url = fetchMetric_url zc m c,
                   basicAuth = Some (username zc, password zc)\<rparr> = Inl err
        \<longrightarrow> fetchMetric http zc m c = Inl err)"
proof (intro conjI impI)
  show "fetchMetric_url zc m c =
     ''http://'' @ cmHost zc @ '':'' @ cmPort zc @ ''/api/'' @ apiVersion zc
       @ ''/timeseries?query='' @ m
       @ (if c = [] then [] else QueryEscape ''['' @ ''clusterName='' @ c @ QueryEscape '']'')"
    by (simp add: fetchMetric_url_def QueryEscape_brackets)
next
  assume "list_all (\<lambda>x. \<not> shouldEscape x) m"
  then show "QueryEscape m = m" by (rule QueryEscape_unreserved)
next
  assume "NewRequest_error http ''GET'' (fetchMetric_url zc m c) = None
        \<and> Do http \<lparr>httpMethod = ''GET'', url = fetchMetric_url zc m c,
                   basicAuth = Some (username zc, password zc)\<rparr> = Inl err"
  then show "fetchMetric http zc m c = Inl err"
    by (simp add: fetchMetric_def Let_def)
qed

theorem fetchMetric_url_verbatim_witness:
  "fetchMetric_url demo_collector ''canary_duration'' ''DemoCluster'' =
     ''http://cm:7180/api/v19/timeseries?query=canary_duration%5BclusterName=DemoCluster%5D''
   \<and> list_all (\<lambda>x. \<not> shouldEscape x) ''canary_duration''
   \<and> QueryEscape ''canary_duration'' = ''canary_duration''
   \<and> Do demo_http \<lparr>httpMethod = ''GET'',
                     url = fetchMetric_url demo_collector ''canary_duration'' ''DemoCluster'',
                     basicAuth = Some (''admin'', ''admin'')\<rparr>
       = Inl (OtherError ''context deadline exceeded'')
   \<and> fetchMetric demo_http demo_collector ''canary_duration'' ''DemoCluster''
       = Inl (OtherError ''context deadline exceeded'')"
proof -
  note inst = fetchMetric_url_verbatim[
      where zc = demo_collector and m = "''canary_duration''" and c = "''DemoCluster''"
        and http = demo_http and err = "OtherError ''context deadline exceeded''"]
  have fields: "cmHost demo_collector = ''cm''" "cmPort demo_collector = ''7180''"
    "apiVersion demo_collector = ''v19''" "username demo_collector = ''admin''"
    "password demo_collector = ''admin''"
    by (simp_all add: demo_collector_def NewZookeeperCollector_def)
  have u: "fetchMetric_url demo_collector ''canary_duration'' ''DemoCluster'' =
     ''http://cm:7180/api/v19/timeseries?query=canary_duration%5BclusterName=DemoCluster%5D''"
    using inst by (simp add: fields QueryEscape_brackets)
  have un: "list_all (\<lambda>x. \<not> shouldEscape x) ''canary_duration''"
    by (simp add: shouldEscape_def)
  have e: "QueryEscape ''canary_duration'' = ''canary_duration''"
    using inst un by blast
  have nr: "NewRequest_error demo_http ''GET''
              (fetchMetric_url demo_collector ''canary_duration'' ''DemoCluster'') = None"
    by (rule demo_http_canary(1))
  have do: "Do demo_http \<lparr>httpMethod = ''GET'',
                     url = fetchMetric_url demo_collector ''canary_duration'' ''DemoCluster'',
                     basicAuth = Some (username demo_collector, password demo_collector)\<rparr>
       = Inl (OtherError ''context deadline exceeded'')"
    using demo_http_canary(2) by (simp add: fetchMetric_request_def)
  have f: "fetchMetric demo_http demo_collector ''canary_duration'' ''DemoCluster''
       = Inl (OtherError ''context deadline exceeded'')"
    using inst nr do by blast
  show ?thesis
    using u un e do f by (simp add: fields)
qed

text \<open>
  C8 as the specification states it fails: an expression or a scope with a space in it
  goes into the URL as it is, which is not its encoding.
\<close>

theorem url_expression_encoded_counterexample:
  "fetchMetric_url demo_collector ''SELECT alerts_rate'' [] =
     ''http://cm:7180/api/v19/timeseries?query=SELECT alerts_rate''
   \<and> QueryEscape ''SELECT alerts_rate'' = ''SELECT+alerts_rate''
   \<and> fetchMetric_url demo_collector ''SELECT alerts_rate'' [] \<noteq>
       ''http://cm:7180/api/v19/timeseries?query='' @ QueryEscape ''SELECT alerts_rate''
   \<and> fetchMetric_url demo_collector ''alerts_rate'' ''Cluster 1'' =
       ''http://cm:7180/api/v19/timeseries?query=alerts_rate%5BclusterName=Cluster 1%5D''
   \<and> QueryEscape ''alerts_rate[clusterName=Cluster 1]'' =
       ''alerts_rate%5BclusterName%3DCluster+1%5D''
   \<and> fetchMetric_url demo_collector ''alerts_rate'' ''Cluster 1'' \<noteq>
       ''http://cm:7180/api/v19/timeseries?query=''
         @ QueryEscape ''alerts_rate[clusterName=Cluster 1]''"
  by (simp add: fetchMetric_url_def demo_collector_def NewZookeeperCollector_def
        QueryEscape_def QueryEscape_char_def shouldEscape_def upperhex_def)

subsection \<open>C9\<close>

text \<open>
  C9. \<^verbatim>\<open>Describe\<close> sends the same fourteen descriptors, in the same order, whatever has
  been sent on the channel before, so two calls send the same list twice. The descriptors
  of a collector built by \<^verbatim>\<open>NewZookeeperCollector\<close> have fourteen different names, its
  \<^verbatim>\<open>Collect\<close> does not panic, and the descriptor of every sample \<^verbatim>\<open>Collect\<close> sends is
  one that \<^verbatim>\<open>Describe\<close> sends.
\<close>

theorem Describe_fixed_and_Collect_within:
  "Describe zc dch = dch @ Describe zc []
   \<and> Describe zc (Describe zc dch) = dch @ Describe zc [] @ Describe zc []
   \<and> length (Describe zc []) = 14
   \<and> distinct (map fqName (Describe (NewZookeeperCollector h p v u pw) []))
   \<and> (case Collect http (NewZookeeperCollector h p v u pw) st of
         Inl pn \<Rightarrow> False
       | Inr st' \<Rightarrow>
           out_ch st' = out_ch st @ collect_samples http (NewZookeeperCollector h p v u pw))
   \<and> list_all (\<lambda>m. desc m \<in> set (Describe (NewZookeeperCollector h p v u pw) []))
         (collect_samples http (NewZookeeperCollector h p v u pw))"
proof -
  have d1: "Describe zc dch = dch @ Describe zc []" for dch
    by (simp add: Describe_def)
  have d2: "Describe zc (Describe zc dch) = dch @ Describe zc [] @ Describe zc []"
    using d1[of "Describe zc dch"] d1[of dch] by simp
  have len: "length (Describe zc []) = 14"
    by (simp add: Describe_def)
  have dist: "distinct (map fqName (Describe (NewZookeeperCollector h p v u pw) []))"
    by (simp add: Describe_def NewZookeeperCollector_def NewDesc_def)
  have c: "case Collect http (NewZookeeperCollector h p v u pw) st of
             Inl pn \<Rightarrow> False
           | Inr st' \<Rightarrow>
               out_ch st' = out_ch st @ collect_samples http (NewZookeeperCollector h p v u pw)"
    by (simp add: Collect_New_eq)
  have sub: "list_all (\<lambda>m. desc m \<in> set (Describe (NewZookeeperCollector h p v u pw) []))
               (collect_samples http (NewZookeeperCollector h p v u pw))"
    by (simp add: collect_samples_def fetched_sample_def Describe_def split: sum.splits)
  show ?thesis
    using d1 d2 len dist c sub by blast
qed

theorem Describe_fixed_and_Collect_within_witness:
  "map fqName (Describe demo_collector []) =
     [''zookeeper_alerts_rate'', ''zookeeper_canary_duration_ms'',
      ''zookeeper_current_epoch_rate'', ''zookeeper_current_xid'',
      ''zookeeper_events_critical_rate'', ''zookeeper_events_important_rate'',
      ''zookeeper_events_informational_rate'', ''zookeeper_health_bad_rate'',
      ''zookeeper_health_concerning_rate'', ''zookeeper_health_disabled_rate'',
      ''zookeeper_health_good_rate'', ''zookeeper_health_unknown_rate'',
      ''zookeeper_alerts_rate_across_clusters'',
      ''zookeeper_total_alerts_rate_across_clusters'']
   \<and> Describe demo_collector (Describe demo_collector [])
       = Describe demo_collector [] @ Describe demo_collector []
   \<and> distinct (map fqName (Describe demo_collector []))
   \<and> map (\<lambda>m. fqName (desc m))
         (out_ch (projr (Collect demo_http demo_collector empty_collect_state)))
       = [''zookeeper_alerts_rate'', ''zookeeper_alerts_rate_across_clusters'']
   \<and> list_all (\<lambda>m. desc m \<in> set (Describe demo_collector []))
         (collect_samples demo_http demo_collector)"
proof -
  note inst = Describe_fixed_and_Collect_within[
      where zc = demo_collector and dch = "[]" and http = demo_http
        and h = "''cm''" and p = "''7180''" and v = "''v19''" and u = "''admin''"
        and pw = "''admin''" and st = empty_collect_state,
      folded demo_collector_def]
  have names: "map fqName (Describe demo_collector []) =
     [''zookeeper_alerts_rate'', ''zookeeper_canary_duration_ms'',
      ''zookeeper_current_epoch_rate'', ''zookeeper_current_xid'',
      ''zookeeper_events_critical_rate'', ''zookeeper_events_important_rate'',
      ''zookeeper_events_informational_rate'', ''zookeeper_health_bad_rate'',
      ''zookeeper_health_concerning_rate'', ''zookeeper_health_disabled_rate'',
      ''zookeeper_health_good_rate'', ''zookeeper_health_unknown_rate'',
      ''zookeeper_alerts_rate_across_clusters'',
      ''zookeeper_total_alerts_rate_across_clusters'']"
    by (simp add: Describe_def demo_collector_def NewZookeeperCollector_def NewDesc_def)
  have twice: "Describe demo_collector (Describe demo_collector [])
                 = Describe demo_collector [] @ Describe demo_collector []"
    using inst by simp
  have dist: "distinct (map fqName (Describe demo_collector []))"
    using inst by blast
  have sub: "list_all (\<lambda>m. desc m \<in> set (Describe demo_collector []))
               (collect_samples demo_http demo_collector)"
    using inst by blast
  have out: "map (\<lambda>m. fqName (desc m))
         (out_ch (projr (Collect demo_http demo_collector empty_collect_state)))
       = [''zookeeper_alerts_rate'', ''zookeeper_alerts_rate_across_clusters'']"
    unfolding demo_Collect
    by (simp add: demo_collector_def NewZookeeperCollector_def NewDesc_def)
  show ?thesis
    using names twice dist sub out by blast
qed

subsection \<open>C10\<close>

text \<open>
  C10. When the query returns and the number of series is read, \<^verbatim>\<open>createZKMetric\<close>
  never returns false: a value that cannot be read is skipped and fails nothing. It
  returns true, having sent one sample for each value it could read, when the library
  accepts the sends (an accepted two-label descriptor, cluster and entity names that are
  valid UTF-8); a send the library refuses panics instead. When no series has a value that
  can be read, it returns true and sends no sample, whatever the descriptor and the names,
  and a scrape of that one binding logs one query, one success and no error.
\<close>

theorem createZKMetric_true_without_samples:
  assumes q: "make_and_parse_timeseries_query jp c cfg q = Inr j"
    and n: "Get_timeseries_num jp j = Inr n"
  shows "(case createZKMetric jp c cfg q d st of Inl pn \<Rightarrow> True | Inr (ok, st') \<Rightarrow> ok)
         \<and> (two_label_desc d \<and> names_valid_from jp j n 0 \<longrightarrow>
            createZKMetric jp c cfg q d st =
              Inr (True, st\<lparr>queries := queries st @ [q],
                            ch := ch st @ series_samples jp j d n\<rparr>))
         \<and> ((\<forall>k. 0 \<le> k \<and> k < n \<longrightarrow> isl (Get_timeseries_query_value jp j k)) \<longrightarrow>
              createZKMetric jp c cfg q d st = Inr (True, st\<lparr>queries := queries st @ [q]\<rparr>)
              \<and> Scrape jp [\<lparr>Query = q, Metric_struct = d\<rparr>] (\<lambda>i. c) cfg st =
                  Inr (None,
                       st\<lparr>debug_log := debug_log st @
                            [Debug_msg ''Executing ZooKeeper Metrics Scraper'' [],
                             Debug_msg ''ZK Scraper: %d queries run, %d successful, %d errors''
                               [1, 1, 0]],
                          queries := queries st @ [q]\<rparr>))"
proof (intro conjI impI)
  show "case createZKMetric jp c cfg q d st of Inl pn \<Rightarrow> True | Inr (ok, st') \<Rightarrow> ok"
    using q n by (simp add: createZKMetric_def Let_def split: sum.splits)
next
  assume "two_label_desc d \<and> names_valid_from jp j n 0"
  then have d: "two_label_desc d" and v: "binding_names_valid jp c cfg q"
    using q n by (simp_all add: binding_names_valid_def)
  show "createZKMetric jp c cfg q d st =
          Inr (True, st\<lparr>queries := queries st @ [q], ch := ch st @ series_samples jp j d n\<rparr>)"
    using q n by (simp add: createZKMetric_eq[OF d v] binding_ok_def binding_samples_def)
next
  assume a: "\<forall>k. 0 \<le> k \<and> k < n \<longrightarrow> isl (Get_timeseries_query_value jp j k)"
  have loop: "series_loop jp j d n 0 st' = Inr st'" for st'
    by (rule series_loop_no_values) (use a in simp)
  show c: "createZKMetric jp c cfg q d st = Inr (True, st\<lparr>queries := queries st @ [q]\<rparr>)"
    using q n by (simp add: createZKMetric_def loop Let_def)
  have c': "createZKMetric jp c cfg q d st' = Inr (True, st'\<lparr>queries := queries st' @ [q]\<rparr>)"
    for st'
    using q n by (simp add: createZKMetric_def loop Let_def)
  show "Scrape jp [\<lparr>Query = q, Metric_struct = d\<rparr>] (\<lambda>i. c) cfg st =
          Inr (None,
               st\<lparr>debug_log := debug_log st @
                    [Debug_msg ''Executing ZooKeeper Metrics Scraper'' [],
                     Debug_msg ''ZK Scraper: %d queries run, %d successful, %d errors''
                       [1, 1, 0]],
                  queries := queries st @ [q]\<rparr>)"
    by (simp add: Scrape_def c' Let_def)
qed

theorem createZKMetric_true_without_samples_witness:
  "make_and_parse_timeseries_query demo_helpers False () ''nodata'' = Inr [(''C1'', ''zk1'', None)]
   \<and> Get_timeseries_num demo_helpers [(''C1'', ''zk1'', None)] = Inr 1
   \<and> isl (Get_timeseries_query_value demo_helpers [(''C1'', ''zk1'', None)] 0)
   \<and> createZKMetric demo_helpers False () ''nodata'' (demo_desc ''c'') empty_scrape_state =
       Inr (True, \<lparr>ch = [], debug_log = [], queries = [''nodata'']\<rparr>)
   \<and> Scrape demo_helpers [\<lparr>Query = ''nodata'', Metric_struct = demo_desc ''c''\<rparr>]
         never_cancelled () empty_scrape_state =
       Inr (None,
            \<lparr>ch = [],
              debug_log =
                [Debug_msg ''Executing ZooKeeper Metrics Scraper'' [],
                 Debug_msg ''ZK Scraper: %d queries run, %d successful, %d errors'' [1, 1, 0]],
              queries = [''nodata'']\<rparr>)
   \<and> two_label_desc (demo_desc ''a'')
   \<and> names_valid_from demo_helpers [(''C1'', ''zk1'', Some 1), (''C1'', ''zk2'', Some 2.5)] 2 0
   \<and> createZKMetric demo_helpers False () ''up'' (demo_desc ''a'') empty_scrape_state =
       Inr (True,
            \<lparr>ch = [\<lparr>desc = demo_desc ''a'', valueType = GaugeValue, val = 1,
                     labelValues = [''C1'', ''zk1'']\<rparr>,
                   \<lparr>desc = demo_desc ''a'', valueType = GaugeValue, val = 2.5,
                     labelValues = [''C1'', ''zk2'']\<rparr>],
              debug_log = [], queries = [''up'']\<rparr>)"
proof -
  let ?j = "[(''C1'', ''zk1'', Some (1 :: real)), (''C1'', ''zk2'', Some 2.5)]"
  have q: "make_and_parse_timeseries_query demo_helpers False () ''nodata''
             = Inr [(''C1'', ''zk1'', None)]"
    by (simp add: demo_helpers_def)
  have n: "Get_timeseries_num demo_helpers [(''C1'', ''zk1'', None)] = Inr 1"
    by (simp add: demo_helpers_def)
  have v: "\<forall>k. 0 \<le> k \<and> k < 1 \<longrightarrow>
             isl (Get_timeseries_query_value demo_helpers [(''C1'', ''zk1'', None)] k)"
  proof (intro allI impI)
    fix k :: int
    assume "0 \<le> k \<and> k < 1"
    then have "k = 0" by simp
    then show "isl (Get_timeseries_query_value demo_helpers [(''C1'', ''zk1'', None)] k)"
      by (simp add: demo_helpers_def)
  qed
  have nc: "never_cancelled = (\<lambda>i. False)"
    by (simp add: never_cancelled_def fun_eq_iff)
  have nodata:
    "isl (Get_timeseries_query_value demo_helpers [(''C1'', ''zk1'', None)] 0)
     \<and> createZKMetric demo_helpers False () ''nodata'' (demo_desc ''c'') empty_scrape_state =
         Inr (True, \<lparr>ch = [], debug_log = [], queries = [''nodata'']\<rparr>)
     \<and> Scrape demo_helpers [\<lparr>Query = ''nodata'', Metric_struct = demo_desc ''c''\<rparr>]
           never_cancelled () empty_scrape_state =
         Inr (None,
              \<lparr>ch = [],
                debug_log =
                  [Debug_msg ''Executing ZooKeeper Metrics Scraper'' [],
                   Debug_msg ''ZK Scraper: %d queries run, %d successful, %d errors''
                     [1, 1, 0]],
                queries = [''nodata'']\<rparr>)"
    using createZKMetric_true_without_samples[OF q n, of "demo_desc ''c''" empty_scrape_state] v
    by (simp add: empty_scrape_state_def nc demo_helpers_def)
  have q2: "make_and_parse_timeseries_query demo_helpers False () ''up'' = Inr ?j"
    by (simp add: demo_helpers_def)
  have n2: "Get_timeseries_num demo_helpers ?j = Inr 2"
    by (simp add: demo_helpers_def)
  have nv: "names_valid_from demo_helpers ?j 2 0"
    by (simp add: names_valid_from_def demo_helpers_def upto_rec1 demo_names_valid)
  have smp: "series_samples demo_helpers ?j (demo_desc ''a'') 2 =
       [\<lparr>desc = demo_desc ''a'', valueType = GaugeValue, val = 1,
          labelValues = [''C1'', ''zk1'']\<rparr>,
        \<lparr>desc = demo_desc ''a'', valueType = GaugeValue, val = 2.5,
          labelValues = [''C1'', ''zk2'']\<rparr>]"
    by (simp add: series_samples_def series_sample_def demo_helpers_def upto_rec1)
  have up: "createZKMetric demo_helpers False () ''up'' (demo_desc ''a'') empty_scrape_state =
       Inr (True,
            \<lparr>ch = [\<lparr>desc = demo_desc ''a'', valueType = GaugeValue, val = 1,
                     labelValues = [''C1'', ''zk1'']\<rparr>,
                   \<lparr>desc = demo_desc ''a'', valueType = GaugeValue, val = 2.5,
                     labelValues = [''C1'', ''zk2'']\<rparr>],
              debug_log = [], queries = [''up'']\<rparr>)"
    using createZKMetric_true_without_samples[OF q2 n2, of "demo_desc ''a''" empty_scrape_state]
      demo_desc_accepted(1) nv smp
    by (simp add: empty_scrape_state_def)
  show ?thesis
    using q n nodata demo_desc_accepted(1) nv up by blast
qed

end
